theory Spec2Isabelle
  imports Main "HOL-Library.Sublist"
begin

section \<open>Python values\<close>

text \<open>
  The scripts are dynamically typed: what the command line parser stores, what the client
  package returns and what \<^verbatim>\<open>json.dumps\<close> receives are Python objects. The model keeps
  one type for all of them. Strings are \<^typ>\<open>string\<close>, so a character is a code point
  below 256. A float is kept as the text \<^verbatim>\<open>repr\<close> prints for it. \<open>PObj cls s r\<close> is an
  instance of any other class: \<open>cls\<close> is the class name, \<open>s\<close> what \<^verbatim>\<open>str\<close> gives and
  \<open>r\<close> what \<^verbatim>\<open>repr\<close> gives; \<^verbatim>\<open>json.dumps\<close> rejects it. A tuple is not a list for
  \<^verbatim>\<open>isinstance\<close>, but \<^verbatim>\<open>json.dumps\<close> encodes it as an array. Dictionaries are keyed by
  strings, in insertion order.
\<close>

datatype pyval =
    PNone
  | PBool bool
  | PInt int
  | PFloat string
  | PStr string
  | PList "pyval list"
  | PTuple "pyval list"
  | PDict "(string \<times> pyval) list"
  | PObj string string string

subsection \<open>Decimal numerals\<close>

definition digit_char :: "nat \<Rightarrow> char" where
  "digit_char d = char_of (48 + d)"

function show_nat :: "nat \<Rightarrow> string" where
  "show_nat n = (if n < 10 then [digit_char n] else show_nat (n div 10) @ [digit_char (n mod 10)])"
  by pat_completeness auto
termination
  by (relation "measure id") auto

declare show_nat.simps [simp del]

definition show_int :: "int \<Rightarrow> string" where
  "show_int i = (if i < 0 then CHR ''-'' # show_nat (nat (- i)) else show_nat (nat i))"

text \<open>Reading a plain run of decimal digits back, most significant digit first.\<close>

definition is_digit :: "char \<Rightarrow> bool" where
  "is_digit c = (48 \<le> (of_char c :: nat) \<and> (of_char c :: nat) \<le> 57)"

definition digits_value :: "string \<Rightarrow> nat" where
  "digits_value ds = foldl (\<lambda>acc c. 10 * acc + ((of_char c :: nat) - 48)) 0 ds"

subsection \<open>\<^verbatim>\<open>str\<close> and \<^verbatim>\<open>repr\<close>\<close>

definition hex_char :: "nat \<Rightarrow> char" where
  "hex_char d = (if d < 10 then char_of (48 + d) else char_of (87 + d))"

text \<open>\<^verbatim>\<open>str.isprintable\<close> on one character below 256.\<close>

definition is_printable :: "char \<Rightarrow> bool" where
  "is_printable c =
     (let n = (of_char c :: nat)
      in (32 \<le> n \<and> n < 127) \<or> (161 \<le> n \<and> n \<noteq> 173))"

definition repr_char :: "char \<Rightarrow> char \<Rightarrow> string" where
  "repr_char quote c =
     (if c = quote \<or> c = CHR 0x5C then [CHR 0x5C, c]
      else if c = CHR 0x09 then [CHR 0x5C, CHR ''t'']
      else if c = CHR 0x0A then [CHR 0x5C, CHR ''n'']
      else if c = CHR 0x0D then [CHR 0x5C, CHR ''r'']
      else if is_printable c then [c]
      else [CHR 0x5C, CHR ''x'', hex_char ((of_char c :: nat) div 16),
            hex_char ((of_char c :: nat) mod 16)])"

text \<open>
  \<^verbatim>\<open>repr\<close> of a string: double quotes when the text has a single quote and no double
  quote, single quotes otherwise.
\<close>

definition str_repr :: "string \<Rightarrow> string" where
  "str_repr s =
     (let quote = (if CHR 0x27 \<in> set s \<and> CHR 0x22 \<notin> set s then CHR 0x22 else CHR 0x27)
      in quote # concat (map (repr_char quote) s) @ [quote])"

fun join :: "string \<Rightarrow> string list \<Rightarrow> string" where
  "join sep [] = []"
| "join sep [x] = x"
| "join sep (x # y # ys) = x @ sep @ join sep (y # ys)"

fun py_repr :: "pyval \<Rightarrow> string" where
  "py_repr PNone = ''None''"
| "py_repr (PBool b) = (if b then ''True'' else ''False'')"
| "py_repr (PInt i) = show_int i"
| "py_repr (PFloat r) = r"
| "py_repr (PStr s) = str_repr s"
| "py_repr (PList xs) = ''['' @ join '', '' (map py_repr xs) @ '']''"
| "py_repr (PTuple [x]) = ''('' @ py_repr x @ '',)''"
| "py_repr (PTuple xs) = ''('' @ join '', '' (map py_repr xs) @ '')''"
| "py_repr (PDict kvs) =
     ''{'' @ join '', '' (map (\<lambda>kv. str_repr (fst kv) @ '': '' @ py_repr (snd kv)) kvs) @ ''}''"
| "py_repr (PObj cls s r) = r"

definition py_str :: "pyval \<Rightarrow> string" where
  "py_str v = (case v of PStr s \<Rightarrow> s | PObj cls s r \<Rightarrow> s | _ \<Rightarrow> py_repr v)"

subsection \<open>Truth value, \<^verbatim>\<open>isinstance\<close>, \<^verbatim>\<open>len\<close>\<close>

definition truthy :: "pyval \<Rightarrow> bool" where
  "truthy v =
     (case v of
        PNone \<Rightarrow> False
      | PBool b \<Rightarrow> b
      | PInt i \<Rightarrow> i \<noteq> 0
      | PFloat r \<Rightarrow> r \<noteq> ''0.0'' \<and> r \<noteq> ''-0.0''
      | PStr s \<Rightarrow> s \<noteq> []
      | PList xs \<Rightarrow> xs \<noteq> []
      | PTuple xs \<Rightarrow> xs \<noteq> []
      | PDict kvs \<Rightarrow> kvs \<noteq> []
      | PObj cls s r \<Rightarrow> True)"

definition is_list :: "pyval \<Rightarrow> bool" where
  "is_list v = (case v of PList xs \<Rightarrow> True | _ \<Rightarrow> False)"

definition is_dict :: "pyval \<Rightarrow> bool" where
  "is_dict v = (case v of PDict kvs \<Rightarrow> True | _ \<Rightarrow> False)"

text \<open>\<^verbatim>\<open>len\<close> is only ever applied behind an \<^verbatim>\<open>isinstance(_, list)\<close> test.\<close>

definition list_len :: "pyval \<Rightarrow> nat" where
  "list_len v = (case v of PList xs \<Rightarrow> length xs | _ \<Rightarrow> 0)"

subsection \<open>\<^verbatim>\<open>json.dumps\<close>\<close>

text \<open>
  \<^verbatim>\<open>json.dumps\<close> walks the value in order and raises \<^verbatim>\<open>TypeError\<close> at the first object
  it cannot encode. \<open>unserialisable v\<close> is the class name of that object, if any. The
  layout of the text (\<^verbatim>\<open>indent=2\<close> or compact) is not modelled: a printed document is
  identified with the value that was encoded.
\<close>

fun first_some :: "'a option list \<Rightarrow> 'a option" where
  "first_some [] = None"
| "first_some (None # xs) = first_some xs"
| "first_some (Some x # xs) = Some x"

fun unserialisable :: "pyval \<Rightarrow> string option" where
  "unserialisable (PList xs) = first_some (map unserialisable xs)"
| "unserialisable (PTuple xs) = first_some (map unserialisable xs)"
| "unserialisable (PDict kvs) = first_some (map (\<lambda>kv. unserialisable (snd kv)) kvs)"
| "unserialisable (PObj cls s r) = Some cls"
| "unserialisable v = None"

subsection \<open>\<^verbatim>\<open>str.strip\<close>, \<^verbatim>\<open>str.split\<close>, \<^verbatim>\<open>int\<close>\<close>

text \<open>The characters below 256 that Python counts as whitespace.\<close>

definition is_space :: "char \<Rightarrow> bool" where
  "is_space c =
     (let n = (of_char c :: nat)
      in (9 \<le> n \<and> n \<le> 13) \<or> (28 \<le> n \<and> n \<le> 32) \<or> n = 133 \<or> n = 160)"

definition strip :: "string \<Rightarrow> string" where
  "strip s = rev (dropWhile is_space (rev (dropWhile is_space s)))"

text \<open>
  \<^verbatim>\<open>s.split(sep)\<close> for a one-character separator: the pieces between the separators,
  empty pieces included, so the result is never empty.
\<close>

fun split_on :: "char \<Rightarrow> string \<Rightarrow> string list" where
  "split_on sep [] = [[]]"
| "split_on sep (c # cs) =
     (let r = split_on sep cs
      in if c = sep then [] # r else (c # hd r) # tl r)"

text \<open>
  \<^verbatim>\<open>int(s)\<close>: surrounding whitespace, one optional sign, decimal digits with single
  underscores between them. \<open>None\<close> stands for \<^verbatim>\<open>ValueError\<close>. The whitespace \<^verbatim>\<open>int\<close>
  skips is narrower than that of \<^verbatim>\<open>str.strip\<close>: the separators U+001C to U+001F are not
  skipped, so \<^verbatim>\<open>int\<close> rejects a string that holds one. The interpreter's cap on the number
  of digits it converts is not modelled.
\<close>

definition is_int_space :: "char \<Rightarrow> bool" where
  "is_int_space c =
     (let n = (of_char c :: nat)
      in (9 \<le> n \<and> n \<le> 13) \<or> n = 32 \<or> n = 133 \<or> n = 160)"

definition int_strip :: "string \<Rightarrow> string" where
  "int_strip s = rev (dropWhile is_int_space (rev (dropWhile is_int_space s)))"

fun digits_ok :: "string \<Rightarrow> bool" where
  "digits_ok [] = False"
| "digits_ok [c] = is_digit c"
| "digits_ok (c # d # r) =
     (is_digit c \<and> (if d = CHR ''_'' then digits_ok r else digits_ok (d # r)))"

definition py_int :: "string \<Rightarrow> int option" where
  "py_int s =
     (let t = int_strip s;
          neg = (t \<noteq> [] \<and> hd t = CHR ''-'');
          body = (if t \<noteq> [] \<and> (hd t = CHR ''-'' \<or> hd t = CHR ''+'') then tl t else t);
          v = int (digits_value (filter (\<lambda>c. c \<noteq> CHR ''_'') body))
      in if digits_ok body then Some (if neg then - v else v) else None)"

section \<open>The command line\<close>

text \<open>
  Seven scripts declare an \<^verbatim>\<open>argparse\<close> parser. The command line is given as
  \<^verbatim>\<open>argparse\<close> classifies it: a token is a positional argument or an occurrence of an
  option string with the value that came with it, if any. How \<^verbatim>\<open>argparse\<close> cuts
  \<^verbatim>\<open>sys.argv\<close> into such tokens (abbreviated option strings, \<^verbatim>\<open>--flag=value\<close>) is its
  own business and is not modelled.
\<close>

datatype token = Arg string | Opt string "string option"

datatype arg_type = As_str | As_int

text \<open>
  One \<^verbatim>\<open>add_argument\<close> call: a positional (its name and \<^verbatim>\<open>choices\<close>), a storing option
  (option string, \<^verbatim>\<open>type\<close>, \<^verbatim>\<open>choices\<close>, \<^verbatim>\<open>default\<close>) or a \<^verbatim>\<open>store_true\<close> option.
\<close>

datatype arg_decl =
    Positional string "string list option"
  | Store string arg_type "string list option" pyval
  | Store_true string

type_synonym namespace = "string \<Rightarrow> pyval"

datatype parsed = Usage_error | Help | Parsed namespace

text \<open>The attribute an option is stored under: \<^verbatim>\<open>--base-url\<close> becomes \<^verbatim>\<open>base_url\<close>.\<close>

definition dest_of :: "string \<Rightarrow> string" where
  "dest_of flag =
     map (\<lambda>c. if c = CHR ''-'' then CHR ''_'' else c) (dropWhile (\<lambda>c. c = CHR ''-'') flag)"

fun defaults :: "arg_decl list \<Rightarrow> namespace" where
  "defaults [] = (\<lambda>a. PNone)"
| "defaults (Positional d cs # ds) = (defaults ds)(d := PNone)"
| "defaults (Store f t cs dflt # ds) = (defaults ds)(dest_of f := dflt)"
| "defaults (Store_true f # ds) = (defaults ds)(dest_of f := PBool False)"

fun positionals :: "arg_decl list \<Rightarrow> (string \<times> string list option) list" where
  "positionals [] = []"
| "positionals (Positional d cs # ds) = (d, cs) # positionals ds"
| "positionals (d # ds) = positionals ds"

fun find_flag :: "string \<Rightarrow> arg_decl list \<Rightarrow> arg_decl option" where
  "find_flag f [] = None"
| "find_flag f (Positional d cs # ds) = find_flag f ds"
| "find_flag f (Store g t cs dflt # ds) =
     (if f = g then Some (Store g t cs dflt) else find_flag f ds)"
| "find_flag f (Store_true g # ds) = (if f = g then Some (Store_true g) else find_flag f ds)"

definition convert :: "arg_type \<Rightarrow> string \<Rightarrow> pyval option" where
  "convert t s = (case t of As_str \<Rightarrow> Some (PStr s) | As_int \<Rightarrow> map_option PInt (py_int s))"

definition in_choices :: "string list option \<Rightarrow> pyval \<Rightarrow> bool" where
  "in_choices cs v = (case cs of None \<Rightarrow> True | Some xs \<Rightarrow> v \<in> set (map PStr xs))"

text \<open>
  The tokens are consumed in order. A bad value, a missing value or a value outside
  \<^verbatim>\<open>choices\<close> is a usage error on the spot; \<^verbatim>\<open>-h\<close> prints the help and exits on the
  spot; an unknown option or a surplus positional is remembered and, like a missing
  positional, reported at the end.
\<close>

fun consume ::
  "arg_decl list \<Rightarrow> (string \<times> string list option) list \<Rightarrow> bool \<Rightarrow> namespace \<Rightarrow> token list \<Rightarrow> parsed"
where
  "consume ds pending extras ns [] =
     (if pending \<noteq> [] \<or> extras then Usage_error else Parsed ns)"
| "consume ds pending extras ns (Arg s # ts) =
     (case pending of
        [] \<Rightarrow> consume ds [] True ns ts
      | p # ps \<Rightarrow>
          if in_choices (snd p) (PStr s) then consume ds ps extras (ns(fst p := PStr s)) ts
          else Usage_error)"
| "consume ds pending extras ns (Opt f v # ts) =
     (if f = ''-h'' \<or> f = ''--help'' then (case v of None \<Rightarrow> Help | Some x \<Rightarrow> Usage_error)
      else
        (case find_flag f ds of
           None \<Rightarrow> consume ds pending True ns ts
         | Some (Positional d cs) \<Rightarrow> consume ds pending True ns ts
         | Some (Store g t cs dflt) \<Rightarrow>
             (case v of
                None \<Rightarrow> Usage_error
              | Some s \<Rightarrow>
                  (case convert t s of
                     None \<Rightarrow> Usage_error
                   | Some x \<Rightarrow>
                       if in_choices cs x then consume ds pending extras (ns(dest_of f := x)) ts
                       else Usage_error))
         | Some (Store_true g) \<Rightarrow>
             (case v of
                None \<Rightarrow> consume ds pending extras (ns(dest_of f := PBool True)) ts
              | Some x \<Rightarrow> Usage_error)))"

definition parse_args :: "arg_decl list \<Rightarrow> token list \<Rightarrow> parsed" where
  "parse_args ds argv = consume ds (positionals ds) False (defaults ds) argv"

section \<open>The world outside a script\<close>

text \<open>
  A call into the \<^verbatim>\<open>agenttext\<close> package is recorded by its dotted name, its positional
  arguments and its keyword arguments. The package is not part of the repository: what a
  call does is a parameter of the model.
\<close>

datatype call = Call string "pyval list" "(string \<times> pyval) list"

text \<open>
  An exception is identified by the first \<^verbatim>\<open>except\<close> clause that catches it, and carries
  what \<^verbatim>\<open>str(e)\<close> gives. \<open>OtherException\<close> is any other subclass of \<^verbatim>\<open>Exception\<close>;
  \<open>KeyboardInterrupt\<close> and \<open>SystemExit\<close> (raised by \<^verbatim>\<open>sys.exit\<close>, with the exit code)
  are not, so \<^verbatim>\<open>except Exception\<close> lets them through.
\<close>

datatype exc =
    FileNotFoundError string
  | JSONDecodeError string
  | AgentTextConnectionException string
  | AgentTextAPIException string
  | OtherException string
  | KeyboardInterrupt
  | SystemExit int

definition exc_str :: "exc \<Rightarrow> string" where
  "exc_str e =
     (case e of
        FileNotFoundError m \<Rightarrow> m
      | JSONDecodeError m \<Rightarrow> m
      | AgentTextConnectionException m \<Rightarrow> m
      | AgentTextAPIException m \<Rightarrow> m
      | OtherException m \<Rightarrow> m
      | KeyboardInterrupt \<Rightarrow> []
      | SystemExit n \<Rightarrow> show_int n)"

datatype outcome = Returns pyval | Raises exc

text \<open>
  \<open>import_ok\<close>: whether \<^verbatim>\<open>from agenttext import ...\<close> succeeds (otherwise it raises
  \<^verbatim>\<open>ImportError\<close>). \<open>client\<close>: what a call into the package does. \<open>path_exists\<close>:
  \<^verbatim>\<open>os.path.exists\<close>. \<open>load_json\<close>: opening a file and \<^verbatim>\<open>json.load\<close> on it.
  \<open>sleep i\<close>: the \<open>i\<close>-th \<^verbatim>\<open>time.sleep(1)\<close> of the watch loop, which returns or is
  interrupted.
\<close>

record env =
  import_ok :: bool
  client :: "call \<Rightarrow> outcome"
  path_exists :: "string \<Rightarrow> bool"
  load_json :: "string \<Rightarrow> outcome"
  sleep :: "nat \<Rightarrow> outcome"

text \<open>
  What a run leaves behind: the calls made into the package, in order, and what was
  written to standard output. A process ends with an exit code or is brought down by an
  exception that nothing caught (a traceback, no exit code of the script's choosing).
\<close>

datatype line = Json pyval | Help_text

datatype status = Exited int | Uncaught exc

record world =
  calls :: "call list"
  stdout :: "line list"

definition w0 :: world where
  "w0 = \<lparr>calls = [], stdout = []\<rparr>"

definition emit :: "line \<Rightarrow> world \<Rightarrow> world" where
  "emit l w = w\<lparr>stdout := stdout w @ [l]\<rparr>"

definition invoke :: "env \<Rightarrow> call \<Rightarrow> world \<Rightarrow> outcome \<times> world" where
  "invoke e c w = (client e c, w\<lparr>calls := calls w @ [c]\<rparr>)"

text \<open>\<^verbatim>\<open>print(json.dumps(v))\<close> inside a \<^verbatim>\<open>try\<close>: the \<^verbatim>\<open>TypeError\<close> is raised before anything is printed.\<close>

definition print_json :: "pyval \<Rightarrow> world \<Rightarrow> exc option \<times> world" where
  "print_json v w =
     (case unserialisable v of
        Some cls \<Rightarrow> (Some (OtherException (''Object of type '' @ cls @ '' is not JSON serializable'')), w)
      | None \<Rightarrow> (None, emit (Json v) w))"

definition failure :: "string \<Rightarrow> pyval" where
  "failure msg = PDict [(''success'', PBool False), (''error'', PStr msg)]"

text \<open>The class name \<^verbatim>\<open>type(v).__name__\<close>, as error messages quote it.\<close>

definition type_name :: "pyval \<Rightarrow> string" where
  "type_name v =
     (case v of
        PNone \<Rightarrow> ''NoneType''
      | PBool b \<Rightarrow> ''bool''
      | PInt i \<Rightarrow> ''int''
      | PFloat r \<Rightarrow> ''float''
      | PStr s \<Rightarrow> ''str''
      | PList xs \<Rightarrow> ''list''
      | PTuple xs \<Rightarrow> ''tuple''
      | PDict kvs \<Rightarrow> ''dict''
      | PObj cls s r \<Rightarrow> cls)"

section \<open>The shape shared by the scripts\<close>

text \<open>
  \<^verbatim>\<open>parser.parse_args()\<close> stands outside every \<^verbatim>\<open>try\<close>: a usage error ends the process
  with code 2 and a usage message on standard error, \<^verbatim>\<open>-h\<close> prints the help text and
  ends it with code 0.
\<close>

definition with_args ::
  "arg_decl list \<Rightarrow> token list \<Rightarrow> (namespace \<Rightarrow> status \<times> world) \<Rightarrow> status \<times> world"
where
  "with_args ds argv k =
     (case parse_args ds argv of
        Usage_error \<Rightarrow> (Exited 2, w0)
      | Help \<Rightarrow> (Exited 0, emit Help_text w0)
      | Parsed args \<Rightarrow> k args)"

text \<open>
  A \<^verbatim>\<open>try\<close> statement that is the last statement of \<^verbatim>\<open>main\<close>: when the body runs to its
  end, \<^verbatim>\<open>main\<close> returns and the process ends with code 0; otherwise the handlers decide.
\<close>

definition try_except ::
  "(world \<Rightarrow> exc option \<times> world) \<Rightarrow> (exc \<Rightarrow> world \<Rightarrow> status \<times> world) \<Rightarrow> world \<Rightarrow> status \<times> world"
where
  "try_except body handlers w =
     (case body w of
        (None, w') \<Rightarrow> (Exited 0, w')
      | (Some e, w') \<Rightarrow> handlers e w')"

text \<open>
  The exit status of \<^verbatim>\<open>sys.exit(n)\<close>: the interpreter hands \<open>n\<close> to the C library as a
  \<^verbatim>\<open>long\<close> (64 bits here; a value that does not fit becomes \<open>-1\<close>), and the parent process
  sees its low eight bits.
\<close>

definition exit_code :: "int \<Rightarrow> int" where
  "exit_code n = (if - (2 ^ 63) \<le> n \<and> n < 2 ^ 63 then n mod 256 else 255)"

text \<open>An exception that no \<^verbatim>\<open>except\<close> clause of the script catches.\<close>

definition propagate :: "exc \<Rightarrow> status" where
  "propagate e = (case e of SystemExit n \<Rightarrow> Exited (exit_code n) | _ \<Rightarrow> Uncaught e)"

text \<open>
  The three \<^verbatim>\<open>except\<close> clauses that end \<^verbatim>\<open>main\<close> in \<^verbatim>\<open>send_file.py\<close>, \<^verbatim>\<open>send_message.py\<close>,
  \<^verbatim>\<open>get_messages.py\<close>, \<^verbatim>\<open>get_unread.py\<close>, \<^verbatim>\<open>list_chats.py\<close> and \<^verbatim>\<open>watcher.py\<close> (the same
  text in each), and the last three of \<^verbatim>\<open>batch_send.py\<close>.
\<close>

definition client_handlers :: "namespace \<Rightarrow> exc \<Rightarrow> world \<Rightarrow> status \<times> world" where
  "client_handlers args e w =
     (case e of
        AgentTextConnectionException m \<Rightarrow>
          (Exited 1,
           emit (Json (failure (''Connection error: '' @ m
                   @ ''. Make sure the API server is running on '' @ py_str (args ''base_url'')))) w)
      | AgentTextAPIException m \<Rightarrow> (Exited 1, emit (Json (failure (''API error: '' @ m))) w)
      | KeyboardInterrupt \<Rightarrow> (propagate e, w)
      | SystemExit n \<Rightarrow> (propagate e, w)
      | _ \<Rightarrow> (Exited 1, emit (Json (failure (exc_str e))) w))"

text \<open>\<^verbatim>\<open>AgentText(base_url=args.base_url, timeout=30)\<close>\<close>

definition construct :: "env \<Rightarrow> namespace \<Rightarrow> world \<Rightarrow> outcome \<times> world" where
  "construct e args w =
     invoke e (Call ''AgentText'' [] [(''base_url'', args ''base_url''), (''timeout'', PInt 30)]) w"

text \<open>\<^verbatim>\<open>result if isinstance(result, dict) else str(result)\<close>\<close>

definition dict_or_str :: "pyval \<Rightarrow> pyval" where
  "dict_or_str result = (if is_dict result then result else PStr (py_str result))"

text \<open>The \<^verbatim>\<open>except ImportError\<close> guard at the top of every script but \<^verbatim>\<open>watch_messages.py\<close>.\<close>

definition not_installed :: pyval where
  "not_installed =
     failure ''AgentText package not installed. Run: pip3 install -e /path/to/agenttext_package''"

definition import_guard :: "env \<Rightarrow> pyval \<Rightarrow> status \<times> world \<Rightarrow> status \<times> world" where
  "import_guard e msg rest = (if import_ok e then rest else (Exited 1, emit (Json msg) w0))"

section \<open>\<^verbatim>\<open>send_message.py\<close>\<close>

definition send_message_parser :: "arg_decl list" where
  "send_message_parser =
     [Positional ''recipient'' None,
      Positional ''message'' None,
      Store ''--files'' As_str None PNone,
      Store ''--base-url'' As_str None (PStr ''http://localhost:3000'')]"

definition send_message_try :: "env \<Rightarrow> namespace \<Rightarrow> world \<Rightarrow> exc option \<times> world" where
  "send_message_try e args w =
     (case construct e args w of
        (Raises x, w1) \<Rightarrow> (Some x, w1)
      | (Returns cl, w1) \<Rightarrow>
          (case
             (if truthy (args ''files'') then
                (case args ''files'' of
                   PStr files \<Rightarrow>
                     invoke e (Call ''client.messages.send_files'' []
                       [(''to'', args ''recipient''),
                        (''file_paths'', PList (map (\<lambda>f. PStr (strip f)) (split_on CHR '','' files))),
                        (''text'', args ''message'')]) w1
                 | v \<Rightarrow>
                     (Raises (OtherException
                        ([CHR 0x27] @ type_name v @ [CHR 0x27] @ '' object has no attribute ''
                         @ [CHR 0x27] @ ''split'' @ [CHR 0x27])), w1))
              else
                invoke e (Call ''client.messages.send'' []
                  [(''to'', args ''recipient''), (''content'', args ''message'')]) w1)
           of
             (Raises x, w2) \<Rightarrow> (Some x, w2)
           | (Returns result, w2) \<Rightarrow>
               print_json (PDict
                 [(''success'', PBool True),
                  (''message'', PStr (''Message sent to '' @ py_str (args ''recipient''))),
                  (''result'', dict_or_str result)]) w2))"

definition send_message_main :: "env \<Rightarrow> token list \<Rightarrow> status \<times> world" where
  "send_message_main e argv =
     with_args send_message_parser argv
       (\<lambda>args. try_except (send_message_try e args) (client_handlers args) w0)"

definition send_message :: "env \<Rightarrow> token list \<Rightarrow> status \<times> world" where
  "send_message e argv = import_guard e not_installed (send_message_main e argv)"

section \<open>\<^verbatim>\<open>send_file.py\<close>\<close>

definition send_file_parser :: "arg_decl list" where
  "send_file_parser =
     [Positional ''recipient'' None,
      Positional ''file_path'' None,
      Store ''--text'' As_str None PNone,
      Store ''--base-url'' As_str None (PStr ''http://localhost:3000'')]"

definition send_file_try :: "env \<Rightarrow> namespace \<Rightarrow> world \<Rightarrow> exc option \<times> world" where
  "send_file_try e args w =
     (case construct e args w of
        (Raises x, w1) \<Rightarrow> (Some x, w1)
      | (Returns cl, w1) \<Rightarrow>
          (case invoke e (Call ''client.messages.send_file'' []
                  [(''to'', args ''recipient''),
                   (''file_path'', args ''file_path''),
                   (''text'', args ''text'')]) w1
           of
             (Raises x, w2) \<Rightarrow> (Some x, w2)
           | (Returns result, w2) \<Rightarrow>
               print_json (PDict
                 [(''success'', PBool True),
                  (''message'', PStr (''File sent to '' @ py_str (args ''recipient''))),
                  (''file'', args ''file_path''),
                  (''result'', dict_or_str result)]) w2))"

definition send_file_main :: "env \<Rightarrow> token list \<Rightarrow> status \<times> world" where
  "send_file_main e argv =
     with_args send_file_parser argv
       (\<lambda>args.
          if \<not> path_exists e (py_str (args ''file_path'')) then
            (Exited 1, emit (Json (failure (''File not found: '' @ py_str (args ''file_path'')))) w0)
          else try_except (send_file_try e args) (client_handlers args) w0)"

definition send_file :: "env \<Rightarrow> token list \<Rightarrow> status \<times> world" where
  "send_file e argv = import_guard e not_installed (send_file_main e argv)"

section \<open>\<^verbatim>\<open>get_messages.py\<close>\<close>

definition get_messages_parser :: "arg_decl list" where
  "get_messages_parser =
     [Store ''--limit'' As_int None (PInt 10),
      Store ''--sender'' As_str None PNone,
      Store_true ''--unread-only'',
      Store ''--base-url'' As_str None (PStr ''http://localhost:3000'')]"

definition get_messages_filters :: "namespace \<Rightarrow> (string \<times> pyval) list" where
  "get_messages_filters args =
     [(''limit'', args ''limit'')]
     @ (if truthy (args ''sender'') then [(''sender'', args ''sender'')] else [])
     @ (if truthy (args ''unread_only'') then [(''unreadOnly'', PBool True)] else [])"

definition get_messages_try :: "env \<Rightarrow> namespace \<Rightarrow> world \<Rightarrow> exc option \<times> world" where
  "get_messages_try e args w =
     (case construct e args w of
        (Raises x, w1) \<Rightarrow> (Some x, w1)
      | (Returns cl, w1) \<Rightarrow>
          (case invoke e (Call ''client.messages.list'' [] (get_messages_filters args)) w1 of
             (Raises x, w2) \<Rightarrow> (Some x, w2)
           | (Returns messages, w2) \<Rightarrow>
               print_json (PDict
                 [(''success'', PBool True),
                  (''messages'', if is_list messages \<or> is_dict messages then messages else PList []),
                  (''count'', if is_list messages then PInt (int (list_len messages)) else PInt 0)]) w2))"

definition get_messages_main :: "env \<Rightarrow> token list \<Rightarrow> status \<times> world" where
  "get_messages_main e argv =
     with_args get_messages_parser argv
       (\<lambda>args. try_except (get_messages_try e args) (client_handlers args) w0)"

definition get_messages :: "env \<Rightarrow> token list \<Rightarrow> status \<times> world" where
  "get_messages e argv = import_guard e not_installed (get_messages_main e argv)"

section \<open>\<^verbatim>\<open>get_unread.py\<close>\<close>

definition get_unread_parser :: "arg_decl list" where
  "get_unread_parser = [Store ''--base-url'' As_str None (PStr ''http://localhost:3000'')]"

definition get_unread_try :: "env \<Rightarrow> namespace \<Rightarrow> world \<Rightarrow> exc option \<times> world" where
  "get_unread_try e args w =
     (case construct e args w of
        (Raises x, w1) \<Rightarrow> (Some x, w1)
      | (Returns cl, w1) \<Rightarrow>
          (case invoke e (Call ''client.messages.get_unread'' [] []) w1 of
             (Raises x, w2) \<Rightarrow> (Some x, w2)
           | (Returns unread, w2) \<Rightarrow>
               print_json (PDict [(''success'', PBool True), (''unread'', unread)]) w2))"

definition get_unread_main :: "env \<Rightarrow> token list \<Rightarrow> status \<times> world" where
  "get_unread_main e argv =
     with_args get_unread_parser argv
       (\<lambda>args. try_except (get_unread_try e args) (client_handlers args) w0)"

definition get_unread :: "env \<Rightarrow> token list \<Rightarrow> status \<times> world" where
  "get_unread e argv = import_guard e not_installed (get_unread_main e argv)"

section \<open>\<^verbatim>\<open>list_chats.py\<close>\<close>

definition list_chats_parser :: "arg_decl list" where
  "list_chats_parser =
     [Store ''--limit'' As_int None (PInt 20),
      Store ''--type'' As_str (Some [''group'', ''direct'']) PNone,
      Store ''--base-url'' As_str None (PStr ''http://localhost:3000'')]"

definition list_chats_filters :: "namespace \<Rightarrow> (string \<times> pyval) list" where
  "list_chats_filters args =
     [(''limit'', args ''limit'')]
     @ (if truthy (args ''type'') then [(''type'', args ''type'')] else [])"

definition list_chats_try :: "env \<Rightarrow> namespace \<Rightarrow> world \<Rightarrow> exc option \<times> world" where
  "list_chats_try e args w =
     (case construct e args w of
        (Raises x, w1) \<Rightarrow> (Some x, w1)
      | (Returns cl, w1) \<Rightarrow>
          (case invoke e (Call ''client.chats.list'' [] (list_chats_filters args)) w1 of
             (Raises x, w2) \<Rightarrow> (Some x, w2)
           | (Returns chats, w2) \<Rightarrow>
               print_json (PDict
                 [(''success'', PBool True),
                  (''chats'', if is_list chats then chats else PList []),
                  (''count'', if is_list chats then PInt (int (list_len chats)) else PInt 0)]) w2))"

definition list_chats_main :: "env \<Rightarrow> token list \<Rightarrow> status \<times> world" where
  "list_chats_main e argv =
     with_args list_chats_parser argv
       (\<lambda>args. try_except (list_chats_try e args) (client_handlers args) w0)"

definition list_chats :: "env \<Rightarrow> token list \<Rightarrow> status \<times> world" where
  "list_chats e argv = import_guard e not_installed (list_chats_main e argv)"

section \<open>\<^verbatim>\<open>watcher.py\<close>\<close>

definition watcher_parser :: "arg_decl list" where
  "watcher_parser =
     [Positional ''action'' (Some [''start'', ''stop'', ''status'']),
      Store ''--webhook-url'' As_str None PNone,
      Store ''--base-url'' As_str None (PStr ''http://localhost:3000'')]"

definition watcher_try :: "env \<Rightarrow> namespace \<Rightarrow> world \<Rightarrow> exc option \<times> world" where
  "watcher_try e args w =
     (case construct e args w of
        (Raises x, w1) \<Rightarrow> (Some x, w1)
      | (Returns cl, w1) \<Rightarrow>
          if args ''action'' = PStr ''start'' then
            (let webhook =
               (if truthy (args ''webhook_url'') then PDict [(''url'', args ''webhook_url'')]
                else PNone)
             in case invoke e (Call ''client.watcher.start'' [] [(''webhook'', webhook)]) w1 of
                  (Raises x, w2) \<Rightarrow> (Some x, w2)
                | (Returns result, w2) \<Rightarrow>
                    print_json (PDict
                      [(''success'', PBool True),
                       (''action'', PStr ''start''),
                       (''message'', PStr ''Watcher started''),
                       (''result'', dict_or_str result)]) w2)
          else if args ''action'' = PStr ''stop'' then
            (case invoke e (Call ''client.watcher.stop'' [] []) w1 of
               (Raises x, w2) \<Rightarrow> (Some x, w2)
             | (Returns result, w2) \<Rightarrow>
                 print_json (PDict
                   [(''success'', PBool True),
                    (''action'', PStr ''stop''),
                    (''message'', PStr ''Watcher stopped''),
                    (''result'', dict_or_str result)]) w2)
          else if args ''action'' = PStr ''status'' then
            (case invoke e (Call ''client.watcher.status'' [] []) w1 of
               (Raises x, w2) \<Rightarrow> (Some x, w2)
             | (Returns result, w2) \<Rightarrow>
                 print_json (PDict
                   [(''success'', PBool True),
                    (''action'', PStr ''status''),
                    (''status'', dict_or_str result)]) w2)
          else (None, w1))"

definition watcher_main :: "env \<Rightarrow> token list \<Rightarrow> status \<times> world" where
  "watcher_main e argv =
     with_args watcher_parser argv
       (\<lambda>args. try_except (watcher_try e args) (client_handlers args) w0)"

definition watcher :: "env \<Rightarrow> token list \<Rightarrow> status \<times> world" where
  "watcher e argv = import_guard e not_installed (watcher_main e argv)"

section \<open>\<^verbatim>\<open>batch_send.py\<close>\<close>

definition batch_send_parser :: "arg_decl list" where
  "batch_send_parser =
     [Positional ''json_file'' None,
      Store ''--base-url'' As_str None (PStr ''http://localhost:3000'')]"

text \<open>
  The \<^verbatim>\<open>sys.exit(1)\<close> after the array check stands inside the \<^verbatim>\<open>try\<close>: it raises
  \<^verbatim>\<open>SystemExit\<close>, which none of the five \<^verbatim>\<open>except\<close> clauses catches.
\<close>

definition batch_send_try :: "env \<Rightarrow> namespace \<Rightarrow> world \<Rightarrow> exc option \<times> world" where
  "batch_send_try e args w =
     (case load_json e (py_str (args ''json_file'')) of
        Raises x \<Rightarrow> (Some x, w)
      | Returns messages \<Rightarrow>
          if \<not> is_list messages then
            (Some (SystemExit 1),
             emit (Json (failure ''JSON file must contain an array of messages'')) w)
          else
            (case construct e args w of
               (Raises x, w1) \<Rightarrow> (Some x, w1)
             | (Returns cl, w1) \<Rightarrow>
                 (case invoke e (Call ''client.messages.send_batch'' [messages] []) w1 of
                    (Raises x, w2) \<Rightarrow> (Some x, w2)
                  | (Returns results, w2) \<Rightarrow>
                      print_json (PDict
                        [(''success'', PBool True),
                         (''message'', PStr (''Sent '' @ show_nat (list_len messages) @ '' messages'')),
                         (''results'', if is_list results then results else PList [])]) w2)))"

definition batch_send_handlers :: "namespace \<Rightarrow> exc \<Rightarrow> world \<Rightarrow> status \<times> world" where
  "batch_send_handlers args e w =
     (case e of
        FileNotFoundError m \<Rightarrow>
          (Exited 1, emit (Json (failure (''File not found: '' @ py_str (args ''json_file'')))) w)
      | JSONDecodeError m \<Rightarrow> (Exited 1, emit (Json (failure (''Invalid JSON: '' @ m))) w)
      | _ \<Rightarrow> client_handlers args e w)"

definition batch_send_main :: "env \<Rightarrow> token list \<Rightarrow> status \<times> world" where
  "batch_send_main e argv =
     with_args batch_send_parser argv
       (\<lambda>args. try_except (batch_send_try e args) (batch_send_handlers args) w0)"

definition batch_send :: "env \<Rightarrow> token list \<Rightarrow> status \<times> world" where
  "batch_send e argv = import_guard e not_installed (batch_send_main e argv)"

section \<open>\<^verbatim>\<open>simple_test.py\<close>\<close>

text \<open>
  No parser is declared and \<^verbatim>\<open>sys.argv\<close> is never read. The only handler is
  \<^verbatim>\<open>except Exception\<close>.
\<close>

definition catch_all :: "exc \<Rightarrow> world \<Rightarrow> status \<times> world" where
  "catch_all e w =
     (case e of
        KeyboardInterrupt \<Rightarrow> (propagate e, w)
      | SystemExit n \<Rightarrow> (propagate e, w)
      | _ \<Rightarrow> (Exited 1, emit (Json (failure (exc_str e))) w))"

definition simple_test_try :: "env \<Rightarrow> world \<Rightarrow> exc option \<times> world" where
  "simple_test_try e w =
     (case invoke e (Call ''AgentText'' [] []) w of
        (Raises x, w1) \<Rightarrow> (Some x, w1)
      | (Returns cl, w1) \<Rightarrow>
          (case invoke e (Call ''client.messages.send'' []
                  [(''to'', PStr ''+9255776728''), (''content'', PStr ''Hello!'')]) w1
           of
             (Raises x, w2) \<Rightarrow> (Some x, w2)
           | (Returns result, w2) \<Rightarrow>
               print_json (PDict
                 [(''success'', PBool True),
                  (''message'', PStr ''Test message sent successfully!''),
                  (''result'', dict_or_str result)]) w2))"

definition simple_test_main :: "env \<Rightarrow> token list \<Rightarrow> status \<times> world" where
  "simple_test_main e argv = try_except (simple_test_try e) catch_all w0"

definition simple_test :: "env \<Rightarrow> token list \<Rightarrow> status \<times> world" where
  "simple_test e argv = import_guard e not_installed (simple_test_main e argv)"

section \<open>\<^verbatim>\<open>watch_messages.py\<close>\<close>

text \<open>
  The package calls \<^verbatim>\<open>on_message\<close> when a message arrives, on its own schedule; what the
  callback prints is its own line, without a \<^verbatim>\<open>success\<close> key.
\<close>

definition on_message :: "pyval \<Rightarrow> world \<Rightarrow> exc option \<times> world" where
  "on_message message w =
     print_json (PDict [(''event'', PStr ''message''), (''data'', dict_or_str message)]) w"

definition on_message_ref :: pyval where
  "on_message_ref = PObj ''function'' ''<function on_message>'' ''<function on_message>''"

text \<open>
  \<^verbatim>\<open>while True: time.sleep(1)\<close> ends only when a sleep raises. The result is the
  exception that ended it; \<open>None\<close> is the loop running forever.
\<close>

partial_function (option) watch_loop :: "env \<Rightarrow> nat \<Rightarrow> exc option" where
  "watch_loop e i = (case sleep e i of Raises x \<Rightarrow> Some x | Returns v \<Rightarrow> watch_loop e (Suc i))"

definition watch_messages_try :: "env \<Rightarrow> world \<Rightarrow> (exc option \<times> world) option" where
  "watch_messages_try e w =
     (case invoke e (Call ''AgentText'' [] [(''base_url'', PStr ''http://localhost:3000'')]) w of
        (Raises x, w1) \<Rightarrow> Some (Some x, w1)
      | (Returns cl, w1) \<Rightarrow>
          (let w2 = emit (Json (PDict [(''success'', PBool True),
                                       (''message'', PStr ''Starting message watcher...'')])) w1
           in case invoke e (Call ''client.watcher.start'' [] [(''callback'', on_message_ref)]) w2 of
                (Raises x, w3) \<Rightarrow> Some (Some x, w3)
              | (Returns r, w3) \<Rightarrow>
                  (case watch_loop e 0 of None \<Rightarrow> None | Some x \<Rightarrow> Some (Some x, w3))))"

definition watch_messages_handlers :: "exc \<Rightarrow> world \<Rightarrow> status \<times> world" where
  "watch_messages_handlers e w =
     (case e of
        KeyboardInterrupt \<Rightarrow>
          (Exited 0,
           emit (Json (PDict [(''success'', PBool True), (''message'', PStr ''Watcher stopped'')])) w)
      | SystemExit n \<Rightarrow> (propagate e, w)
      | _ \<Rightarrow> (Exited 1, emit (Json (failure (exc_str e))) w))"

definition watch_messages_main :: "env \<Rightarrow> token list \<Rightarrow> (status \<times> world) option" where
  "watch_messages_main e argv =
     (case watch_messages_try e w0 of
        None \<Rightarrow> None
      | Some r \<Rightarrow> Some (try_except (\<lambda>w. r) watch_messages_handlers w0))"

definition watch_messages :: "env \<Rightarrow> token list \<Rightarrow> (status \<times> world) option" where
  "watch_messages e argv =
     (if import_ok e then watch_messages_main e argv
      else Some (Exited 1,
             emit (Json (failure ''AgentText package not installed. Run: pip3 install agenttext'')) w0))"

section \<open>The nine commands\<close>

datatype script =
    Batch_send
  | Get_messages
  | Get_unread
  | List_chats
  | Send_file
  | Send_message
  | Watcher
  | Watch_messages
  | Simple_test

text \<open>A run of a script: \<open>None\<close> when the process never ends.\<close>

definition run_script :: "script \<Rightarrow> env \<Rightarrow> token list \<Rightarrow> (status \<times> world) option" where
  "run_script s e argv =
     (case s of
        Batch_send \<Rightarrow> Some (batch_send e argv)
      | Get_messages \<Rightarrow> Some (get_messages e argv)
      | Get_unread \<Rightarrow> Some (get_unread e argv)
      | List_chats \<Rightarrow> Some (list_chats e argv)
      | Send_file \<Rightarrow> Some (send_file e argv)
      | Send_message \<Rightarrow> Some (send_message e argv)
      | Watcher \<Rightarrow> Some (watcher e argv)
      | Watch_messages \<Rightarrow> watch_messages e argv
      | Simple_test \<Rightarrow> Some (simple_test e argv))"

section \<open>Reading a printed envelope\<close>

definition field :: "string \<Rightarrow> line \<Rightarrow> pyval option" where
  "field k l = (case l of Json (PDict kvs) \<Rightarrow> map_of kvs k | _ \<Rightarrow> None)"

definition is_failure :: "line \<Rightarrow> bool" where
  "is_failure l = (field ''success'' l = Some (PBool False))"

definition is_success :: "line \<Rightarrow> bool" where
  "is_success l = (field ''success'' l = Some (PBool True))"

text \<open>An environment for running the definitions on concrete inputs.\<close>

definition env_of ::
  "bool \<Rightarrow> (call \<Rightarrow> outcome) \<Rightarrow> (string \<Rightarrow> bool) \<Rightarrow> (string \<Rightarrow> outcome) \<Rightarrow> (nat \<Rightarrow> outcome) \<Rightarrow> env"
where
  "env_of imp cl ex ld sl =
     \<lparr>import_ok = imp, client = cl, path_exists = ex, load_json = ld, sleep = sl\<rparr>"

text \<open>Whether a run printed a failure envelope.\<close>

definition failure_printed :: "world \<Rightarrow> bool" where
  "failure_printed w = (\<exists>l \<in> set (stdout w). is_failure l)"

text \<open>The values a command line gives for one option string, in order.\<close>

definition given_values :: "string \<Rightarrow> token list \<Rightarrow> string list" where
  "given_values f argv =
     concat (map (\<lambda>t. case t of Opt g (Some v) \<Rightarrow> if g = f then [v] else [] | _ \<Rightarrow> []) argv)"

text \<open>The positional arguments of a command line, in order.\<close>

definition arg_values :: "token list \<Rightarrow> string list" where
  "arg_values argv = concat (map (\<lambda>t. case t of Arg s \<Rightarrow> [s] | _ \<Rightarrow> []) argv)"

text \<open>The base URL a command line asks for: the last \<^verbatim>\<open>--base-url\<close>, or the declared default.\<close>

definition chosen_base_url :: "token list \<Rightarrow> string" where
  "chosen_base_url argv =
     (if given_values ''--base-url'' argv = [] then ''http://localhost:3000''
      else last (given_values ''--base-url'' argv))"

text \<open>The parser a script declares; \<^verbatim>\<open>watch_messages.py\<close> and \<^verbatim>\<open>simple_test.py\<close> declare none.\<close>

definition parser_of :: "script \<Rightarrow> arg_decl list option" where
  "parser_of s =
     (case s of
        Batch_send \<Rightarrow> Some batch_send_parser
      | Get_messages \<Rightarrow> Some get_messages_parser
      | Get_unread \<Rightarrow> Some get_unread_parser
      | List_chats \<Rightarrow> Some list_chats_parser
      | Send_file \<Rightarrow> Some send_file_parser
      | Send_message \<Rightarrow> Some send_message_parser
      | Watcher \<Rightarrow> Some watcher_parser
      | Watch_messages \<Rightarrow> None
      | Simple_test \<Rightarrow> None)"

section \<open>Printed failures and exit codes\<close>

lemma failure_printed_w0 [simp]: "\<not> failure_printed w0"
  by (simp add: failure_printed_def w0_def)

lemma failure_printed_emit_failure [simp]: "failure_printed (emit (Json (failure m)) w)"
  by (simp add: failure_printed_def emit_def is_failure_def field_def failure_def)

lemma failure_printed_emit_success [simp]:
  "failure_printed (emit (Json (PDict ((''success'', PBool True) # kvs))) w) = failure_printed w"
  by (auto simp: failure_printed_def emit_def is_failure_def field_def)

lemma failure_printed_emit_help [simp]:
  "failure_printed (emit Help_text w) = failure_printed w"
  by (auto simp: failure_printed_def emit_def is_failure_def field_def)

lemma failure_printed_invoke:
  "invoke e c w = (r, w') \<Longrightarrow> failure_printed w' = failure_printed w"
  by (auto simp: invoke_def failure_printed_def)

lemma failure_printed_construct:
  "construct e args w = (r, w') \<Longrightarrow> failure_printed w' = failure_printed w"
  by (auto simp: construct_def failure_printed_invoke)

lemma failure_printed_print_json:
  "print_json (PDict ((''success'', PBool True) # kvs)) w = (r, w') \<Longrightarrow>
     failure_printed w' = failure_printed w"
  by (auto simp: print_json_def split: option.splits)

lemma client_handlers_exit:
  "client_handlers args x w = (st, w') \<Longrightarrow> \<not> failure_printed w \<Longrightarrow> failure_printed w' \<Longrightarrow>
     st = Exited 1"
  by (auto simp: client_handlers_def propagate_def split: exc.splits)

lemma catch_all_exit:
  "catch_all x w = (st, w') \<Longrightarrow> \<not> failure_printed w \<Longrightarrow> failure_printed w' \<Longrightarrow> st = Exited 1"
  by (auto simp: catch_all_def propagate_def split: exc.splits)

lemma send_message_try_quiet:
  "send_message_try e args w = (r, w') \<Longrightarrow> failure_printed w' = failure_printed w"
  by (auto simp: send_message_try_def failure_printed_print_json
           dest!: failure_printed_invoke failure_printed_construct
           split: prod.splits outcome.splits if_splits pyval.splits)

lemma send_file_try_quiet:
  "send_file_try e args w = (r, w') \<Longrightarrow> failure_printed w' = failure_printed w"
  by (auto simp: send_file_try_def failure_printed_print_json
           dest!: failure_printed_invoke failure_printed_construct
           split: prod.splits outcome.splits if_splits)

lemma get_messages_try_quiet:
  "get_messages_try e args w = (r, w') \<Longrightarrow> failure_printed w' = failure_printed w"
  by (auto simp: get_messages_try_def failure_printed_print_json
           dest!: failure_printed_invoke failure_printed_construct
           split: prod.splits outcome.splits if_splits)

lemma get_unread_try_quiet:
  "get_unread_try e args w = (r, w') \<Longrightarrow> failure_printed w' = failure_printed w"
  by (auto simp: get_unread_try_def failure_printed_print_json
           dest!: failure_printed_invoke failure_printed_construct
           split: prod.splits outcome.splits if_splits)

lemma list_chats_try_quiet:
  "list_chats_try e args w = (r, w') \<Longrightarrow> failure_printed w' = failure_printed w"
  by (auto simp: list_chats_try_def failure_printed_print_json
           dest!: failure_printed_invoke failure_printed_construct
           split: prod.splits outcome.splits if_splits)

lemma watcher_try_quiet:
  "watcher_try e args w = (r, w') \<Longrightarrow> failure_printed w' = failure_printed w"
  by (auto simp: watcher_try_def failure_printed_print_json Let_def
           dest!: failure_printed_invoke failure_printed_construct
           split: prod.splits outcome.splits if_splits)

lemma simple_test_try_quiet:
  "simple_test_try e w = (r, w') \<Longrightarrow> failure_printed w' = failure_printed w"
  by (auto simp: simple_test_try_def failure_printed_print_json
           dest!: failure_printed_invoke
           split: prod.splits outcome.splits if_splits)

lemma batch_send_try_quiet:
  "batch_send_try e args w = (r, w') \<Longrightarrow> \<not> failure_printed w \<Longrightarrow>
     \<not> failure_printed w' \<or> r = Some (SystemExit 1)"
  by (auto simp: batch_send_try_def failure_printed_print_json
           dest!: failure_printed_invoke failure_printed_construct
           split: prod.splits outcome.splits if_splits)


lemma batch_send_handlers_exit:
  "batch_send_handlers args x w = (st, w') \<Longrightarrow> \<not> failure_printed w \<Longrightarrow> failure_printed w' \<Longrightarrow>
     st = Exited 1"
  by (auto simp: batch_send_handlers_def dest: client_handlers_exit split: exc.splits)

lemma batch_send_handlers_SystemExit:
  "batch_send_handlers args (SystemExit 1) w = (Exited 1, w)"
  by (simp add: batch_send_handlers_def client_handlers_def propagate_def exit_code_def)

lemma watch_messages_handlers_exit:
  "watch_messages_handlers x w = (st, w') \<Longrightarrow> \<not> failure_printed w \<Longrightarrow> failure_printed w' \<Longrightarrow>
     st = Exited 1"
  by (auto simp: watch_messages_handlers_def propagate_def split: exc.splits)

lemma watch_messages_try_quiet:
  "watch_messages_try e w = Some (r, w') \<Longrightarrow> failure_printed w' = failure_printed w"
  by (auto simp: watch_messages_try_def Let_def
           dest!: failure_printed_invoke
           split: prod.splits outcome.splits option.splits)

lemma with_args_exit:
  assumes "with_args ds argv k = (st, w)" and "failure_printed w"
    and "\<And>args. k args = (st, w) \<Longrightarrow> st = Exited 1"
  shows "st = Exited 1"
  using assms by (auto simp: with_args_def split: parsed.splits)

lemma try_except_exit:
  assumes "try_except body handlers w0 = (st, w)" and "failure_printed w"
    and "\<And>r w'. body w0 = (r, w') \<Longrightarrow> \<not> failure_printed w' \<or> r = Some (SystemExit 1)"
    and "\<And>x w'. handlers x w' = (st, w) \<Longrightarrow> \<not> failure_printed w' \<Longrightarrow> st = Exited 1"
    and "\<And>w'. handlers (SystemExit 1) w' = (Exited 1, w')"
  shows "st = Exited 1"
proof (cases "body w0")
  case (Pair r w')
  show ?thesis
  proof (cases r)
    case None
    with Pair assms(1) have "w = w'" by (simp add: try_except_def)
    with assms(2) assms(3) [OF Pair] None show ?thesis by simp
  next
    case (Some x)
    with Pair assms(1) have h: "handlers x w' = (st, w)" by (simp add: try_except_def)
    from assms(3) [OF Pair] show ?thesis
    proof
      assume "\<not> failure_printed w'"
      with h assms(4) show ?thesis by blast
    next
      assume "r = Some (SystemExit 1)"
      with Some h assms(5) [of w'] show ?thesis by simp
    qed
  qed
qed

lemma client_handlers_SystemExit: "client_handlers args (SystemExit 1) w = (Exited 1, w)"
  by (simp add: client_handlers_def propagate_def exit_code_def)

lemma catch_all_SystemExit: "catch_all (SystemExit 1) w = (Exited 1, w)"
  by (simp add: catch_all_def propagate_def exit_code_def)

lemma watch_messages_handlers_SystemExit: "watch_messages_handlers (SystemExit 1) w = (Exited 1, w)"
  by (simp add: watch_messages_handlers_def propagate_def exit_code_def)

lemma import_guard_exit:
  assumes "import_guard e msg rest = (st, w)" and "rest = (st, w) \<Longrightarrow> st = Exited 1"
  shows "st = Exited 1"
  using assms by (auto simp: import_guard_def split: if_splits)

lemma send_message_exit: "send_message e argv = (st, w) \<Longrightarrow> failure_printed w \<Longrightarrow> st = Exited 1"
  unfolding send_message_def send_message_main_def
  by (erule import_guard_exit, erule with_args_exit, assumption, erule try_except_exit, assumption)
     (auto simp: send_message_try_quiet client_handlers_SystemExit dest: client_handlers_exit)

lemma get_messages_exit: "get_messages e argv = (st, w) \<Longrightarrow> failure_printed w \<Longrightarrow> st = Exited 1"
  unfolding get_messages_def get_messages_main_def
  by (erule import_guard_exit, erule with_args_exit, assumption, erule try_except_exit, assumption)
     (auto simp: get_messages_try_quiet client_handlers_SystemExit dest: client_handlers_exit)

lemma get_unread_exit: "get_unread e argv = (st, w) \<Longrightarrow> failure_printed w \<Longrightarrow> st = Exited 1"
  unfolding get_unread_def get_unread_main_def
  by (erule import_guard_exit, erule with_args_exit, assumption, erule try_except_exit, assumption)
     (auto simp: get_unread_try_quiet client_handlers_SystemExit dest: client_handlers_exit)

lemma list_chats_exit: "list_chats e argv = (st, w) \<Longrightarrow> failure_printed w \<Longrightarrow> st = Exited 1"
  unfolding list_chats_def list_chats_main_def
  by (erule import_guard_exit, erule with_args_exit, assumption, erule try_except_exit, assumption)
     (auto simp: list_chats_try_quiet client_handlers_SystemExit dest: client_handlers_exit)

lemma watcher_exit: "watcher e argv = (st, w) \<Longrightarrow> failure_printed w \<Longrightarrow> st = Exited 1"
  unfolding watcher_def watcher_main_def
  by (erule import_guard_exit, erule with_args_exit, assumption, erule try_except_exit, assumption)
     (auto simp: watcher_try_quiet client_handlers_SystemExit dest: client_handlers_exit)

lemma batch_send_exit: "batch_send e argv = (st, w) \<Longrightarrow> failure_printed w \<Longrightarrow> st = Exited 1"
  unfolding batch_send_def batch_send_main_def
  by (erule import_guard_exit, erule with_args_exit, assumption, erule try_except_exit, assumption)
     (auto simp: batch_send_handlers_SystemExit dest: batch_send_handlers_exit batch_send_try_quiet)

lemma simple_test_exit: "simple_test e argv = (st, w) \<Longrightarrow> failure_printed w \<Longrightarrow> st = Exited 1"
  unfolding simple_test_def simple_test_main_def
  by (erule import_guard_exit, erule try_except_exit, assumption)
     (auto simp: simple_test_try_quiet catch_all_SystemExit dest: catch_all_exit)

lemma send_file_exit: "send_file e argv = (st, w) \<Longrightarrow> failure_printed w \<Longrightarrow> st = Exited 1"
  unfolding send_file_def send_file_main_def
  apply (erule import_guard_exit, erule with_args_exit, assumption)
  apply (simp split: if_splits)
  apply (erule try_except_exit, assumption)
    apply (auto simp: send_file_try_quiet client_handlers_SystemExit dest: client_handlers_exit)
  done

lemma watch_messages_exit:
  "watch_messages e argv = Some (st, w) \<Longrightarrow> failure_printed w \<Longrightarrow> st = Exited 1"
  unfolding watch_messages_def watch_messages_main_def
  apply (simp split: if_splits option.splits)
  apply (erule try_except_exit, assumption)
    apply (auto simp: watch_messages_try_quiet watch_messages_handlers_SystemExit
                dest: watch_messages_handlers_exit)
  done

lemma watch_loop_ends:
  "sleep e (i + k) = Raises x \<Longrightarrow> (\<forall>j<k. \<exists>v. sleep e (i + j) = Returns v) \<Longrightarrow>
     watch_loop e i = Some x"
proof (induction k arbitrary: i)
  case 0
  then show ?case by (subst watch_loop.simps) simp
next
  case (Suc k)
  from Suc.prems(2) obtain v where v: "sleep e i = Returns v"
    by (metis add.right_neutral zero_less_Suc)
  have "watch_loop e (Suc i) = Some x"
  proof (rule Suc.IH)
    show "sleep e (Suc i + k) = Raises x" using Suc.prems(1) by simp
    show "\<forall>j<k. \<exists>v. sleep e (Suc i + j) = Returns v"
    proof (intro allI impI)
      fix j assume "j < k"
      then have "Suc j < Suc k" by simp
      with Suc.prems(2) have "\<exists>v. sleep e (i + Suc j) = Returns v" by blast
      then show "\<exists>v. sleep e (Suc i + j) = Returns v" by simp
    qed
  qed
  with v show ?case by (subst watch_loop.simps) simp
qed

section \<open>What the parser stores\<close>

lemma given_values_simps [simp]:
  "given_values f [] = []"
  "given_values f (Arg s # ts) = given_values f ts"
  "given_values f (Opt g None # ts) = given_values f ts"
  "given_values f (Opt g (Some v) # ts) = (if g = f then v # given_values f ts else given_values f ts)"
  by (simp_all add: given_values_def)

lemma find_flag_name:
  "find_flag g ds = Some d \<Longrightarrow> (\<exists>t cs dflt. d = Store g t cs dflt) \<or> d = Store_true g"
  by (induction g ds rule: find_flag.induct) (auto split: if_splits)

lemma consume_store:
  assumes f: "find_flag f ds = Some (Store f As_str None dflt)"
    and nh: "f \<noteq> ''-h''" "f \<noteq> ''--help''"
    and uniq: "\<forall>g d. find_flag g ds = Some d \<longrightarrow> g \<noteq> f \<longrightarrow> dest_of g \<noteq> dest_of f"
  shows "consume ds pending extras ns argv = Parsed args \<Longrightarrow> dest_of f \<notin> fst ` set pending \<Longrightarrow>
     args (dest_of f) =
       (if given_values f argv = [] then ns (dest_of f) else PStr (last (given_values f argv)))"
proof (induction argv arbitrary: pending extras ns)
  case Nil
  then show ?case by (simp split: if_splits)
next
  case (Cons t ts)
  show ?case
  proof (cases t)
    case (Arg s)
    show ?thesis
    proof (cases pending)
      case Nil
      with Cons.prems Arg have "consume ds [] True ns ts = Parsed args" by simp
      from Cons.IH [OF this] Arg show ?thesis by simp
    next
      case (Cons p ps)
      with Cons.prems Arg have r: "consume ds ps extras (ns(fst p := PStr s)) ts = Parsed args"
        and d: "dest_of f \<noteq> fst p" "dest_of f \<notin> fst ` set ps"
        by (auto split: if_splits)
      from Cons.IH [OF r d(2)] d(1) Arg show ?thesis by simp
    qed
  next
    case (Opt g v)
    from Cons.prems(1) Opt have gh: "g \<noteq> ''-h''" "g \<noteq> ''--help''"
      by (auto split: option.splits)
    show ?thesis
    proof (cases "g = f")
      case True
      from Cons.prems(1) Opt True gh f obtain s where v: "v = Some s"
        and r: "consume ds pending extras (ns(dest_of f := PStr s)) ts = Parsed args"
        by (auto simp: convert_def in_choices_def split: option.splits if_splits)
      from Cons.IH [OF r Cons.prems(2)] Opt True v show ?thesis by simp
    next
      case False
      have "\<exists>extras' ns'. consume ds pending extras' ns' ts = Parsed args
              \<and> ns' (dest_of f) = ns (dest_of f)"
      proof (cases "find_flag g ds")
        case None
        with Cons.prems(1) Opt gh have "consume ds pending True ns ts = Parsed args" by simp
        then show ?thesis by blast
      next
        case (Some d)
        from uniq Some False have dd: "dest_of g \<noteq> dest_of f" by blast
        from find_flag_name [OF Some] show ?thesis
        proof
          assume "\<exists>t cs dflt. d = Store g t cs dflt"
          then obtain ty cs df where d: "d = Store g ty cs df" by blast
          with Cons.prems(1) Opt gh Some obtain x where
            "consume ds pending extras (ns(dest_of g := x)) ts = Parsed args"
            by (auto split: option.splits if_splits)
          moreover have "(ns(dest_of g := x)) (dest_of f) = ns (dest_of f)" using dd by simp
          ultimately show ?thesis by blast
        next
          assume d: "d = Store_true g"
          with Cons.prems(1) Opt gh Some have
            "consume ds pending extras (ns(dest_of g := PBool True)) ts = Parsed args"
            by (auto split: option.splits if_splits)
          moreover have "(ns(dest_of g := PBool True)) (dest_of f) = ns (dest_of f)"
            using dd by simp
          ultimately show ?thesis by blast
        qed
      qed
      then obtain extras' ns' where r: "consume ds pending extras' ns' ts = Parsed args"
        and n: "ns' (dest_of f) = ns (dest_of f)" by blast
      have "given_values f (t # ts) = given_values f ts"
        using Opt False by (cases v) simp_all
      with Cons.IH [OF r Cons.prems(2)] n show ?thesis by simp
    qed
  qed
qed

lemma parse_args_store:
  assumes "parse_args ds argv = Parsed args"
    and "find_flag f ds = Some (Store f As_str None dflt)"
    and "f \<noteq> ''-h''" "f \<noteq> ''--help''"
    and "\<forall>g d. find_flag g ds = Some d \<longrightarrow> g \<noteq> f \<longrightarrow> dest_of g \<noteq> dest_of f"
    and "dest_of f \<notin> fst ` set (positionals ds)"
  shows "args (dest_of f) =
       (if given_values f argv = [] then defaults ds (dest_of f) else PStr (last (given_values f argv)))"
  using consume_store [OF assms(2-5), of "positionals ds" False "defaults ds" argv args] assms(1,6)
  by (simp add: parse_args_def)

lemma dest_base_url [simp]: "dest_of ''--base-url'' = ''base_url''"
  by (simp add: dest_of_def)

lemma dest_files [simp]: "dest_of ''--files'' = ''files''"
  by (simp add: dest_of_def)

lemma base_url_send_message:
  "parse_args send_message_parser argv = Parsed args \<Longrightarrow> args ''base_url'' = PStr (chosen_base_url argv)"
  using parse_args_store [of send_message_parser argv args "''--base-url''" "PStr ''http://localhost:3000''"]
  by (auto simp: send_message_parser_def chosen_base_url_def dest_of_def split: if_splits)

lemma base_url_send_file:
  "parse_args send_file_parser argv = Parsed args \<Longrightarrow> args ''base_url'' = PStr (chosen_base_url argv)"
  using parse_args_store [of send_file_parser argv args "''--base-url''" "PStr ''http://localhost:3000''"]
  by (auto simp: send_file_parser_def chosen_base_url_def dest_of_def split: if_splits)

lemma base_url_get_messages:
  "parse_args get_messages_parser argv = Parsed args \<Longrightarrow> args ''base_url'' = PStr (chosen_base_url argv)"
  using parse_args_store [of get_messages_parser argv args "''--base-url''" "PStr ''http://localhost:3000''"]
  by (auto simp: get_messages_parser_def chosen_base_url_def dest_of_def split: if_splits)

lemma base_url_get_unread:
  "parse_args get_unread_parser argv = Parsed args \<Longrightarrow> args ''base_url'' = PStr (chosen_base_url argv)"
  using parse_args_store [of get_unread_parser argv args "''--base-url''" "PStr ''http://localhost:3000''"]
  by (auto simp: get_unread_parser_def chosen_base_url_def dest_of_def split: if_splits)

lemma base_url_list_chats:
  "parse_args list_chats_parser argv = Parsed args \<Longrightarrow> args ''base_url'' = PStr (chosen_base_url argv)"
  using parse_args_store [of list_chats_parser argv args "''--base-url''" "PStr ''http://localhost:3000''"]
  by (auto simp: list_chats_parser_def chosen_base_url_def dest_of_def split: if_splits)

lemma base_url_watcher:
  "parse_args watcher_parser argv = Parsed args \<Longrightarrow> args ''base_url'' = PStr (chosen_base_url argv)"
  using parse_args_store [of watcher_parser argv args "''--base-url''" "PStr ''http://localhost:3000''"]
  by (auto simp: watcher_parser_def chosen_base_url_def dest_of_def split: if_splits)

lemma base_url_batch_send:
  "parse_args batch_send_parser argv = Parsed args \<Longrightarrow> args ''base_url'' = PStr (chosen_base_url argv)"
  using parse_args_store [of batch_send_parser argv args "''--base-url''" "PStr ''http://localhost:3000''"]
  by (auto simp: batch_send_parser_def chosen_base_url_def dest_of_def split: if_splits)

lemma files_send_message:
  "parse_args send_message_parser argv = Parsed args \<Longrightarrow>
     args ''files'' = (if given_values ''--files'' argv = [] then PNone else PStr (last (given_values ''--files'' argv)))"
  using parse_args_store [of send_message_parser argv args "''--files''" PNone]
  by (auto simp: send_message_parser_def dest_of_def split: if_splits)

lemma arg_values_simps [simp]:
  "arg_values [] = []"
  "arg_values (Arg s # ts) = s # arg_values ts"
  "arg_values (Opt g v # ts) = arg_values ts"
  by (simp_all add: arg_values_def)

lemma consume_keeps:
  assumes nf: "\<forall>g d. find_flag g ds = Some d \<longrightarrow> dest_of g \<noteq> k"
  shows "consume ds pending extras ns argv = Parsed args \<Longrightarrow> k \<notin> fst ` set pending \<Longrightarrow>
     args k = ns k"
proof (induction argv arbitrary: pending extras ns)
  case Nil
  then show ?case by (simp split: if_splits)
next
  case (Cons t ts)
  show ?case
  proof (cases t)
    case (Arg s)
    show ?thesis
    proof (cases pending)
      case Nil
      with Cons.prems Arg have "consume ds [] True ns ts = Parsed args" by simp
      from Cons.IH [OF this] show ?thesis by simp
    next
      case (Cons p ps)
      with Cons.prems Arg have r: "consume ds ps extras (ns(fst p := PStr s)) ts = Parsed args"
        and d: "k \<noteq> fst p" "k \<notin> fst ` set ps"
        by (auto split: if_splits)
      from Cons.IH [OF r d(2)] d(1) show ?thesis by simp
    qed
  next
    case (Opt g v)
    from Cons.prems(1) Opt have gh: "g \<noteq> ''-h''" "g \<noteq> ''--help''"
      by (auto split: option.splits)
    have "\<exists>extras' ns'. consume ds pending extras' ns' ts = Parsed args \<and> ns' k = ns k"
    proof (cases "find_flag g ds")
      case None
      with Cons.prems(1) Opt gh have "consume ds pending True ns ts = Parsed args" by simp
      then show ?thesis by blast
    next
      case (Some d)
      from nf Some have dd: "dest_of g \<noteq> k" by blast
      from find_flag_name [OF Some] show ?thesis
      proof
        assume "\<exists>t cs dflt. d = Store g t cs dflt"
        then obtain ty cs df where d: "d = Store g ty cs df" by blast
        with Cons.prems(1) Opt gh Some obtain x where
          "consume ds pending extras (ns(dest_of g := x)) ts = Parsed args"
          by (auto split: option.splits if_splits)
        moreover have "(ns(dest_of g := x)) k = ns k" using dd by simp
        ultimately show ?thesis by blast
      next
        assume d: "d = Store_true g"
        with Cons.prems(1) Opt gh Some have
          "consume ds pending extras (ns(dest_of g := PBool True)) ts = Parsed args"
          by (auto split: option.splits if_splits)
        moreover have "(ns(dest_of g := PBool True)) k = ns k" using dd by simp
        ultimately show ?thesis by blast
      qed
    qed
    then obtain extras' ns' where r: "consume ds pending extras' ns' ts = Parsed args"
      and n: "ns' k = ns k" by blast
    from Cons.IH [OF r Cons.prems(2)] n show ?thesis by simp
  qed
qed

lemma consume_positionals:
  assumes nf: "\<forall>g d. find_flag g ds = Some d \<longrightarrow> dest_of g \<notin> fst ` set pending0"
  shows "consume ds pending extras ns argv = Parsed args \<Longrightarrow> distinct (map fst pending) \<Longrightarrow>
     set pending \<subseteq> set pending0 \<Longrightarrow>
     map (\<lambda>p. args (fst p)) pending = map PStr (arg_values argv)"
proof (induction argv arbitrary: pending extras ns)
  case Nil
  then show ?case by (simp split: if_splits)
next
  case (Cons t ts)
  show ?case
  proof (cases t)
    case (Arg s)
    show ?thesis
    proof (cases pending)
      case Nil
      with Cons.prems Arg have r: "consume ds [] True ns ts = Parsed args" by simp
      have "\<And>p x n a. consume ds p True n ts = Parsed a \<Longrightarrow> False"
      proof -
        fix p x n a show "consume ds p True n ts = Parsed a \<Longrightarrow> False"
        proof (induction ts arbitrary: p n)
          case Nil then show ?case by simp
        next
          case (Cons u us)
          then show ?case
            by (cases u) (auto split: list.splits if_splits option.splits arg_decl.splits)
        qed
      qed
      with r show ?thesis by blast
    next
      case (Cons p ps)
      with Cons.prems Arg have r: "consume ds ps extras (ns(fst p := PStr s)) ts = Parsed args"
        and d: "fst p \<notin> fst ` set ps" "distinct (map fst ps)" "set ps \<subseteq> set pending0"
          "p \<in> set pending0"
        by (auto split: if_splits)
      from nf d(4) have "\<forall>g d. find_flag g ds = Some d \<longrightarrow> dest_of g \<noteq> fst p"
        by (metis imageI)
      from consume_keeps [OF this r d(1)] have "args (fst p) = PStr s" by simp
      with Cons.IH [OF r d(2,3)] Cons Arg show ?thesis by simp
    qed
  next
    case (Opt g v)
    from Cons.prems(1) Opt have gh: "g \<noteq> ''-h''" "g \<noteq> ''--help''"
      by (auto split: option.splits)
    have "\<exists>extras' ns'. consume ds pending extras' ns' ts = Parsed args"
      using Cons.prems(1) Opt gh
      by (auto split: option.splits if_splits arg_decl.splits)
    then obtain extras' ns' where r: "consume ds pending extras' ns' ts = Parsed args" by blast
    from Cons.IH [OF r Cons.prems(2,3)] Opt show ?thesis by simp
  qed
qed

lemma parse_args_positionals:
  assumes "parse_args ds argv = Parsed args"
    and "\<forall>g d. find_flag g ds = Some d \<longrightarrow> dest_of g \<notin> fst ` set (positionals ds)"
    and "distinct (map fst (positionals ds))"
  shows "map (\<lambda>p. args (fst p)) (positionals ds) = map PStr (arg_values argv)"
  using consume_positionals [OF assms(2), of "positionals ds" False "defaults ds" argv args] assms(1,3)
  by (simp add: parse_args_def)

lemma positionals_send_file:
  "parse_args send_file_parser argv = Parsed args \<Longrightarrow>
     [args ''recipient'', args ''file_path''] = map PStr (arg_values argv)"
  using parse_args_positionals [of send_file_parser argv args]
  by (auto simp: send_file_parser_def dest_of_def split: if_splits)

lemma positionals_send_message:
  "parse_args send_message_parser argv = Parsed args \<Longrightarrow>
     [args ''recipient'', args ''message''] = map PStr (arg_values argv)"
  using parse_args_positionals [of send_message_parser argv args]
  by (auto simp: send_message_parser_def dest_of_def split: if_splits)

lemma positionals_batch_send:
  "parse_args batch_send_parser argv = Parsed args \<Longrightarrow>
     [args ''json_file''] = map PStr (arg_values argv)"
  using parse_args_positionals [of batch_send_parser argv args]
  by (auto simp: batch_send_parser_def dest_of_def split: if_splits)

lemma positionals_watcher:
  "parse_args watcher_parser argv = Parsed args \<Longrightarrow>
     [args ''action''] = map PStr (arg_values argv)"
  using parse_args_positionals [of watcher_parser argv args]
  by (auto simp: watcher_parser_def dest_of_def split: if_splits)

lemma on_message_quiet:
  "on_message m w = (r, w') \<Longrightarrow> failure_printed w' = failure_printed w"
  by (auto simp: on_message_def print_json_def failure_printed_def emit_def is_failure_def field_def
           split: option.splits)

lemma run_script_exit:
  "run_script s e argv = Some (st, w) \<Longrightarrow> failure_printed w \<Longrightarrow> st = Exited 1"
  by (cases s)
     (auto simp: run_script_def
           dest: batch_send_exit get_messages_exit get_unread_exit list_chats_exit send_file_exit
                 send_message_exit watcher_exit watch_messages_exit simple_test_exit)

lemma watch_messages_interrupted:
  assumes "import_ok e"
    and "client e (Call ''AgentText'' [] [(''base_url'', PStr ''http://localhost:3000'')]) = Returns cl"
    and "client e (Call ''client.watcher.start'' [] [(''callback'', on_message_ref)]) = Returns r"
    and "sleep e k = Raises KeyboardInterrupt"
    and "\<forall>j<k. \<exists>v. sleep e j = Returns v"
  shows "watch_messages e argv =
     Some (Exited 0,
           \<lparr>calls = [Call ''AgentText'' [] [(''base_url'', PStr ''http://localhost:3000'')],
                     Call ''client.watcher.start'' [] [(''callback'', on_message_ref)]],
            stdout = [Json (PDict [(''success'', PBool True),
                                   (''message'', PStr ''Starting message watcher...'')]),
                      Json (PDict [(''success'', PBool True),
                                   (''message'', PStr ''Watcher stopped'')])]\<rparr>)"
proof -
  have "watch_loop e 0 = Some KeyboardInterrupt"
    using watch_loop_ends [of e 0 k KeyboardInterrupt] assms(4,5) by simp
  with assms(1-3) show ?thesis
    by (simp add: watch_messages_def watch_messages_main_def watch_messages_try_def invoke_def
          emit_def w0_def try_except_def watch_messages_handlers_def)
qed

section \<open>Failure envelopes and the exit code\<close>

text \<open>
  C1: in every script and on every path, a run that printed an envelope with
  \<^verbatim>\<open>success=false\<close> ends with exit code 1. In \<^verbatim>\<open>watch_messages.py\<close>, when the client was
  built, the watcher was started and a \<^verbatim>\<open>time.sleep\<close> of the loop is interrupted, the loop
  ends, the envelope \<^verbatim>\<open>{"success": true, "message": "Watcher stopped"}\<close> is printed last and
  the process ends with exit code 0.
\<close>

theorem failure_envelope_exits_1:
  "(run_script s e argv = Some (st, w) \<longrightarrow> failure_printed w \<longrightarrow> st = Exited 1)
   \<and> (import_ok e \<longrightarrow>
        client e (Call ''AgentText'' [] [(''base_url'', PStr ''http://localhost:3000'')]) = Returns cl \<longrightarrow>
        client e (Call ''client.watcher.start'' [] [(''callback'', on_message_ref)]) = Returns r \<longrightarrow>
        sleep e k = Raises KeyboardInterrupt \<longrightarrow>
        (\<forall>j<k. \<exists>v. sleep e j = Returns v) \<longrightarrow>
        run_script Watch_messages e argv =
          Some (Exited 0,
                \<lparr>calls = [Call ''AgentText'' [] [(''base_url'', PStr ''http://localhost:3000'')],
                          Call ''client.watcher.start'' [] [(''callback'', on_message_ref)]],
                 stdout = [Json (PDict [(''success'', PBool True),
                                        (''message'', PStr ''Starting message watcher...'')]),
                           Json (PDict [(''success'', PBool True),
                                        (''message'', PStr ''Watcher stopped'')])]\<rparr>))"
  using run_script_exit [of s e argv st w] watch_messages_interrupted [of e cl r k argv]
  by (simp add: run_script_def)

theorem failure_envelope_exits_1_witness:
  "run_script Simple_test
      (env_of True (\<lambda>c. if c = Call ''AgentText'' [] [] then Raises (OtherException ''boom'')
                         else Returns PNone)
         (\<lambda>p. True) (\<lambda>p. Returns PNone)
         (\<lambda>i. if i < 2 then Returns PNone else Raises KeyboardInterrupt)) []
     = Some (Exited 1,
             \<lparr>calls = [Call ''AgentText'' [] []], stdout = [Json (failure ''boom'')]\<rparr>)
   \<and> failure_printed \<lparr>calls = [Call ''AgentText'' [] []], stdout = [Json (failure ''boom'')]\<rparr>
   \<and> run_script Watch_messages
      (env_of True (\<lambda>c. if c = Call ''AgentText'' [] [] then Raises (OtherException ''boom'')
                         else Returns PNone)
         (\<lambda>p. True) (\<lambda>p. Returns PNone)
         (\<lambda>i. if i < 2 then Returns PNone else Raises KeyboardInterrupt)) []
     = Some (Exited 0,
             \<lparr>calls = [Call ''AgentText'' [] [(''base_url'', PStr ''http://localhost:3000'')],
                       Call ''client.watcher.start'' [] [(''callback'', on_message_ref)]],
              stdout = [Json (PDict [(''success'', PBool True),
                                     (''message'', PStr ''Starting message watcher...'')]),
                        Json (PDict [(''success'', PBool True),
                                     (''message'', PStr ''Watcher stopped'')])]\<rparr>)"
  using failure_envelope_exits_1
    [of Simple_test
        "env_of True (\<lambda>c. if c = Call ''AgentText'' [] [] then Raises (OtherException ''boom'')
                         else Returns PNone)
         (\<lambda>p. True) (\<lambda>p. Returns PNone)
         (\<lambda>i. if i < 2 then Returns PNone else Raises KeyboardInterrupt)"
        "[]" "Exited 1"
        "\<lparr>calls = [Call ''AgentText'' [] []], stdout = [Json (failure ''boom'')]\<rparr>"
        PNone PNone 2]
  by (simp add: env_of_def run_script_def simple_test_def simple_test_main_def import_guard_def
        try_except_def simple_test_try_def invoke_def w0_def catch_all_def exc_str_def emit_def
        failure_printed_def is_failure_def field_def failure_def)

section \<open>A file that does not exist\<close>

text \<open>
  C4: \<^verbatim>\<open>send_file.py\<close> called with a \<^verbatim>\<open>file_path\<close> for which \<^verbatim>\<open>os.path.exists\<close> is false prints
  one envelope, with \<^verbatim>\<open>success=false\<close> and the \<^verbatim>\<open>error\<close> field "File not found: " followed by
  the path, so that the error text read from the printed envelope contains the path; it
  exits with code 1, and no call into the package is made, not even the construction of
  the client.
\<close>

theorem send_file_missing_path:
  assumes "import_ok e"
    and "parse_args send_file_parser argv = Parsed args"
    and "arg_values argv = [recipient, path]"
    and "\<not> path_exists e path"
  shows "\<exists>w. run_script Send_file e argv = Some (Exited 1, w)
       \<and> calls w = []
       \<and> stdout w = [Json (PDict [(''success'', PBool False),
                                   (''error'', PStr (''File not found: '' @ path))])]
       \<and> (\<forall>l \<in> set (stdout w).
             is_failure l \<and> (\<exists>err. field ''error'' l = Some (PStr err) \<and> sublist path err))"
proof -
  let ?w = "\<lparr>calls = [],
             stdout = [Json (PDict [(''success'', PBool False),
                                    (''error'', PStr (''File not found: '' @ path))])]\<rparr>"
  from positionals_send_file [OF assms(2)] assms(3)
  have fp: "args ''file_path'' = PStr path" by simp
  have run: "run_script Send_file e argv = Some (Exited 1, ?w)"
    using assms(1,2,4) fp
    by (simp add: run_script_def send_file_def import_guard_def send_file_main_def with_args_def
          py_str_def emit_def w0_def failure_def)
  have "sublist path (''File not found: '' @ path)"
    by (rule sublist_append_leftI)
  then have "\<exists>err. field ''error''
                 (Json (PDict [(''success'', PBool False),
                               (''error'', PStr (''File not found: '' @ path))]))
               = Some (PStr err) \<and> sublist path err"
    by (simp add: field_def)
  then have "\<forall>l \<in> set (stdout ?w).
      is_failure l \<and> (\<exists>err. field ''error'' l = Some (PStr err) \<and> sublist path err)"
    by (simp add: is_failure_def field_def)
  with run show ?thesis
    by (intro exI [of _ ?w]) simp
qed

theorem send_file_missing_path_witness:
  "import_ok (env_of True (\<lambda>c. Returns PNone) (\<lambda>p. False) (\<lambda>p. Returns PNone) (\<lambda>i. Returns PNone))
   \<and> arg_values [Arg ''+15550100'', Arg ''/tmp/nope.png'', Opt ''--text'' (Some ''hi'')] = [''+15550100'', ''/tmp/nope.png'']
   \<and> \<not> path_exists (env_of True (\<lambda>c. Returns PNone) (\<lambda>p. False) (\<lambda>p. Returns PNone) (\<lambda>i. Returns PNone)) ''/tmp/nope.png''
   \<and> run_script Send_file (env_of True (\<lambda>c. Returns PNone) (\<lambda>p. False) (\<lambda>p. Returns PNone) (\<lambda>i. Returns PNone)) [Arg ''+15550100'', Arg ''/tmp/nope.png'', Opt ''--text'' (Some ''hi'')]
      = Some (Exited 1,
              \<lparr>calls = [],
               stdout = [Json (PDict [(''success'', PBool False),
                                      (''error'', PStr ''File not found: /tmp/nope.png'')])]\<rparr>)
   \<and> field ''error'' (Json (PDict [(''success'', PBool False),
                                      (''error'', PStr ''File not found: /tmp/nope.png'')]))
      = Some (PStr ''File not found: /tmp/nope.png'')"
  using send_file_missing_path
    [of "(env_of True (\<lambda>c. Returns PNone) (\<lambda>p. False) (\<lambda>p. Returns PNone) (\<lambda>i. Returns PNone))" "[Arg ''+15550100'', Arg ''/tmp/nope.png'', Opt ''--text'' (Some ''hi'')]"
        "(defaults send_file_parser)(''recipient'' := PStr ''+15550100'',
            ''file_path'' := PStr ''/tmp/nope.png'', ''text'' := PStr ''hi'')"
        "''+15550100''" "''/tmp/nope.png''"]
  by (simp add: env_of_def parse_args_def send_file_parser_def convert_def in_choices_def
        dest_of_def run_script_def send_file_def import_guard_def send_file_main_def
        with_args_def py_str_def emit_def w0_def failure_def field_def)

section \<open>A JSON file that is not an array\<close>

text \<open>
  C5: \<^verbatim>\<open>batch_send.py\<close> on a file that parses as JSON to anything but an array prints one
  envelope, with \<^verbatim>\<open>success=false\<close> and the \<^verbatim>\<open>error\<close> field "JSON file must contain an array
  of messages", and exits with code 1; no call into the package is made, so
  \<^verbatim>\<open>send_batch\<close> is never reached.
\<close>

theorem batch_send_rejects_non_array:
  assumes "import_ok e"
    and "parse_args batch_send_parser argv = Parsed args"
    and "arg_values argv = [json_file]"
    and "load_json e json_file = Returns v"
    and "\<not> is_list v"
  shows "\<exists>w. run_script Batch_send e argv = Some (Exited 1, w)
       \<and> calls w = []
       \<and> stdout w = [Json (PDict [(''success'', PBool False),
                                   (''error'', PStr ''JSON file must contain an array of messages'')])]
       \<and> (\<forall>l \<in> set (stdout w).
             is_failure l
             \<and> field ''error'' l = Some (PStr ''JSON file must contain an array of messages''))"
proof -
  let ?w = "\<lparr>calls = [],
             stdout = [Json (PDict [(''success'', PBool False),
                          (''error'', PStr ''JSON file must contain an array of messages'')])]\<rparr>"
  from positionals_batch_send [OF assms(2)] assms(3)
  have jf: "args ''json_file'' = PStr json_file" by simp
  have run: "run_script Batch_send e argv = Some (Exited 1, ?w)"
    using assms(1,2,4,5) jf
    by (simp add: run_script_def batch_send_def import_guard_def batch_send_main_def with_args_def
          try_except_def batch_send_try_def batch_send_handlers_def client_handlers_def
          propagate_def exit_code_def py_str_def emit_def w0_def failure_def)
  have "\<forall>l \<in> set (stdout ?w).
      is_failure l \<and> field ''error'' l = Some (PStr ''JSON file must contain an array of messages'')"
    by (simp add: is_failure_def field_def)
  with run show ?thesis
    by (intro exI [of _ ?w]) simp
qed

theorem batch_send_rejects_non_array_witness:
  "import_ok (env_of True (\<lambda>c. Returns PNone) (\<lambda>p. True)
               (\<lambda>p. Returns (PDict [(''to'', PStr ''+15550100''), (''content'', PStr ''Hello!'')]))
               (\<lambda>i. Returns PNone))
   \<and> arg_values [Arg ''messages.json''] = [''messages.json'']
   \<and> load_json (env_of True (\<lambda>c. Returns PNone) (\<lambda>p. True)
               (\<lambda>p. Returns (PDict [(''to'', PStr ''+15550100''), (''content'', PStr ''Hello!'')]))
               (\<lambda>i. Returns PNone)) ''messages.json''
       = Returns (PDict [(''to'', PStr ''+15550100''), (''content'', PStr ''Hello!'')])
   \<and> \<not> is_list (PDict [(''to'', PStr ''+15550100''), (''content'', PStr ''Hello!'')])
   \<and> run_script Batch_send (env_of True (\<lambda>c. Returns PNone) (\<lambda>p. True)
               (\<lambda>p. Returns (PDict [(''to'', PStr ''+15550100''), (''content'', PStr ''Hello!'')]))
               (\<lambda>i. Returns PNone)) [Arg ''messages.json'']
      = Some (Exited 1,
              \<lparr>calls = [],
               stdout = [Json (PDict [(''success'', PBool False),
                            (''error'', PStr ''JSON file must contain an array of messages'')])]\<rparr>)"
  using batch_send_rejects_non_array
    [of "(env_of True (\<lambda>c. Returns PNone) (\<lambda>p. True)
               (\<lambda>p. Returns (PDict [(''to'', PStr ''+15550100''), (''content'', PStr ''Hello!'')]))
               (\<lambda>i. Returns PNone))"
        "[Arg ''messages.json'']"
        "(defaults batch_send_parser)(''json_file'' := PStr ''messages.json'')"
        "''messages.json''"
        "PDict [(''to'', PStr ''+15550100''), (''content'', PStr ''Hello!'')]"]
  by (simp add: env_of_def parse_args_def batch_send_parser_def in_choices_def is_list_def
        run_script_def batch_send_def import_guard_def batch_send_main_def with_args_def
        try_except_def batch_send_try_def batch_send_handlers_def client_handlers_def
        propagate_def exit_code_def py_str_def emit_def w0_def failure_def)

section \<open>The import guard\<close>

text \<open>
  C7: in every script, when importing the \<^verbatim>\<open>agenttext\<close> package fails, the process prints
  one failure envelope that names the missing package and exits with code 1. No call is
  made into the package, and the command line plays no part: the result is the same for
  every command line, also for one the parser would reject.
\<close>

theorem import_failure_exits_before_parsing:
  "\<not> import_ok e \<Longrightarrow>
     run_script s e argv =
       Some (Exited 1,
             \<lparr>calls = [],
              stdout = [Json (failure (''AgentText package not installed. Run: pip3 install ''
                          @ (if s = Watch_messages then ''agenttext''
                             else ''-e /path/to/agenttext_package'')))]\<rparr>)"
  by (cases s)
     (simp_all add: run_script_def batch_send_def get_messages_def get_unread_def list_chats_def
        send_file_def send_message_def watcher_def watch_messages_def simple_test_def
        import_guard_def not_installed_def emit_def w0_def)

theorem import_failure_exits_before_parsing_witness:
  "\<not> import_ok (env_of False (\<lambda>c. Returns PNone) (\<lambda>p. True) (\<lambda>p. Returns PNone) (\<lambda>i. Returns PNone))
   \<and> run_script Watcher
         (env_of False (\<lambda>c. Returns PNone) (\<lambda>p. True) (\<lambda>p. Returns PNone) (\<lambda>i. Returns PNone))
         [Arg ''bogus'']
       = Some (Exited 1,
               \<lparr>calls = [],
                stdout = [Json (PDict [(''success'', PBool False),
                   (''error'', PStr ''AgentText package not installed. Run: pip3 install -e /path/to/agenttext_package'')])]\<rparr>)"
  using import_failure_exits_before_parsing
    [of "env_of False (\<lambda>c. Returns PNone) (\<lambda>p. True) (\<lambda>p. Returns PNone) (\<lambda>i. Returns PNone)"
        Watcher "[Arg ''bogus'']"]
  by (simp add: env_of_def failure_def)

section \<open>The envelope of a batch that was sent\<close>

lemma digits_value_snoc: "digits_value (ds @ [c]) = 10 * digits_value ds + ((of_char c :: nat) - 48)"
  by (simp add: digits_value_def)

lemma of_char_digit_char: "d < 10 \<Longrightarrow> (of_char (digit_char d) :: nat) = 48 + d"
  by (simp add: digit_char_def)

lemma digits_value_show_nat: "digits_value (show_nat n) = n"
proof (induction n rule: show_nat.induct)
  case (1 n)
  show ?case
  proof (cases "n < 10")
    case True
    then show ?thesis
      by (subst show_nat.simps) (simp add: digits_value_def of_char_digit_char)
  next
    case False
    with 1 have "digits_value (show_nat (n div 10)) = n div 10" by simp
    with False show ?thesis
      by (subst show_nat.simps) (simp add: digits_value_snoc of_char_digit_char)
  qed
qed

lemma is_list_PList [simp]: "is_list (PList xs)"
  by (simp add: is_list_def)

lemma list_len_PList [simp]: "list_len (PList xs) = length xs"
  by (simp add: list_len_def)

lemma first_some_single [simp]: "first_some [x] = x"
  by (cases x) simp_all

lemma is_success_failure [simp]: "\<not> is_success (Json (failure m))"
  by (simp add: is_success_def field_def failure_def)

lemma show_nat_2: "show_nat 2 = ''2''"
  by code_simp

lemma show_nat_Suc_Suc_0: "show_nat (Suc (Suc 0)) = ''2''"
  by code_simp

text \<open>
  C6: \<^verbatim>\<open>batch_send.py\<close> on a file holding a JSON array of \<open>N\<close> messages, when the client
  is built and \<^verbatim>\<open>send_batch\<close> returns: every success envelope the run prints has the
  message "Sent \<open>N\<close> messages", with \<open>N\<close> in decimal, and an array under \<^verbatim>\<open>results\<close> (what
  the client returned when that is a list, the empty array otherwise). Whenever
  \<^verbatim>\<open>json.dumps\<close> can encode that array, this envelope is the one thing printed and the
  exit code is 0.
\<close>

theorem batch_send_success_envelope:
  assumes "import_ok e"
    and "parse_args batch_send_parser argv = Parsed args"
    and "arg_values argv = [json_file]"
    and "load_json e json_file = Returns (PList msgs)"
    and "client e (Call ''AgentText'' []
           [(''base_url'', PStr (chosen_base_url argv)), (''timeout'', PInt 30)]) = Returns cl"
    and "client e (Call ''client.messages.send_batch'' [PList msgs] []) = Returns results"
    and "run_script Batch_send e argv = Some (st, w)"
  shows "(\<forall>l \<in> set (stdout w). is_success l \<longrightarrow>
            field ''message'' l = Some (PStr (''Sent '' @ show_nat (length msgs) @ '' messages''))
            \<and> (\<exists>rs. field ''results'' l = Some (PList rs)))
       \<and> (unserialisable (if is_list results then results else PList []) = None \<longrightarrow>
            st = Exited 0
            \<and> stdout w =
                [Json (PDict
                   [(''success'', PBool True),
                    (''message'', PStr (''Sent '' @ show_nat (length msgs) @ '' messages'')),
                    (''results'', if is_list results then results else PList [])])])
       \<and> sublist (show_nat (length msgs)) (''Sent '' @ show_nat (length msgs) @ '' messages'')
       \<and> digits_value (show_nat (length msgs)) = length msgs"
proof (intro conjI)
  from positionals_batch_send [OF assms(2)] assms(3)
  have jf: "args ''json_file'' = PStr json_file" by simp
  from base_url_batch_send [OF assms(2)]
  have bu: "args ''base_url'' = PStr (chosen_base_url argv)" .
  have run: "(st, w) =
     (case unserialisable (if is_list results then results else PList []) of
        None \<Rightarrow>
          (Exited 0,
           \<lparr>calls = [Call ''AgentText'' []
                       [(''base_url'', PStr (chosen_base_url argv)), (''timeout'', PInt 30)],
                     Call ''client.messages.send_batch'' [PList msgs] []],
            stdout = [Json (PDict
                   [(''success'', PBool True),
                    (''message'', PStr (''Sent '' @ show_nat (length msgs) @ '' messages'')),
                    (''results'', if is_list results then results else PList [])])]\<rparr>)
      | Some cls \<Rightarrow>
          (Exited 1,
           \<lparr>calls = [Call ''AgentText'' []
                       [(''base_url'', PStr (chosen_base_url argv)), (''timeout'', PInt 30)],
                     Call ''client.messages.send_batch'' [PList msgs] []],
            stdout = [Json (failure (''Object of type '' @ cls @ '' is not JSON serializable''))]\<rparr>))"
    using assms(1,2,4-7) jf bu
    by (simp add: run_script_def batch_send_def import_guard_def batch_send_main_def with_args_def
          try_except_def batch_send_try_def batch_send_handlers_def client_handlers_def
          construct_def invoke_def print_json_def py_str_def emit_def w0_def exc_str_def
          split: option.splits split del: if_split)
  show "\<forall>l \<in> set (stdout w). is_success l \<longrightarrow>
            field ''message'' l = Some (PStr (''Sent '' @ show_nat (length msgs) @ '' messages''))
            \<and> (\<exists>rs. field ''results'' l = Some (PList rs))"
    using run
    by (cases "is_list results"; cases results)
       (auto simp: field_def is_list_def is_success_def failure_def split: option.splits)
  show "unserialisable (if is_list results then results else PList []) = None \<longrightarrow>
            st = Exited 0
            \<and> stdout w =
                [Json (PDict
                   [(''success'', PBool True),
                    (''message'', PStr (''Sent '' @ show_nat (length msgs) @ '' messages'')),
                    (''results'', if is_list results then results else PList [])])]"
    using run
    by (cases "unserialisable (if is_list results then results else PList [])")
       (simp_all split del: if_split)
  show "sublist (show_nat (length msgs)) (''Sent '' @ show_nat (length msgs) @ '' messages'')"
    by (rule sublist_appendI)
  show "digits_value (show_nat (length msgs)) = length msgs"
    by (rule digits_value_show_nat)
qed


theorem batch_send_success_envelope_witness:
  "import_ok (env_of True (\<lambda>c. Returns (PList [PDict [(''id'', PInt 1)], PDict [(''id'', PInt 2)]]))
        (\<lambda>p. True)
        (\<lambda>p. Returns (PList [PDict [(''to'', PStr ''+15550100''), (''content'', PStr ''Hello!'')],
                              PDict [(''to'', PStr ''a@b.c''), (''content'', PStr ''Hi'')]]))
        (\<lambda>i. Returns PNone))
   \<and> run_script Batch_send
        (env_of True (\<lambda>c. Returns (PList [PDict [(''id'', PInt 1)], PDict [(''id'', PInt 2)]]))
          (\<lambda>p. True)
          (\<lambda>p. Returns (PList [PDict [(''to'', PStr ''+15550100''), (''content'', PStr ''Hello!'')],
                              PDict [(''to'', PStr ''a@b.c''), (''content'', PStr ''Hi'')]]))
          (\<lambda>i. Returns PNone))
        [Arg ''m.json'']
      = Some (Exited 0,
          \<lparr>calls = [Call ''AgentText'' []
                      [(''base_url'', PStr ''http://localhost:3000''), (''timeout'', PInt 30)],
                    Call ''client.messages.send_batch''
                      [PList [PDict [(''to'', PStr ''+15550100''), (''content'', PStr ''Hello!'')],
                              PDict [(''to'', PStr ''a@b.c''), (''content'', PStr ''Hi'')]]] []],
           stdout = [Json (PDict
                      [(''success'', PBool True),
                       (''message'', PStr ''Sent 2 messages''),
                       (''results'', PList [PDict [(''id'', PInt 1)], PDict [(''id'', PInt 2)]])])]\<rparr>)
   \<and> is_success (Json (PDict
                      [(''success'', PBool True),
                       (''message'', PStr ''Sent 2 messages''),
                       (''results'', PList [PDict [(''id'', PInt 1)], PDict [(''id'', PInt 2)]])]))
   \<and> unserialisable (PList [PDict [(''id'', PInt 1)], PDict [(''id'', PInt 2)]]) = None
   \<and> field ''message'' (Json (PDict
                      [(''success'', PBool True),
                       (''message'', PStr ''Sent 2 messages''),
                       (''results'', PList [PDict [(''id'', PInt 1)], PDict [(''id'', PInt 2)]])]))
        = Some (PStr (''Sent '' @ show_nat 2 @ '' messages''))"
  using batch_send_success_envelope
    [of "env_of True (\<lambda>c. Returns (PList [PDict [(''id'', PInt 1)], PDict [(''id'', PInt 2)]]))
          (\<lambda>p. True)
          (\<lambda>p. Returns (PList [PDict [(''to'', PStr ''+15550100''), (''content'', PStr ''Hello!'')],
                              PDict [(''to'', PStr ''a@b.c''), (''content'', PStr ''Hi'')]]))
          (\<lambda>i. Returns PNone)"
        "[Arg ''m.json'']"
        "(defaults batch_send_parser)(''json_file'' := PStr ''m.json'')"
        "''m.json''"
        "[PDict [(''to'', PStr ''+15550100''), (''content'', PStr ''Hello!'')],
          PDict [(''to'', PStr ''a@b.c''), (''content'', PStr ''Hi'')]]"
        "PList [PDict [(''id'', PInt 1)], PDict [(''id'', PInt 2)]]"
        "PList [PDict [(''id'', PInt 1)], PDict [(''id'', PInt 2)]]"
        "Exited 0"
        "\<lparr>calls = [Call ''AgentText'' []
                      [(''base_url'', PStr ''http://localhost:3000''), (''timeout'', PInt 30)],
                    Call ''client.messages.send_batch''
                      [PList [PDict [(''to'', PStr ''+15550100''), (''content'', PStr ''Hello!'')],
                              PDict [(''to'', PStr ''a@b.c''), (''content'', PStr ''Hi'')]]] []],
           stdout = [Json (PDict
                      [(''success'', PBool True),
                       (''message'', PStr ''Sent 2 messages''),
                       (''results'', PList [PDict [(''id'', PInt 1)], PDict [(''id'', PInt 2)]])])]\<rparr>"]
  by (simp add: env_of_def parse_args_def batch_send_parser_def in_choices_def dest_of_def
        chosen_base_url_def run_script_def batch_send_def import_guard_def batch_send_main_def
        with_args_def try_except_def batch_send_try_def construct_def invoke_def print_json_def
        py_str_def emit_def w0_def show_nat_2 show_nat_Suc_Suc_0 is_success_def field_def)

section \<open>The count field\<close>

lemma get_messages_count:
  assumes "import_ok e"
    and "parse_args get_messages_parser argv = Parsed args"
    and "client e (Call ''AgentText'' []
           [(''base_url'', PStr (chosen_base_url argv)), (''timeout'', PInt 30)]) = Returns cl"
    and "client e (Call ''client.messages.list'' [] (get_messages_filters args)) = Returns messages"
    and "run_script Get_messages e argv = Some (st, w)"
  shows "(\<forall>l \<in> set (stdout w). \<forall>c. field ''count'' l = Some c \<longrightarrow>
            c = PInt (if is_list messages then int (list_len messages) else 0))
       \<and> (unserialisable (if is_list messages \<or> is_dict messages then messages else PList []) = None \<longrightarrow>
            st = Exited 0
            \<and> stdout w =
                [Json (PDict
                   [(''success'', PBool True),
                    (''messages'', if is_list messages \<or> is_dict messages then messages else PList []),
                    (''count'', PInt (if is_list messages then int (list_len messages) else 0))])])"
proof -
  from base_url_get_messages [OF assms(2)]
  have bu: "args ''base_url'' = PStr (chosen_base_url argv)" .
  have run: "try_except (get_messages_try e args) (client_handlers args) w0 = (st, w)"
    using assms(1,2,5)
    by (simp add: run_script_def get_messages_def import_guard_def get_messages_main_def
          with_args_def)
  show ?thesis
    using run assms(3,4) bu
    by (cases messages)
       (auto simp: try_except_def get_messages_try_def client_handlers_def construct_def
          invoke_def print_json_def emit_def w0_def exc_str_def is_list_def is_dict_def
          list_len_def field_def failure_def
          split: option.splits)
qed

lemma list_chats_count:
  assumes "import_ok e"
    and "parse_args list_chats_parser argv = Parsed args"
    and "client e (Call ''AgentText'' []
           [(''base_url'', PStr (chosen_base_url argv)), (''timeout'', PInt 30)]) = Returns cl"
    and "client e (Call ''client.chats.list'' [] (list_chats_filters args)) = Returns chats"
    and "run_script List_chats e argv = Some (st, w)"
  shows "(\<forall>l \<in> set (stdout w). \<forall>c. field ''count'' l = Some c \<longrightarrow>
            c = PInt (if is_list chats then int (list_len chats) else 0))
       \<and> (unserialisable (if is_list chats then chats else PList []) = None \<longrightarrow>
            st = Exited 0
            \<and> stdout w =
                [Json (PDict
                   [(''success'', PBool True),
                    (''chats'', if is_list chats then chats else PList []),
                    (''count'', PInt (if is_list chats then int (list_len chats) else 0))])])
       \<and> (\<not> is_list chats \<longrightarrow>
            st = Exited 0
            \<and> stdout w =
                [Json (PDict
                   [(''success'', PBool True), (''chats'', PList []), (''count'', PInt 0)])])"
proof -
  from base_url_list_chats [OF assms(2)]
  have bu: "args ''base_url'' = PStr (chosen_base_url argv)" .
  have run: "try_except (list_chats_try e args) (client_handlers args) w0 = (st, w)"
    using assms(1,2,5)
    by (simp add: run_script_def list_chats_def import_guard_def list_chats_main_def
          with_args_def)
  show ?thesis
    using run assms(3,4) bu
    by (cases chats)
       (auto simp: try_except_def list_chats_try_def client_handlers_def construct_def
          invoke_def print_json_def emit_def w0_def exc_str_def is_list_def is_dict_def
          list_len_def field_def failure_def
          split: option.splits)
qed

text \<open>
  C10: in \<^verbatim>\<open>get_messages.py\<close> and \<^verbatim>\<open>list_chats.py\<close>, when the client is built and the list
  call returns, every printed envelope with a \<^verbatim>\<open>count\<close> field has there the length of the
  returned value when it is a list and 0 otherwise, and that envelope is printed, with
  exit code 0, whenever \<^verbatim>\<open>json.dumps\<close> can encode the payload. In \<^verbatim>\<open>list_chats.py\<close> a
  returned value that is not a list is replaced by the empty array under \<^verbatim>\<open>chats\<close>.
\<close>

theorem count_field:
  "(import_ok e \<longrightarrow>
    parse_args get_messages_parser argv = Parsed args \<longrightarrow>
    client e (Call ''AgentText'' []
      [(''base_url'', PStr (chosen_base_url argv)), (''timeout'', PInt 30)]) = Returns cl \<longrightarrow>
    client e (Call ''client.messages.list'' [] (get_messages_filters args)) = Returns messages \<longrightarrow>
    run_script Get_messages e argv = Some (st, w) \<longrightarrow>
      (\<forall>l \<in> set (stdout w). \<forall>c. field ''count'' l = Some c \<longrightarrow>
          c = PInt (if is_list messages then int (list_len messages) else 0))
      \<and> (unserialisable (if is_list messages \<or> is_dict messages then messages else PList []) = None \<longrightarrow>
          st = Exited 0
          \<and> stdout w =
              [Json (PDict
                 [(''success'', PBool True),
                  (''messages'', if is_list messages \<or> is_dict messages then messages else PList []),
                  (''count'', PInt (if is_list messages then int (list_len messages) else 0))])]))
   \<and> (import_ok e \<longrightarrow>
    parse_args list_chats_parser argv = Parsed args' \<longrightarrow>
    client e (Call ''AgentText'' []
      [(''base_url'', PStr (chosen_base_url argv)), (''timeout'', PInt 30)]) = Returns cl' \<longrightarrow>
    client e (Call ''client.chats.list'' [] (list_chats_filters args')) = Returns chats \<longrightarrow>
    run_script List_chats e argv = Some (st', w') \<longrightarrow>
      (\<forall>l \<in> set (stdout w'). \<forall>c. field ''count'' l = Some c \<longrightarrow>
          c = PInt (if is_list chats then int (list_len chats) else 0))
      \<and> (unserialisable (if is_list chats then chats else PList []) = None \<longrightarrow>
          st' = Exited 0
          \<and> stdout w' =
              [Json (PDict
                 [(''success'', PBool True),
                  (''chats'', if is_list chats then chats else PList []),
                  (''count'', PInt (if is_list chats then int (list_len chats) else 0))])])
      \<and> (\<not> is_list chats \<longrightarrow>
          st' = Exited 0
          \<and> stdout w' =
              [Json (PDict
                 [(''success'', PBool True), (''chats'', PList []), (''count'', PInt 0)])]))"
  using get_messages_count [of e argv args cl messages st w]
    list_chats_count [of e argv args' cl' chats st' w']
  by blast

theorem count_field_witness:
  "import_ok (env_of True
          (\<lambda>c. if c = Call ''client.messages.list'' [] [(''limit'', PInt 10)]
               then Returns (PList [PStr ''a'', PStr ''b'', PStr ''c''])
               else Returns (PStr ''no chats''))
          (\<lambda>p. True) (\<lambda>p. Returns PNone) (\<lambda>i. Returns PNone))
   \<and> run_script Get_messages (env_of True
          (\<lambda>c. if c = Call ''client.messages.list'' [] [(''limit'', PInt 10)]
               then Returns (PList [PStr ''a'', PStr ''b'', PStr ''c''])
               else Returns (PStr ''no chats''))
          (\<lambda>p. True) (\<lambda>p. Returns PNone) (\<lambda>i. Returns PNone)) [] = Some (Exited 0, \<lparr>calls = [Call ''AgentText'' []
                      [(''base_url'', PStr ''http://localhost:3000''), (''timeout'', PInt 30)],
                    Call ''client.messages.list'' [] [(''limit'', PInt 10)]],
           stdout = [Json (PDict
                      [(''success'', PBool True),
                       (''messages'', PList [PStr ''a'', PStr ''b'', PStr ''c'']),
                       (''count'', PInt 3)])]\<rparr>)
   \<and> is_list (PList [PStr ''a'', PStr ''b'', PStr ''c''])
   \<and> list_len (PList [PStr ''a'', PStr ''b'', PStr ''c'']) = 3
   \<and> run_script List_chats (env_of True
          (\<lambda>c. if c = Call ''client.messages.list'' [] [(''limit'', PInt 10)]
               then Returns (PList [PStr ''a'', PStr ''b'', PStr ''c''])
               else Returns (PStr ''no chats''))
          (\<lambda>p. True) (\<lambda>p. Returns PNone) (\<lambda>i. Returns PNone)) [] = Some (Exited 0, \<lparr>calls = [Call ''AgentText'' []
                      [(''base_url'', PStr ''http://localhost:3000''), (''timeout'', PInt 30)],
                    Call ''client.chats.list'' [] [(''limit'', PInt 20)]],
           stdout = [Json (PDict
                      [(''success'', PBool True), (''chats'', PList []), (''count'', PInt 0)])]\<rparr>)
   \<and> \<not> is_list (PStr ''no chats'')"
  using count_field
    [of "(env_of True
          (\<lambda>c. if c = Call ''client.messages.list'' [] [(''limit'', PInt 10)]
               then Returns (PList [PStr ''a'', PStr ''b'', PStr ''c''])
               else Returns (PStr ''no chats''))
          (\<lambda>p. True) (\<lambda>p. Returns PNone) (\<lambda>i. Returns PNone))" "[]" "defaults get_messages_parser" "PStr ''no chats''"
        "PList [PStr ''a'', PStr ''b'', PStr ''c'']" "Exited 0" "\<lparr>calls = [Call ''AgentText'' []
                      [(''base_url'', PStr ''http://localhost:3000''), (''timeout'', PInt 30)],
                    Call ''client.messages.list'' [] [(''limit'', PInt 10)]],
           stdout = [Json (PDict
                      [(''success'', PBool True),
                       (''messages'', PList [PStr ''a'', PStr ''b'', PStr ''c'']),
                       (''count'', PInt 3)])]\<rparr>"
        "defaults list_chats_parser" "PStr ''no chats''" "PStr ''no chats''" "Exited 0" "\<lparr>calls = [Call ''AgentText'' []
                      [(''base_url'', PStr ''http://localhost:3000''), (''timeout'', PInt 30)],
                    Call ''client.chats.list'' [] [(''limit'', PInt 20)]],
           stdout = [Json (PDict
                      [(''success'', PBool True), (''chats'', PList []), (''count'', PInt 0)])]\<rparr>"]
  by (simp add: env_of_def parse_args_def get_messages_parser_def list_chats_parser_def
        dest_of_def chosen_base_url_def get_messages_filters_def list_chats_filters_def truthy_def
        is_list_def is_dict_def list_len_def
        run_script_def get_messages_def list_chats_def import_guard_def get_messages_main_def
        list_chats_main_def with_args_def try_except_def get_messages_try_def list_chats_try_def
        construct_def invoke_def print_json_def emit_def w0_def)

section \<open>The status of the watcher\<close>

text \<open>
  C8, as the claim states it: the \<^verbatim>\<open>status\<close> field is whatever the client returned,
  unmodified. It is not: \<^verbatim>\<open>watcher.py\<close> passes a returned value through only when it is a
  dictionary, and prints \<^verbatim>\<open>str(result)\<close> otherwise. When \<^verbatim>\<open>status()\<close> returns \<^verbatim>\<open>True\<close>, the
  field is the string "True".
\<close>

theorem watcher_status_counterexample:
  "client (env_of True (\<lambda>c. Returns (PBool True)) (\<lambda>p. True) (\<lambda>p. Returns PNone) (\<lambda>i. Returns PNone))
      (Call ''client.watcher.status'' [] []) = Returns (PBool True)
   \<and> run_script Watcher
        (env_of True (\<lambda>c. Returns (PBool True)) (\<lambda>p. True) (\<lambda>p. Returns PNone) (\<lambda>i. Returns PNone))
        [Arg ''status'']
      = Some (Exited 0,
          \<lparr>calls = [Call ''AgentText'' []
                      [(''base_url'', PStr ''http://localhost:3000''), (''timeout'', PInt 30)],
                    Call ''client.watcher.status'' [] []],
           stdout = [Json (PDict
                      [(''success'', PBool True),
                       (''action'', PStr ''status''),
                       (''status'', PStr ''True'')])]\<rparr>)"
  by (simp add: env_of_def parse_args_def watcher_parser_def in_choices_def dest_of_def
        run_script_def watcher_def import_guard_def watcher_main_def with_args_def try_except_def
        watcher_try_def construct_def invoke_def print_json_def emit_def w0_def dict_or_str_def
        is_dict_def py_str_def)

text \<open>
  C8, amended: for the action \<^verbatim>\<open>status\<close>, when the client is built and \<^verbatim>\<open>status()\<close>
  returns: a dictionary that \<^verbatim>\<open>json.dumps\<close> can encode is printed unmodified under
  \<^verbatim>\<open>status\<close>, in an envelope with \<^verbatim>\<open>success=true\<close>, exit code 0; any value that is not a
  dictionary is printed as the string \<^verbatim>\<open>str\<close> gives for it, likewise. Every success
  envelope the run prints carries one of the two.
\<close>

theorem watcher_status_envelope:
  assumes "import_ok e"
    and "parse_args watcher_parser argv = Parsed args"
    and "arg_values argv = [''status'']"
    and "client e (Call ''AgentText'' []
           [(''base_url'', PStr (chosen_base_url argv)), (''timeout'', PInt 30)]) = Returns cl"
    and "client e (Call ''client.watcher.status'' [] []) = Returns result"
    and "run_script Watcher e argv = Some (st, w)"
  shows "(is_dict result \<and> unserialisable result = None \<longrightarrow>
            st = Exited 0
            \<and> stdout w =
                [Json (PDict [(''success'', PBool True), (''action'', PStr ''status''),
                              (''status'', result)])])
       \<and> (\<not> is_dict result \<longrightarrow>
            st = Exited 0
            \<and> stdout w =
                [Json (PDict [(''success'', PBool True), (''action'', PStr ''status''),
                              (''status'', PStr (py_str result))])])
       \<and> (\<forall>l \<in> set (stdout w). is_success l \<longrightarrow>
            field ''status'' l = Some (if is_dict result then result else PStr (py_str result)))"
proof -
  from base_url_watcher [OF assms(2)]
  have bu: "args ''base_url'' = PStr (chosen_base_url argv)" .
  from positionals_watcher [OF assms(2)] assms(3)
  have act: "args ''action'' = PStr ''status''" by simp
  have run: "try_except (watcher_try e args) (client_handlers args) w0 = (st, w)"
    using assms(1,2,6)
    by (simp add: run_script_def watcher_def import_guard_def watcher_main_def with_args_def)
  show ?thesis
    using run assms(4,5) bu act
    by (cases result)
       (auto simp: try_except_def watcher_try_def client_handlers_def construct_def
          invoke_def print_json_def emit_def w0_def exc_str_def is_dict_def dict_or_str_def
          field_def failure_def is_success_def
          split: option.splits)
qed


theorem watcher_status_envelope_witness:
  "(import_ok (env_of True (\<lambda>c. Returns (PDict [(''running'', PBool True), (''pid'', PInt 4242)]))
          (\<lambda>p. True) (\<lambda>p. Returns PNone) (\<lambda>i. Returns PNone))
   \<and> arg_values [Arg ''status'', Opt ''--base-url'' (Some ''http://127.0.0.1:8080'')] = [''status'']
   \<and> is_dict (PDict [(''running'', PBool True), (''pid'', PInt 4242)])
   \<and> unserialisable (PDict [(''running'', PBool True), (''pid'', PInt 4242)]) = None
   \<and> run_script Watcher (env_of True (\<lambda>c. Returns (PDict [(''running'', PBool True), (''pid'', PInt 4242)]))
          (\<lambda>p. True) (\<lambda>p. Returns PNone) (\<lambda>i. Returns PNone)) [Arg ''status'', Opt ''--base-url'' (Some ''http://127.0.0.1:8080'')] = Some (Exited 0, \<lparr>calls = [Call ''AgentText'' []
                      [(''base_url'', PStr ''http://127.0.0.1:8080''), (''timeout'', PInt 30)],
                    Call ''client.watcher.status'' [] []],
           stdout = [Json (PDict
                      [(''success'', PBool True),
                       (''action'', PStr ''status''),
                       (''status'', PDict [(''running'', PBool True), (''pid'', PInt 4242)])])]\<rparr>))
   \<and> (\<not> is_dict PNone
   \<and> run_script Watcher (env_of True (\<lambda>c. Returns PNone)
          (\<lambda>p. True) (\<lambda>p. Returns PNone) (\<lambda>i. Returns PNone)) [Arg ''status'', Opt ''--base-url'' (Some ''http://127.0.0.1:8080'')] = Some (Exited 0, \<lparr>calls = [Call ''AgentText'' []
                      [(''base_url'', PStr ''http://127.0.0.1:8080''), (''timeout'', PInt 30)],
                    Call ''client.watcher.status'' [] []],
           stdout = [Json (PDict
                      [(''success'', PBool True),
                       (''action'', PStr ''status''),
                       (''status'', PStr ''None'')])]\<rparr>))"
proof (rule conjI)
  show "import_ok (env_of True (\<lambda>c. Returns (PDict [(''running'', PBool True), (''pid'', PInt 4242)]))
          (\<lambda>p. True) (\<lambda>p. Returns PNone) (\<lambda>i. Returns PNone))
   \<and> arg_values [Arg ''status'', Opt ''--base-url'' (Some ''http://127.0.0.1:8080'')] = [''status'']
   \<and> is_dict (PDict [(''running'', PBool True), (''pid'', PInt 4242)])
   \<and> unserialisable (PDict [(''running'', PBool True), (''pid'', PInt 4242)]) = None
   \<and> run_script Watcher (env_of True (\<lambda>c. Returns (PDict [(''running'', PBool True), (''pid'', PInt 4242)]))
          (\<lambda>p. True) (\<lambda>p. Returns PNone) (\<lambda>i. Returns PNone)) [Arg ''status'', Opt ''--base-url'' (Some ''http://127.0.0.1:8080'')] = Some (Exited 0, \<lparr>calls = [Call ''AgentText'' []
                      [(''base_url'', PStr ''http://127.0.0.1:8080''), (''timeout'', PInt 30)],
                    Call ''client.watcher.status'' [] []],
           stdout = [Json (PDict
                      [(''success'', PBool True),
                       (''action'', PStr ''status''),
                       (''status'', PDict [(''running'', PBool True), (''pid'', PInt 4242)])])]\<rparr>)"
    using watcher_status_envelope
      [of "(env_of True (\<lambda>c. Returns (PDict [(''running'', PBool True), (''pid'', PInt 4242)]))
          (\<lambda>p. True) (\<lambda>p. Returns PNone) (\<lambda>i. Returns PNone))" "[Arg ''status'', Opt ''--base-url'' (Some ''http://127.0.0.1:8080'')]"
        "(defaults watcher_parser)(''action'' := PStr ''status'',
            ''base_url'' := PStr ''http://127.0.0.1:8080'')"
        "(PDict [(''running'', PBool True), (''pid'', PInt 4242)])" "(PDict [(''running'', PBool True), (''pid'', PInt 4242)])" "Exited 0" "\<lparr>calls = [Call ''AgentText'' []
                      [(''base_url'', PStr ''http://127.0.0.1:8080''), (''timeout'', PInt 30)],
                    Call ''client.watcher.status'' [] []],
           stdout = [Json (PDict
                      [(''success'', PBool True),
                       (''action'', PStr ''status''),
                       (''status'', PDict [(''running'', PBool True), (''pid'', PInt 4242)])])]\<rparr>"]
    by (simp add: env_of_def parse_args_def watcher_parser_def in_choices_def dest_of_def
          convert_def chosen_base_url_def given_values_def is_dict_def py_str_def
          run_script_def watcher_def import_guard_def watcher_main_def with_args_def try_except_def
          watcher_try_def construct_def invoke_def print_json_def emit_def w0_def dict_or_str_def)
  show "\<not> is_dict PNone
   \<and> run_script Watcher (env_of True (\<lambda>c. Returns PNone)
          (\<lambda>p. True) (\<lambda>p. Returns PNone) (\<lambda>i. Returns PNone)) [Arg ''status'', Opt ''--base-url'' (Some ''http://127.0.0.1:8080'')] = Some (Exited 0, \<lparr>calls = [Call ''AgentText'' []
                      [(''base_url'', PStr ''http://127.0.0.1:8080''), (''timeout'', PInt 30)],
                    Call ''client.watcher.status'' [] []],
           stdout = [Json (PDict
                      [(''success'', PBool True),
                       (''action'', PStr ''status''),
                       (''status'', PStr ''None'')])]\<rparr>)"
    using watcher_status_envelope
      [of "(env_of True (\<lambda>c. Returns PNone)
          (\<lambda>p. True) (\<lambda>p. Returns PNone) (\<lambda>i. Returns PNone))" "[Arg ''status'', Opt ''--base-url'' (Some ''http://127.0.0.1:8080'')]"
        "(defaults watcher_parser)(''action'' := PStr ''status'',
            ''base_url'' := PStr ''http://127.0.0.1:8080'')"
        PNone PNone "Exited 0" "\<lparr>calls = [Call ''AgentText'' []
                      [(''base_url'', PStr ''http://127.0.0.1:8080''), (''timeout'', PInt 30)],
                    Call ''client.watcher.status'' [] []],
           stdout = [Json (PDict
                      [(''success'', PBool True),
                       (''action'', PStr ''status''),
                       (''status'', PStr ''None'')])]\<rparr>"]
    by (simp add: env_of_def parse_args_def watcher_parser_def in_choices_def dest_of_def
          convert_def chosen_base_url_def given_values_def is_dict_def py_str_def
          run_script_def watcher_def import_guard_def watcher_main_def with_args_def try_except_def
          watcher_try_def construct_def invoke_def print_json_def emit_def w0_def dict_or_str_def)
qed

section \<open>Splitting and stripping\<close>

lemma split_on_not_Nil [simp]: "split_on c s \<noteq> []"
  by (induction s) (auto simp: Let_def)

lemma join_split_on: "join [c] (split_on c s) = s"
proof (induction s)
  case Nil
  then show ?case by simp
next
  case (Cons x xs)
  obtain h t where r: "split_on c xs = h # t"
    by (cases "split_on c xs") simp_all
  show ?case
  proof (cases "x = c")
    case True
    with Cons r show ?thesis by simp
  next
    case False
    with Cons r show ?thesis by (cases t) simp_all
  qed
qed

lemma split_on_no_sep: "p \<in> set (split_on c s) \<Longrightarrow> c \<notin> set p"
proof (induction s arbitrary: p)
  case Nil
  then show ?case by simp
next
  case (Cons x xs)
  obtain h t where r: "split_on c xs = h # t"
    by (cases "split_on c xs") simp_all
  show ?case
  proof (cases "x = c")
    case True
    with Cons.prems r have "p = [] \<or> p \<in> set (split_on c xs)" by auto
    with Cons.IH show ?thesis by auto
  next
    case False
    with Cons.prems r have "p = x # h \<or> p \<in> set t" by auto
    then show ?thesis
    proof
      assume "p = x # h"
      moreover have "c \<notin> set h" using Cons.IH [of h] r by simp
      ultimately show ?thesis using False by auto
    next
      assume "p \<in> set t"
      then have "p \<in> set (split_on c xs)" using r by simp
      with Cons.IH show ?thesis by blast
    qed
  qed
qed

lemma strip_decomp:
  "\<exists>a b. p = a @ strip p @ b \<and> (\<forall>x \<in> set a. is_space x) \<and> (\<forall>x \<in> set b. is_space x)"
proof -
  define q where "q = dropWhile is_space p"
  have 1: "p = takeWhile is_space p @ q" by (simp add: q_def)
  have "rev (dropWhile is_space (rev q)) @ rev (takeWhile is_space (rev q))
          = rev (takeWhile is_space (rev q) @ dropWhile is_space (rev q))"
    by (simp only: rev_append)
  also have "\<dots> = rev (rev q)" by (simp only: takeWhile_dropWhile_id)
  also have "\<dots> = q" by simp
  finally have 2: "q = strip p @ rev (takeWhile is_space (rev q))"
    by (simp add: strip_def q_def)
  have 3: "\<forall>x \<in> set (takeWhile is_space p). is_space x"
    by (auto dest: set_takeWhileD)
  have 4: "\<forall>x \<in> set (rev (takeWhile is_space (rev q))). is_space x"
    by (auto dest: set_takeWhileD)
  from 1 2 have "p = takeWhile is_space p @ strip p @ rev (takeWhile is_space (rev q))"
    by simp
  with 3 4 show ?thesis by blast
qed

lemma strip_ends:
  assumes "strip p \<noteq> []"
  shows "\<not> is_space (hd (strip p)) \<and> \<not> is_space (last (strip p))"
proof -
  define q where "q = dropWhile is_space p"
  have s: "strip p = rev (dropWhile is_space (rev q))" by (simp add: strip_def q_def)
  from assms s have d: "dropWhile is_space (rev q) \<noteq> []" by simp
  then have "\<not> is_space (hd (dropWhile is_space (rev q)))" by (rule hd_dropWhile)
  with d s have l: "\<not> is_space (last (strip p))" by (simp add: last_rev)
  have "rev (dropWhile is_space (rev q)) @ rev (takeWhile is_space (rev q))
          = rev (takeWhile is_space (rev q) @ dropWhile is_space (rev q))"
    by (simp only: rev_append)
  also have "\<dots> = rev (rev q)" by (simp only: takeWhile_dropWhile_id)
  also have "\<dots> = q" by simp
  finally have 2: "q = strip p @ rev (takeWhile is_space (rev q))" by (simp add: s)
  with assms have "hd q = hd (strip p)" by (metis hd_append2)
  moreover from 2 assms have "q \<noteq> []" by auto
  then have "\<not> is_space (hd q)" unfolding q_def by (rule hd_dropWhile)
  ultimately show ?thesis using l by simp
qed

section \<open>The calls a run makes\<close>

lemma client_handlers_calls [simp]: "calls (snd (client_handlers args x w)) = calls w"
  by (simp add: client_handlers_def emit_def split: exc.splits)

lemma batch_send_handlers_calls [simp]: "calls (snd (batch_send_handlers args x w)) = calls w"
  by (simp add: batch_send_handlers_def emit_def split: exc.splits)

lemma catch_all_calls [simp]: "calls (snd (catch_all x w)) = calls w"
  by (simp add: catch_all_def emit_def split: exc.splits)

lemma watch_messages_handlers_calls [simp]: "calls (snd (watch_messages_handlers x w)) = calls w"
  by (simp add: watch_messages_handlers_def emit_def split: exc.splits)

lemma print_json_calls [simp]: "calls (snd (print_json v w)) = calls w"
  by (simp add: print_json_def emit_def split: option.splits)

lemma try_except_calls:
  "(\<And>x w'. calls (snd (h x w')) = calls w') \<Longrightarrow>
     calls (snd (try_except body h w)) = calls (snd (body w))"
  by (simp add: try_except_def split: prod.splits option.splits)


lemma send_message_calls:
  assumes "args ''recipient'' = PStr recipient" and "args ''message'' = PStr message"
    and "args ''base_url'' = PStr url"
    and "client e (Call ''AgentText'' [] [(''base_url'', PStr url), (''timeout'', PInt 30)])
           = Returns cl"
  shows "calls (snd (send_message_try e args w0)) =
     [Call ''AgentText'' [] [(''base_url'', PStr url), (''timeout'', PInt 30)],
      (case args ''files'' of
         PStr files \<Rightarrow>
           if files \<noteq> [] then
             Call ''client.messages.send_files'' []
               [(''to'', PStr recipient),
                (''file_paths'', PList (map (\<lambda>f. PStr (strip f)) (split_on CHR '','' files))),
                (''text'', PStr message)]
           else Call ''client.messages.send'' []
                  [(''to'', PStr recipient), (''content'', PStr message)]
       | v \<Rightarrow> Call ''client.messages.send'' []
                  [(''to'', PStr recipient), (''content'', PStr message)])]
     \<or> (\<exists>v. args ''files'' = v \<and> (\<forall>s. v \<noteq> PStr s) \<and> v \<noteq> PNone)"
  using assms
  by (cases "args ''files''")
     (auto simp: send_message_try_def construct_def invoke_def w0_def truthy_def
           split: prod.splits outcome.splits)

section \<open>Text or attachments\<close>

text \<open>
  C9: in \<^verbatim>\<open>send_message.py\<close>, once the client is built, the second call is the plain
  \<^verbatim>\<open>messages.send\<close> when \<^verbatim>\<open>--files\<close> is absent or empty, and \<^verbatim>\<open>messages.send_files\<close> exactly
  when the last \<^verbatim>\<open>--files\<close> value is a non-empty string; \<^verbatim>\<open>file_paths\<close> is then that value
  split at its commas, each piece stripped. Splitting loses nothing (joining the pieces
  with commas gives the value back, and no piece holds a comma); stripping removes
  whitespace from both ends only, and all of it.
\<close>

theorem send_message_files_branch:
  assumes "import_ok e"
    and "parse_args send_message_parser argv = Parsed args"
    and "arg_values argv = [recipient, message]"
    and "client e (Call ''AgentText'' []
           [(''base_url'', PStr (chosen_base_url argv)), (''timeout'', PInt 30)]) = Returns cl"
    and "run_script Send_message e argv = Some (st, w)"
  shows "(given_values ''--files'' argv = [] \<or> last (given_values ''--files'' argv) = [] \<longrightarrow>
            calls w =
              [Call ''AgentText'' []
                 [(''base_url'', PStr (chosen_base_url argv)), (''timeout'', PInt 30)],
               Call ''client.messages.send'' []
                 [(''to'', PStr recipient), (''content'', PStr message)]])
       \<and> (given_values ''--files'' argv \<noteq> [] \<and> last (given_values ''--files'' argv) \<noteq> [] \<longrightarrow>
            calls w =
              [Call ''AgentText'' []
                 [(''base_url'', PStr (chosen_base_url argv)), (''timeout'', PInt 30)],
               Call ''client.messages.send_files'' []
                 [(''to'', PStr recipient),
                  (''file_paths'',
                   PList (map (\<lambda>f. PStr (strip f))
                            (split_on CHR '','' (last (given_values ''--files'' argv))))),
                  (''text'', PStr message)]])
       \<and> join '','' (split_on CHR '','' files) = files
       \<and> (\<forall>p \<in> set (split_on CHR '','' files).
            CHR '','' \<notin> set p
            \<and> (\<exists>a b. p = a @ strip p @ b \<and> (\<forall>x \<in> set a. is_space x) \<and> (\<forall>x \<in> set b. is_space x))
            \<and> (strip p \<noteq> [] \<longrightarrow> \<not> is_space (hd (strip p)) \<and> \<not> is_space (last (strip p))))"
proof (intro conjI)
  from positionals_send_message [OF assms(2)] assms(3)
  have pos: "args ''recipient'' = PStr recipient" "args ''message'' = PStr message" by simp_all
  from base_url_send_message [OF assms(2)]
  have bu: "args ''base_url'' = PStr (chosen_base_url argv)" .
  from files_send_message [OF assms(2)]
  have fl: "args ''files'' =
      (if given_values ''--files'' argv = [] then PNone
       else PStr (last (given_values ''--files'' argv)))" .
  have "(st, w) = try_except (send_message_try e args) (client_handlers args) w0"
    using assms(1,2,5)
    by (simp add: run_script_def send_message_def import_guard_def send_message_main_def
          with_args_def)
  then have "calls w = calls (snd (try_except (send_message_try e args) (client_handlers args) w0))"
    by (metis snd_conv)
  then have cw: "calls w = calls (snd (send_message_try e args w0))"
    by (simp add: try_except_calls)
  note sc = send_message_calls [OF pos bu assms(4)]
  show "given_values ''--files'' argv = [] \<or> last (given_values ''--files'' argv) = [] \<longrightarrow>
            calls w =
              [Call ''AgentText'' []
                 [(''base_url'', PStr (chosen_base_url argv)), (''timeout'', PInt 30)],
               Call ''client.messages.send'' []
                 [(''to'', PStr recipient), (''content'', PStr message)]]"
    using sc cw fl by (auto split: if_splits)
  show "given_values ''--files'' argv \<noteq> [] \<and> last (given_values ''--files'' argv) \<noteq> [] \<longrightarrow>
            calls w =
              [Call ''AgentText'' []
                 [(''base_url'', PStr (chosen_base_url argv)), (''timeout'', PInt 30)],
               Call ''client.messages.send_files'' []
                 [(''to'', PStr recipient),
                  (''file_paths'',
                   PList (map (\<lambda>f. PStr (strip f))
                            (split_on CHR '','' (last (given_values ''--files'' argv))))),
                  (''text'', PStr message)]]"
    using sc cw fl by (auto split: if_splits)
  show "join '','' (split_on CHR '','' files) = files"
    by (rule join_split_on)
  show "\<forall>p \<in> set (split_on CHR '','' files).
            CHR '','' \<notin> set p
            \<and> (\<exists>a b. p = a @ strip p @ b \<and> (\<forall>x \<in> set a. is_space x) \<and> (\<forall>x \<in> set b. is_space x))
            \<and> (strip p \<noteq> [] \<longrightarrow> \<not> is_space (hd (strip p)) \<and> \<not> is_space (last (strip p)))"
    using split_on_no_sep strip_decomp strip_ends by blast
qed

lemma strip_example:
  "map (\<lambda>f. PStr (strip f)) (split_on CHR '','' '' a.png, b.txt'') = [PStr ''a.png'', PStr ''b.txt'']"
  by code_simp

theorem send_message_files_branch_witness:
  "(import_ok (env_of True (\<lambda>c. Returns (PDict [(''id'', PInt 7)]))
          (\<lambda>p. True) (\<lambda>p. Returns PNone) (\<lambda>i. Returns PNone))
   \<and> arg_values [Arg ''+15550100'', Arg ''hi'', Opt ''--files'' (Some '' a.png, b.txt'')] = [''+15550100'', ''hi'']
   \<and> given_values ''--files'' [Arg ''+15550100'', Arg ''hi'', Opt ''--files'' (Some '' a.png, b.txt'')] \<noteq> []
   \<and> last (given_values ''--files'' [Arg ''+15550100'', Arg ''hi'', Opt ''--files'' (Some '' a.png, b.txt'')]) \<noteq> []
   \<and> run_script Send_message (env_of True (\<lambda>c. Returns (PDict [(''id'', PInt 7)]))
          (\<lambda>p. True) (\<lambda>p. Returns PNone) (\<lambda>i. Returns PNone)) [Arg ''+15550100'', Arg ''hi'', Opt ''--files'' (Some '' a.png, b.txt'')] = Some (Exited 0, \<lparr>calls = [Call ''AgentText'' []
                      [(''base_url'', PStr ''http://localhost:3000''), (''timeout'', PInt 30)],
                    Call ''client.messages.send_files'' []
                      [(''to'', PStr ''+15550100''),
                       (''file_paths'', PList [PStr ''a.png'', PStr ''b.txt'']),
                       (''text'', PStr ''hi'')]],
           stdout = [Json (PDict
                      [(''success'', PBool True),
                       (''message'', PStr ''Message sent to +15550100''),
                       (''result'', PDict [(''id'', PInt 7)])])]\<rparr>))
   \<and> (last (given_values ''--files'' [Arg ''+15550100'', Arg ''hi'', Opt ''--files'' (Some [])]) = []
   \<and> run_script Send_message (env_of True (\<lambda>c. Returns (PDict [(''id'', PInt 7)]))
          (\<lambda>p. True) (\<lambda>p. Returns PNone) (\<lambda>i. Returns PNone)) [Arg ''+15550100'', Arg ''hi'', Opt ''--files'' (Some [])] = Some (Exited 0, \<lparr>calls = [Call ''AgentText'' []
                      [(''base_url'', PStr ''http://localhost:3000''), (''timeout'', PInt 30)],
                    Call ''client.messages.send'' []
                      [(''to'', PStr ''+15550100''), (''content'', PStr ''hi'')]],
           stdout = [Json (PDict
                      [(''success'', PBool True),
                       (''message'', PStr ''Message sent to +15550100''),
                       (''result'', PDict [(''id'', PInt 7)])])]\<rparr>))"
proof (rule conjI)
  show "import_ok (env_of True (\<lambda>c. Returns (PDict [(''id'', PInt 7)]))
          (\<lambda>p. True) (\<lambda>p. Returns PNone) (\<lambda>i. Returns PNone))
   \<and> arg_values [Arg ''+15550100'', Arg ''hi'', Opt ''--files'' (Some '' a.png, b.txt'')] = [''+15550100'', ''hi'']
   \<and> given_values ''--files'' [Arg ''+15550100'', Arg ''hi'', Opt ''--files'' (Some '' a.png, b.txt'')] \<noteq> []
   \<and> last (given_values ''--files'' [Arg ''+15550100'', Arg ''hi'', Opt ''--files'' (Some '' a.png, b.txt'')]) \<noteq> []
   \<and> run_script Send_message (env_of True (\<lambda>c. Returns (PDict [(''id'', PInt 7)]))
          (\<lambda>p. True) (\<lambda>p. Returns PNone) (\<lambda>i. Returns PNone)) [Arg ''+15550100'', Arg ''hi'', Opt ''--files'' (Some '' a.png, b.txt'')] = Some (Exited 0, \<lparr>calls = [Call ''AgentText'' []
                      [(''base_url'', PStr ''http://localhost:3000''), (''timeout'', PInt 30)],
                    Call ''client.messages.send_files'' []
                      [(''to'', PStr ''+15550100''),
                       (''file_paths'', PList [PStr ''a.png'', PStr ''b.txt'']),
                       (''text'', PStr ''hi'')]],
           stdout = [Json (PDict
                      [(''success'', PBool True),
                       (''message'', PStr ''Message sent to +15550100''),
                       (''result'', PDict [(''id'', PInt 7)])])]\<rparr>)"
    using send_message_files_branch
      [of "(env_of True (\<lambda>c. Returns (PDict [(''id'', PInt 7)]))
          (\<lambda>p. True) (\<lambda>p. Returns PNone) (\<lambda>i. Returns PNone))" "[Arg ''+15550100'', Arg ''hi'', Opt ''--files'' (Some '' a.png, b.txt'')]"
        "(defaults send_message_parser)(''recipient'' := PStr ''+15550100'',
            ''message'' := PStr ''hi'', ''files'' := PStr '' a.png, b.txt'')"
        "''+15550100''" "''hi''" "PDict [(''id'', PInt 7)]" "Exited 0" "\<lparr>calls = [Call ''AgentText'' []
                      [(''base_url'', PStr ''http://localhost:3000''), (''timeout'', PInt 30)],
                    Call ''client.messages.send_files'' []
                      [(''to'', PStr ''+15550100''),
                       (''file_paths'', PList [PStr ''a.png'', PStr ''b.txt'']),
                       (''text'', PStr ''hi'')]],
           stdout = [Json (PDict
                      [(''success'', PBool True),
                       (''message'', PStr ''Message sent to +15550100''),
                       (''result'', PDict [(''id'', PInt 7)])])]\<rparr>" "''a,b''"]
      strip_example
    by (simp add: env_of_def parse_args_def send_message_parser_def in_choices_def dest_of_def
          convert_def chosen_base_url_def given_values_def truthy_def dict_or_str_def is_dict_def
          run_script_def send_message_def import_guard_def send_message_main_def with_args_def
          try_except_def send_message_try_def construct_def invoke_def print_json_def emit_def
          w0_def py_str_def del: split_on.simps)
  show "last (given_values ''--files'' [Arg ''+15550100'', Arg ''hi'', Opt ''--files'' (Some [])]) = []
   \<and> run_script Send_message (env_of True (\<lambda>c. Returns (PDict [(''id'', PInt 7)]))
          (\<lambda>p. True) (\<lambda>p. Returns PNone) (\<lambda>i. Returns PNone)) [Arg ''+15550100'', Arg ''hi'', Opt ''--files'' (Some [])] = Some (Exited 0, \<lparr>calls = [Call ''AgentText'' []
                      [(''base_url'', PStr ''http://localhost:3000''), (''timeout'', PInt 30)],
                    Call ''client.messages.send'' []
                      [(''to'', PStr ''+15550100''), (''content'', PStr ''hi'')]],
           stdout = [Json (PDict
                      [(''success'', PBool True),
                       (''message'', PStr ''Message sent to +15550100''),
                       (''result'', PDict [(''id'', PInt 7)])])]\<rparr>)"
    using send_message_files_branch
      [of "(env_of True (\<lambda>c. Returns (PDict [(''id'', PInt 7)]))
          (\<lambda>p. True) (\<lambda>p. Returns PNone) (\<lambda>i. Returns PNone))" "[Arg ''+15550100'', Arg ''hi'', Opt ''--files'' (Some [])]"
        "(defaults send_message_parser)(''recipient'' := PStr ''+15550100'',
            ''message'' := PStr ''hi'', ''files'' := PStr [])"
        "''+15550100''" "''hi''" "PDict [(''id'', PInt 7)]" "Exited 0" "\<lparr>calls = [Call ''AgentText'' []
                      [(''base_url'', PStr ''http://localhost:3000''), (''timeout'', PInt 30)],
                    Call ''client.messages.send'' []
                      [(''to'', PStr ''+15550100''), (''content'', PStr ''hi'')]],
           stdout = [Json (PDict
                      [(''success'', PBool True),
                       (''message'', PStr ''Message sent to +15550100''),
                       (''result'', PDict [(''id'', PInt 7)])])]\<rparr>" "[]"]
    by (simp add: env_of_def parse_args_def send_message_parser_def in_choices_def dest_of_def
          convert_def chosen_base_url_def given_values_def truthy_def dict_or_str_def is_dict_def
          run_script_def send_message_def import_guard_def send_message_main_def with_args_def
          try_except_def send_message_try_def construct_def invoke_def print_json_def emit_def
          w0_def py_str_def)
qed

section \<open>From a run back to its parts\<close>

lemma consume_append:
  "consume ds pending extras ns argv = Parsed args \<Longrightarrow>
     consume ds pending extras ns (argv @ ts) = consume ds [] False args ts"
proof (induction argv arbitrary: pending extras ns)
  case Nil
  then show ?case by (simp split: if_splits)
next
  case (Cons t ts')
  show ?case
  proof (cases t)
    case (Arg s)
    with Cons show ?thesis by (cases pending) (auto split: if_splits)
  next
    case (Opt g v)
    with Cons show ?thesis
      by (auto split: option.splits if_splits arg_decl.splits)
  qed
qed

lemma parse_args_accepts:
  assumes "parse_args ds argv = Parsed args"
    and "find_flag f ds = Some (Store f As_str None dflt)"
    and "f \<noteq> ''-h''" "f \<noteq> ''--help''"
  shows "parse_args ds (argv @ [Opt f (Some u)]) = Parsed (args(dest_of f := PStr u))"
  using assms consume_append [of ds "positionals ds" False "defaults ds" argv args "[Opt f (Some u)]"]
  by (simp add: parse_args_def convert_def in_choices_def)

lemma with_args_calls:
  "with_args ds argv k = (st, w) \<Longrightarrow> calls w \<noteq> [] \<Longrightarrow>
     \<exists>args. parse_args ds argv = Parsed args \<and> k args = (st, w)"
  by (auto simp: with_args_def w0_def emit_def split: parsed.splits)

lemma import_guard_calls:
  "import_guard e msg rest = (st, w) \<Longrightarrow> calls w \<noteq> [] \<Longrightarrow> import_ok e \<and> rest = (st, w)"
  by (auto simp: import_guard_def w0_def emit_def split: if_splits)

lemma try_except_run:
  "try_except body h w0 = (st, w) \<Longrightarrow>
     \<exists>r w'. body w0 = (r, w') \<and> (st, w) = (case r of None \<Rightarrow> (Exited 0, w') | Some x \<Rightarrow> h x w')"
  by (auto simp: try_except_def split: prod.splits option.splits)

lemma send_message_first_call:
  "send_message_try e args w0 = (r, w') \<Longrightarrow> calls w' \<noteq> [] \<Longrightarrow>
     hd (calls w') = Call ''AgentText'' [] [(''base_url'', args ''base_url''), (''timeout'', PInt 30)]"
  by (auto simp: send_message_try_def construct_def invoke_def w0_def print_json_def emit_def
           split: prod.splits outcome.splits if_splits pyval.splits option.splits)

lemma send_file_first_call:
  "send_file_try e args w0 = (r, w') \<Longrightarrow> calls w' \<noteq> [] \<Longrightarrow>
     hd (calls w') = Call ''AgentText'' [] [(''base_url'', args ''base_url''), (''timeout'', PInt 30)]"
  by (auto simp: send_file_try_def construct_def invoke_def w0_def print_json_def emit_def
           split: prod.splits outcome.splits if_splits option.splits)

lemma get_messages_first_call:
  "get_messages_try e args w0 = (r, w') \<Longrightarrow> calls w' \<noteq> [] \<Longrightarrow>
     hd (calls w') = Call ''AgentText'' [] [(''base_url'', args ''base_url''), (''timeout'', PInt 30)]"
  by (auto simp: get_messages_try_def construct_def invoke_def w0_def print_json_def emit_def
           split: prod.splits outcome.splits if_splits option.splits)

lemma get_unread_first_call:
  "get_unread_try e args w0 = (r, w') \<Longrightarrow> calls w' \<noteq> [] \<Longrightarrow>
     hd (calls w') = Call ''AgentText'' [] [(''base_url'', args ''base_url''), (''timeout'', PInt 30)]"
  by (auto simp: get_unread_try_def construct_def invoke_def w0_def print_json_def emit_def
           split: prod.splits outcome.splits if_splits option.splits)

lemma list_chats_first_call:
  "list_chats_try e args w0 = (r, w') \<Longrightarrow> calls w' \<noteq> [] \<Longrightarrow>
     hd (calls w') = Call ''AgentText'' [] [(''base_url'', args ''base_url''), (''timeout'', PInt 30)]"
  by (auto simp: list_chats_try_def construct_def invoke_def w0_def print_json_def emit_def
           split: prod.splits outcome.splits if_splits option.splits)

lemma watcher_first_call:
  "watcher_try e args w0 = (r, w') \<Longrightarrow> calls w' \<noteq> [] \<Longrightarrow>
     hd (calls w') = Call ''AgentText'' [] [(''base_url'', args ''base_url''), (''timeout'', PInt 30)]"
  by (auto simp: watcher_try_def construct_def invoke_def w0_def print_json_def emit_def Let_def
           split: prod.splits outcome.splits if_splits option.splits)

lemma batch_send_first_call:
  "batch_send_try e args w0 = (r, w') \<Longrightarrow> calls w' \<noteq> [] \<Longrightarrow>
     hd (calls w') = Call ''AgentText'' [] [(''base_url'', args ''base_url''), (''timeout'', PInt 30)]"
  by (auto simp: batch_send_try_def construct_def invoke_def w0_def print_json_def emit_def
           split: prod.splits outcome.splits if_splits option.splits)

lemma simple_test_first_call:
  "simple_test_try e w0 = (r, w') \<Longrightarrow> calls w' \<noteq> [] \<Longrightarrow> hd (calls w') = Call ''AgentText'' [] []"
  by (auto simp: simple_test_try_def invoke_def w0_def print_json_def emit_def
           split: prod.splits outcome.splits if_splits option.splits)

lemma watch_messages_first_call:
  "watch_messages_try e w0 = Some (r, w') \<Longrightarrow> calls w' \<noteq> [] \<Longrightarrow>
     hd (calls w') = Call ''AgentText'' [] [(''base_url'', PStr ''http://localhost:3000'')]"
  by (auto simp: watch_messages_try_def invoke_def w0_def emit_def Let_def
           split: prod.splits outcome.splits if_splits option.splits)

lemma send_message_raised:
  "send_message_try e args w0 = (r, w') \<Longrightarrow> calls w' \<noteq> [] \<Longrightarrow>
   client e (last (calls w')) = Raises x \<Longrightarrow> r = Some x \<and> stdout w' = []"
  by (auto simp: send_message_try_def construct_def invoke_def w0_def print_json_def emit_def
           split: prod.splits outcome.splits if_splits pyval.splits option.splits)

lemma send_file_raised:
  "send_file_try e args w0 = (r, w') \<Longrightarrow> calls w' \<noteq> [] \<Longrightarrow>
   client e (last (calls w')) = Raises x \<Longrightarrow> r = Some x \<and> stdout w' = []"
  by (auto simp: send_file_try_def construct_def invoke_def w0_def print_json_def emit_def
           split: prod.splits outcome.splits if_splits option.splits)

lemma get_messages_raised:
  "get_messages_try e args w0 = (r, w') \<Longrightarrow> calls w' \<noteq> [] \<Longrightarrow>
   client e (last (calls w')) = Raises x \<Longrightarrow> r = Some x \<and> stdout w' = []"
  by (auto simp: get_messages_try_def construct_def invoke_def w0_def print_json_def emit_def
           split: prod.splits outcome.splits if_splits option.splits)

lemma get_unread_raised:
  "get_unread_try e args w0 = (r, w') \<Longrightarrow> calls w' \<noteq> [] \<Longrightarrow>
   client e (last (calls w')) = Raises x \<Longrightarrow> r = Some x \<and> stdout w' = []"
  by (auto simp: get_unread_try_def construct_def invoke_def w0_def print_json_def emit_def
           split: prod.splits outcome.splits if_splits option.splits)

lemma list_chats_raised:
  "list_chats_try e args w0 = (r, w') \<Longrightarrow> calls w' \<noteq> [] \<Longrightarrow>
   client e (last (calls w')) = Raises x \<Longrightarrow> r = Some x \<and> stdout w' = []"
  by (auto simp: list_chats_try_def construct_def invoke_def w0_def print_json_def emit_def
           split: prod.splits outcome.splits if_splits option.splits)

lemma watcher_raised:
  "watcher_try e args w0 = (r, w') \<Longrightarrow> calls w' \<noteq> [] \<Longrightarrow>
   client e (last (calls w')) = Raises x \<Longrightarrow> r = Some x \<and> stdout w' = []"
  by (auto simp: watcher_try_def construct_def invoke_def w0_def print_json_def emit_def Let_def
           split: prod.splits outcome.splits if_splits option.splits)

lemma batch_send_raised:
  "batch_send_try e args w0 = (r, w') \<Longrightarrow> calls w' \<noteq> [] \<Longrightarrow>
   client e (last (calls w')) = Raises x \<Longrightarrow> r = Some x \<and> stdout w' = []"
  by (auto simp: batch_send_try_def construct_def invoke_def w0_def print_json_def emit_def
           split: prod.splits outcome.splits if_splits option.splits)


lemma handled_calls:
  "(st, w) = (case r of None \<Rightarrow> (Exited 0, w') | Some x \<Rightarrow> client_handlers args x w') \<Longrightarrow>
     calls w = calls w'"
  by (cases r) (simp, metis client_handlers_calls option.simps(5) snd_conv)

lemma handled_calls_batch:
  "(st, w) = (case r of None \<Rightarrow> (Exited 0, w') | Some x \<Rightarrow> batch_send_handlers args x w') \<Longrightarrow>
     calls w = calls w'"
  by (cases r) (simp, metis batch_send_handlers_calls option.simps(5) snd_conv)

lemma handled_connection:
  "(st, w) = (case r of None \<Rightarrow> (Exited 0, w') | Some x \<Rightarrow> client_handlers args x w') \<Longrightarrow>
   r = Some (AgentTextConnectionException m) \<Longrightarrow> stdout w' = [] \<Longrightarrow>
     st = Exited 1
     \<and> stdout w = [Json (failure (''Connection error: '' @ m
                      @ ''. Make sure the API server is running on '' @ py_str (args ''base_url'')))]"
  by (simp add: client_handlers_def emit_def)

lemma handled_connection_batch:
  "(st, w) = (case r of None \<Rightarrow> (Exited 0, w') | Some x \<Rightarrow> batch_send_handlers args x w') \<Longrightarrow>
   r = Some (AgentTextConnectionException m) \<Longrightarrow> stdout w' = [] \<Longrightarrow>
     st = Exited 1
     \<and> stdout w = [Json (failure (''Connection error: '' @ m
                      @ ''. Make sure the API server is running on '' @ py_str (args ''base_url'')))]"
  by (simp add: batch_send_handlers_def client_handlers_def emit_def)

lemma send_message_run:
  assumes "run_script Send_message e argv = Some (st, w)" and "calls w \<noteq> []"
  shows "\<exists>args r w'. parse_args send_message_parser argv = Parsed args
           \<and> send_message_try e args w0 = (r, w')
           \<and> (st, w) = (case r of None \<Rightarrow> (Exited 0, w') | Some x \<Rightarrow> client_handlers args x w')"
proof -
  from assms(1) have "import_guard e not_installed (send_message_main e argv) = (st, w)"
    by (simp add: run_script_def send_message_def)
  from import_guard_calls [OF this assms(2)]
  have "send_message_main e argv = (st, w)" by simp
  then have "with_args send_message_parser argv
      (\<lambda>args. try_except (send_message_try e args) (client_handlers args) w0) = (st, w)"
    by (simp add: send_message_main_def)
  from with_args_calls [OF this assms(2)] obtain args where
    p: "parse_args send_message_parser argv = Parsed args"
    and t: "try_except (send_message_try e args) (client_handlers args) w0 = (st, w)" by blast
  from try_except_run [OF t] p show ?thesis by blast
qed

lemma get_messages_run:
  assumes "run_script Get_messages e argv = Some (st, w)" and "calls w \<noteq> []"
  shows "\<exists>args r w'. parse_args get_messages_parser argv = Parsed args
           \<and> get_messages_try e args w0 = (r, w')
           \<and> (st, w) = (case r of None \<Rightarrow> (Exited 0, w') | Some x \<Rightarrow> client_handlers args x w')"
proof -
  from assms(1) have "import_guard e not_installed (get_messages_main e argv) = (st, w)"
    by (simp add: run_script_def get_messages_def)
  from import_guard_calls [OF this assms(2)]
  have "get_messages_main e argv = (st, w)" by simp
  then have "with_args get_messages_parser argv
      (\<lambda>args. try_except (get_messages_try e args) (client_handlers args) w0) = (st, w)"
    by (simp add: get_messages_main_def)
  from with_args_calls [OF this assms(2)] obtain args where
    p: "parse_args get_messages_parser argv = Parsed args"
    and t: "try_except (get_messages_try e args) (client_handlers args) w0 = (st, w)" by blast
  from try_except_run [OF t] p show ?thesis by blast
qed

lemma get_unread_run:
  assumes "run_script Get_unread e argv = Some (st, w)" and "calls w \<noteq> []"
  shows "\<exists>args r w'. parse_args get_unread_parser argv = Parsed args
           \<and> get_unread_try e args w0 = (r, w')
           \<and> (st, w) = (case r of None \<Rightarrow> (Exited 0, w') | Some x \<Rightarrow> client_handlers args x w')"
proof -
  from assms(1) have "import_guard e not_installed (get_unread_main e argv) = (st, w)"
    by (simp add: run_script_def get_unread_def)
  from import_guard_calls [OF this assms(2)]
  have "get_unread_main e argv = (st, w)" by simp
  then have "with_args get_unread_parser argv
      (\<lambda>args. try_except (get_unread_try e args) (client_handlers args) w0) = (st, w)"
    by (simp add: get_unread_main_def)
  from with_args_calls [OF this assms(2)] obtain args where
    p: "parse_args get_unread_parser argv = Parsed args"
    and t: "try_except (get_unread_try e args) (client_handlers args) w0 = (st, w)" by blast
  from try_except_run [OF t] p show ?thesis by blast
qed

lemma list_chats_run:
  assumes "run_script List_chats e argv = Some (st, w)" and "calls w \<noteq> []"
  shows "\<exists>args r w'. parse_args list_chats_parser argv = Parsed args
           \<and> list_chats_try e args w0 = (r, w')
           \<and> (st, w) = (case r of None \<Rightarrow> (Exited 0, w') | Some x \<Rightarrow> client_handlers args x w')"
proof -
  from assms(1) have "import_guard e not_installed (list_chats_main e argv) = (st, w)"
    by (simp add: run_script_def list_chats_def)
  from import_guard_calls [OF this assms(2)]
  have "list_chats_main e argv = (st, w)" by simp
  then have "with_args list_chats_parser argv
      (\<lambda>args. try_except (list_chats_try e args) (client_handlers args) w0) = (st, w)"
    by (simp add: list_chats_main_def)
  from with_args_calls [OF this assms(2)] obtain args where
    p: "parse_args list_chats_parser argv = Parsed args"
    and t: "try_except (list_chats_try e args) (client_handlers args) w0 = (st, w)" by blast
  from try_except_run [OF t] p show ?thesis by blast
qed

lemma watcher_run:
  assumes "run_script Watcher e argv = Some (st, w)" and "calls w \<noteq> []"
  shows "\<exists>args r w'. parse_args watcher_parser argv = Parsed args
           \<and> watcher_try e args w0 = (r, w')
           \<and> (st, w) = (case r of None \<Rightarrow> (Exited 0, w') | Some x \<Rightarrow> client_handlers args x w')"
proof -
  from assms(1) have "import_guard e not_installed (watcher_main e argv) = (st, w)"
    by (simp add: run_script_def watcher_def)
  from import_guard_calls [OF this assms(2)]
  have "watcher_main e argv = (st, w)" by simp
  then have "with_args watcher_parser argv
      (\<lambda>args. try_except (watcher_try e args) (client_handlers args) w0) = (st, w)"
    by (simp add: watcher_main_def)
  from with_args_calls [OF this assms(2)] obtain args where
    p: "parse_args watcher_parser argv = Parsed args"
    and t: "try_except (watcher_try e args) (client_handlers args) w0 = (st, w)" by blast
  from try_except_run [OF t] p show ?thesis by blast
qed

lemma batch_send_run:
  assumes "run_script Batch_send e argv = Some (st, w)" and "calls w \<noteq> []"
  shows "\<exists>args r w'. parse_args batch_send_parser argv = Parsed args
           \<and> batch_send_try e args w0 = (r, w')
           \<and> (st, w) = (case r of None \<Rightarrow> (Exited 0, w') | Some x \<Rightarrow> batch_send_handlers args x w')"
proof -
  from assms(1) have "import_guard e not_installed (batch_send_main e argv) = (st, w)"
    by (simp add: run_script_def batch_send_def)
  from import_guard_calls [OF this assms(2)]
  have "batch_send_main e argv = (st, w)" by simp
  then have "with_args batch_send_parser argv
      (\<lambda>args. try_except (batch_send_try e args) (batch_send_handlers args) w0) = (st, w)"
    by (simp add: batch_send_main_def)
  from with_args_calls [OF this assms(2)] obtain args where
    p: "parse_args batch_send_parser argv = Parsed args"
    and t: "try_except (batch_send_try e args) (batch_send_handlers args) w0 = (st, w)" by blast
  from try_except_run [OF t] p show ?thesis by blast
qed

lemma send_file_run:
  assumes "run_script Send_file e argv = Some (st, w)" and "calls w \<noteq> []"
  shows "\<exists>args r w'. parse_args send_file_parser argv = Parsed args
           \<and> send_file_try e args w0 = (r, w')
           \<and> (st, w) = (case r of None \<Rightarrow> (Exited 0, w') | Some x \<Rightarrow> client_handlers args x w')"
proof -
  from assms(1) have "import_guard e not_installed (send_file_main e argv) = (st, w)"
    by (simp add: run_script_def send_file_def)
  from import_guard_calls [OF this assms(2)]
  have "send_file_main e argv = (st, w)" by simp
  then have "with_args send_file_parser argv
      (\<lambda>args.
          if \<not> path_exists e (py_str (args ''file_path'')) then
            (Exited 1, emit (Json (failure (''File not found: '' @ py_str (args ''file_path'')))) w0)
          else try_except (send_file_try e args) (client_handlers args) w0) = (st, w)"
    by (simp add: send_file_main_def)
  from with_args_calls [OF this assms(2)] obtain args where
    p: "parse_args send_file_parser argv = Parsed args"
    and t: "(if \<not> path_exists e (py_str (args ''file_path'')) then
            (Exited 1, emit (Json (failure (''File not found: '' @ py_str (args ''file_path'')))) w0)
          else try_except (send_file_try e args) (client_handlers args) w0) = (st, w)" by blast
  from t assms(2) have "try_except (send_file_try e args) (client_handlers args) w0 = (st, w)"
    by (auto simp: emit_def w0_def split: if_splits)
  from try_except_run [OF this] p show ?thesis by blast
qed

lemma script_first_call:
  assumes "parser_of s = Some ds" and "run_script s e argv = Some (st, w)" and "calls w \<noteq> []"
  shows "hd (calls w) =
     Call ''AgentText'' [] [(''base_url'', PStr (chosen_base_url argv)), (''timeout'', PInt 30)]"
proof (cases s)
  case Batch_send
  with batch_send_run [of e argv st w] assms(2,3) obtain args r w' where
    h: "parse_args batch_send_parser argv = Parsed args" "batch_send_try e args w0 = (r, w')"
       "(st, w) = (case r of None \<Rightarrow> (Exited 0, w') | Some x \<Rightarrow> batch_send_handlers args x w')"
    by blast
  from handled_calls_batch [OF h(3)] assms(3) batch_send_first_call [OF h(2)]
    base_url_batch_send [OF h(1)] show ?thesis by simp
next
  case Get_messages
  with get_messages_run [of e argv st w] assms(2,3) obtain args r w' where
    h: "parse_args get_messages_parser argv = Parsed args" "get_messages_try e args w0 = (r, w')"
       "(st, w) = (case r of None \<Rightarrow> (Exited 0, w') | Some x \<Rightarrow> client_handlers args x w')"
    by blast
  from handled_calls [OF h(3)] assms(3) get_messages_first_call [OF h(2)]
    base_url_get_messages [OF h(1)] show ?thesis by simp
next
  case Get_unread
  with get_unread_run [of e argv st w] assms(2,3) obtain args r w' where
    h: "parse_args get_unread_parser argv = Parsed args" "get_unread_try e args w0 = (r, w')"
       "(st, w) = (case r of None \<Rightarrow> (Exited 0, w') | Some x \<Rightarrow> client_handlers args x w')"
    by blast
  from handled_calls [OF h(3)] assms(3) get_unread_first_call [OF h(2)]
    base_url_get_unread [OF h(1)] show ?thesis by simp
next
  case List_chats
  with list_chats_run [of e argv st w] assms(2,3) obtain args r w' where
    h: "parse_args list_chats_parser argv = Parsed args" "list_chats_try e args w0 = (r, w')"
       "(st, w) = (case r of None \<Rightarrow> (Exited 0, w') | Some x \<Rightarrow> client_handlers args x w')"
    by blast
  from handled_calls [OF h(3)] assms(3) list_chats_first_call [OF h(2)]
    base_url_list_chats [OF h(1)] show ?thesis by simp
next
  case Send_file
  with send_file_run [of e argv st w] assms(2,3) obtain args r w' where
    h: "parse_args send_file_parser argv = Parsed args" "send_file_try e args w0 = (r, w')"
       "(st, w) = (case r of None \<Rightarrow> (Exited 0, w') | Some x \<Rightarrow> client_handlers args x w')"
    by blast
  from handled_calls [OF h(3)] assms(3) send_file_first_call [OF h(2)]
    base_url_send_file [OF h(1)] show ?thesis by simp
next
  case Send_message
  with send_message_run [of e argv st w] assms(2,3) obtain args r w' where
    h: "parse_args send_message_parser argv = Parsed args" "send_message_try e args w0 = (r, w')"
       "(st, w) = (case r of None \<Rightarrow> (Exited 0, w') | Some x \<Rightarrow> client_handlers args x w')"
    by blast
  from handled_calls [OF h(3)] assms(3) send_message_first_call [OF h(2)]
    base_url_send_message [OF h(1)] show ?thesis by simp
next
  case Watcher
  with watcher_run [of e argv st w] assms(2,3) obtain args r w' where
    h: "parse_args watcher_parser argv = Parsed args" "watcher_try e args w0 = (r, w')"
       "(st, w) = (case r of None \<Rightarrow> (Exited 0, w') | Some x \<Rightarrow> client_handlers args x w')"
    by blast
  from handled_calls [OF h(3)] assms(3) watcher_first_call [OF h(2)]
    base_url_watcher [OF h(1)] show ?thesis by simp
next
  case Watch_messages
  with assms(1) show ?thesis by (simp add: parser_of_def)
next
  case Simple_test
  with assms(1) show ?thesis by (simp add: parser_of_def)
qed

lemma script_connection_error:
  assumes "parser_of s = Some ds" and "run_script s e argv = Some (st, w)" and "calls w \<noteq> []"
    and "client e (last (calls w)) = Raises (AgentTextConnectionException m)"
  shows "st = Exited 1
     \<and> stdout w = [Json (failure (''Connection error: '' @ m
                      @ ''. Make sure the API server is running on '' @ chosen_base_url argv))]"
proof (cases s)
  case Batch_send
  with batch_send_run [of e argv st w] assms(2,3) obtain args r w' where
    h: "parse_args batch_send_parser argv = Parsed args" "batch_send_try e args w0 = (r, w')"
       "(st, w) = (case r of None \<Rightarrow> (Exited 0, w') | Some x \<Rightarrow> batch_send_handlers args x w')"
    by blast
  from handled_calls_batch [OF h(3)] have c: "calls w = calls w'" .
  from batch_send_raised [OF h(2)] c assms(3,4)
  have "r = Some (AgentTextConnectionException m)" "stdout w' = []" by simp_all
  from handled_connection_batch [OF h(3) this] base_url_batch_send [OF h(1)]
  show ?thesis by (simp add: py_str_def)
next
  case Get_messages
  with get_messages_run [of e argv st w] assms(2,3) obtain args r w' where
    h: "parse_args get_messages_parser argv = Parsed args" "get_messages_try e args w0 = (r, w')"
       "(st, w) = (case r of None \<Rightarrow> (Exited 0, w') | Some x \<Rightarrow> client_handlers args x w')"
    by blast
  from handled_calls [OF h(3)] have c: "calls w = calls w'" .
  from get_messages_raised [OF h(2)] c assms(3,4)
  have "r = Some (AgentTextConnectionException m)" "stdout w' = []" by simp_all
  from handled_connection [OF h(3) this] base_url_get_messages [OF h(1)]
  show ?thesis by (simp add: py_str_def)
next
  case Get_unread
  with get_unread_run [of e argv st w] assms(2,3) obtain args r w' where
    h: "parse_args get_unread_parser argv = Parsed args" "get_unread_try e args w0 = (r, w')"
       "(st, w) = (case r of None \<Rightarrow> (Exited 0, w') | Some x \<Rightarrow> client_handlers args x w')"
    by blast
  from handled_calls [OF h(3)] have c: "calls w = calls w'" .
  from get_unread_raised [OF h(2)] c assms(3,4)
  have "r = Some (AgentTextConnectionException m)" "stdout w' = []" by simp_all
  from handled_connection [OF h(3) this] base_url_get_unread [OF h(1)]
  show ?thesis by (simp add: py_str_def)
next
  case List_chats
  with list_chats_run [of e argv st w] assms(2,3) obtain args r w' where
    h: "parse_args list_chats_parser argv = Parsed args" "list_chats_try e args w0 = (r, w')"
       "(st, w) = (case r of None \<Rightarrow> (Exited 0, w') | Some x \<Rightarrow> client_handlers args x w')"
    by blast
  from handled_calls [OF h(3)] have c: "calls w = calls w'" .
  from list_chats_raised [OF h(2)] c assms(3,4)
  have "r = Some (AgentTextConnectionException m)" "stdout w' = []" by simp_all
  from handled_connection [OF h(3) this] base_url_list_chats [OF h(1)]
  show ?thesis by (simp add: py_str_def)
next
  case Send_file
  with send_file_run [of e argv st w] assms(2,3) obtain args r w' where
    h: "parse_args send_file_parser argv = Parsed args" "send_file_try e args w0 = (r, w')"
       "(st, w) = (case r of None \<Rightarrow> (Exited 0, w') | Some x \<Rightarrow> client_handlers args x w')"
    by blast
  from handled_calls [OF h(3)] have c: "calls w = calls w'" .
  from send_file_raised [OF h(2)] c assms(3,4)
  have "r = Some (AgentTextConnectionException m)" "stdout w' = []" by simp_all
  from handled_connection [OF h(3) this] base_url_send_file [OF h(1)]
  show ?thesis by (simp add: py_str_def)
next
  case Send_message
  with send_message_run [of e argv st w] assms(2,3) obtain args r w' where
    h: "parse_args send_message_parser argv = Parsed args" "send_message_try e args w0 = (r, w')"
       "(st, w) = (case r of None \<Rightarrow> (Exited 0, w') | Some x \<Rightarrow> client_handlers args x w')"
    by blast
  from handled_calls [OF h(3)] have c: "calls w = calls w'" .
  from send_message_raised [OF h(2)] c assms(3,4)
  have "r = Some (AgentTextConnectionException m)" "stdout w' = []" by simp_all
  from handled_connection [OF h(3) this] base_url_send_message [OF h(1)]
  show ?thesis by (simp add: py_str_def)
next
  case Watcher
  with watcher_run [of e argv st w] assms(2,3) obtain args r w' where
    h: "parse_args watcher_parser argv = Parsed args" "watcher_try e args w0 = (r, w')"
       "(st, w) = (case r of None \<Rightarrow> (Exited 0, w') | Some x \<Rightarrow> client_handlers args x w')"
    by blast
  from handled_calls [OF h(3)] have c: "calls w = calls w'" .
  from watcher_raised [OF h(2)] c assms(3,4)
  have "r = Some (AgentTextConnectionException m)" "stdout w' = []" by simp_all
  from handled_connection [OF h(3) this] base_url_watcher [OF h(1)]
  show ?thesis by (simp add: py_str_def)
next
  case Watch_messages
  with assms(1) show ?thesis by (simp add: parser_of_def)
next
  case Simple_test
  with assms(1) show ?thesis by (simp add: parser_of_def)
qed


lemma parser_of_base_url:
  "parser_of s = Some ds \<Longrightarrow>
     find_flag ''--base-url'' ds = Some (Store ''--base-url'' As_str None (PStr ''http://localhost:3000''))"
  by (cases s)
     (auto simp: parser_of_def batch_send_parser_def get_messages_parser_def get_unread_parser_def
        list_chats_parser_def send_file_parser_def send_message_parser_def watcher_parser_def)

lemma parser_of_parsed:
  "parser_of s = Some ds \<Longrightarrow> parse_args ds argv = Parsed args \<Longrightarrow>
     args ''base_url'' = PStr (chosen_base_url argv)"
  by (cases s)
     (auto simp: parser_of_def
           dest: base_url_batch_send base_url_get_messages base_url_get_unread base_url_list_chats
                 base_url_send_file base_url_send_message base_url_watcher)

lemma watch_messages_first:
  assumes "run_script Watch_messages e argv = Some (st, w)" and "calls w \<noteq> []"
  shows "hd (calls w) = Call ''AgentText'' [] [(''base_url'', PStr ''http://localhost:3000'')]"
proof -
  from assms have "import_ok e"
    by (auto simp: run_script_def watch_messages_def emit_def w0_def split: if_splits)
  with assms(1) obtain rw where t: "watch_messages_try e w0 = Some rw"
    and r: "(st, w) = try_except (\<lambda>w. rw) watch_messages_handlers w0"
    by (auto simp: run_script_def watch_messages_def watch_messages_main_def split: option.splits)
  obtain r' w' where rw: "rw = (r', w')" by (cases rw)
  from r have "calls w = calls (snd (try_except (\<lambda>w. rw) watch_messages_handlers w0))"
    by (metis snd_conv)
  then have "calls w = calls w'" using rw by (simp add: try_except_calls)
  with watch_messages_first_call [of e r' w'] t rw assms(2) show ?thesis by simp
qed

lemma simple_test_first:
  assumes "run_script Simple_test e argv = Some (st, w)" and "calls w \<noteq> []"
  shows "hd (calls w) = Call ''AgentText'' [] []"
proof -
  from assms(1) have "import_guard e not_installed (simple_test_main e argv) = (st, w)"
    by (simp add: run_script_def simple_test_def)
  from import_guard_calls [OF this assms(2)]
  have r: "try_except (simple_test_try e) catch_all w0 = (st, w)" by (simp add: simple_test_main_def)
  obtain r' w' where b: "simple_test_try e w0 = (r', w')" by (cases "simple_test_try e w0")
  from r have "calls w = calls (snd (try_except (simple_test_try e) catch_all w0))"
    by (metis snd_conv)
  then have "calls w = calls w'" using b by (simp add: try_except_calls)
  with simple_test_first_call [OF b] assms(2) show ?thesis by simp
qed

section \<open>The base URL\<close>

text \<open>
  C2, as the claim states it: each of the nine commands accepts \<^verbatim>\<open>--base-url\<close> and builds
  its client against it. \<^verbatim>\<open>simple_test.py\<close> and \<^verbatim>\<open>watch_messages.py\<close> declare no parser and
  never read the command line: given \<^verbatim>\<open>--base-url http://10.0.0.5:8080\<close>, the first builds the
  client with no argument at all and the second against the fixed
  \<^verbatim>\<open>http://localhost:3000\<close>.
\<close>

theorem base_url_counterexample:
  "run_script Simple_test (env_of True (\<lambda>c. Returns PNone) (\<lambda>p. True) (\<lambda>p. Returns PNone)
          (\<lambda>i. Raises KeyboardInterrupt)) [Opt ''--base-url'' (Some ''http://10.0.0.5:8080'')] = Some (Exited 0, \<lparr>calls = [Call ''AgentText'' [] [],
                    Call ''client.messages.send'' []
                      [(''to'', PStr ''+9255776728''), (''content'', PStr ''Hello!'')]],
           stdout = [Json (PDict
                      [(''success'', PBool True),
                       (''message'', PStr ''Test message sent successfully!''),
                       (''result'', PStr ''None'')])]\<rparr>)
   \<and> run_script Watch_messages (env_of True (\<lambda>c. Returns PNone) (\<lambda>p. True) (\<lambda>p. Returns PNone)
          (\<lambda>i. Raises KeyboardInterrupt)) [Opt ''--base-url'' (Some ''http://10.0.0.5:8080'')] = Some (Exited 0, \<lparr>calls = [Call ''AgentText'' [] [(''base_url'', PStr ''http://localhost:3000'')],
                    Call ''client.watcher.start'' [] [(''callback'', on_message_ref)]],
           stdout = [Json (PDict [(''success'', PBool True),
                                  (''message'', PStr ''Starting message watcher...'')]),
                     Json (PDict [(''success'', PBool True),
                                  (''message'', PStr ''Watcher stopped'')])]\<rparr>)"
proof
  show "run_script Simple_test (env_of True (\<lambda>c. Returns PNone) (\<lambda>p. True) (\<lambda>p. Returns PNone)
          (\<lambda>i. Raises KeyboardInterrupt)) [Opt ''--base-url'' (Some ''http://10.0.0.5:8080'')] = Some (Exited 0, \<lparr>calls = [Call ''AgentText'' [] [],
                    Call ''client.messages.send'' []
                      [(''to'', PStr ''+9255776728''), (''content'', PStr ''Hello!'')]],
           stdout = [Json (PDict
                      [(''success'', PBool True),
                       (''message'', PStr ''Test message sent successfully!''),
                       (''result'', PStr ''None'')])]\<rparr>)"
    by (simp add: env_of_def run_script_def simple_test_def import_guard_def simple_test_main_def
          try_except_def simple_test_try_def invoke_def print_json_def emit_def w0_def
          dict_or_str_def is_dict_def py_str_def)
  show "run_script Watch_messages (env_of True (\<lambda>c. Returns PNone) (\<lambda>p. True) (\<lambda>p. Returns PNone)
          (\<lambda>i. Raises KeyboardInterrupt)) [Opt ''--base-url'' (Some ''http://10.0.0.5:8080'')] = Some (Exited 0, \<lparr>calls = [Call ''AgentText'' [] [(''base_url'', PStr ''http://localhost:3000'')],
                    Call ''client.watcher.start'' [] [(''callback'', on_message_ref)]],
           stdout = [Json (PDict [(''success'', PBool True),
                                  (''message'', PStr ''Starting message watcher...'')]),
                     Json (PDict [(''success'', PBool True),
                                  (''message'', PStr ''Watcher stopped'')])]\<rparr>)"
    using watch_messages_interrupted [of "(env_of True (\<lambda>c. Returns PNone) (\<lambda>p. True) (\<lambda>p. Returns PNone)
          (\<lambda>i. Raises KeyboardInterrupt))" PNone PNone 0 "[Opt ''--base-url'' (Some ''http://10.0.0.5:8080'')]"]
    by (simp add: env_of_def run_script_def)
qed

text \<open>
  C2, amended: each of the seven scripts that declare a parser (batch send, get messages,
  get unread, list chats, send file, send message, watcher) declares \<^verbatim>\<open>--base-url\<close> with the
  default \<^verbatim>\<open>http://localhost:3000\<close>; a command line that parses stays one that parses when
  \<^verbatim>\<open>--base-url u\<close> is added, and then stores \<open>u\<close>; the parsed \<^verbatim>\<open>base_url\<close> is the last value
  given, or the default; and whenever a run calls into the package at all, its first call
  builds the client with that base URL and \<^verbatim>\<open>timeout=30\<close>. \<^verbatim>\<open>watch_messages.py\<close> builds its
  client against the fixed \<^verbatim>\<open>http://localhost:3000\<close>, \<^verbatim>\<open>simple_test.py\<close> with no argument.
\<close>

theorem base_url_flag:
  "(parser_of s = Some ds \<longrightarrow>
      find_flag ''--base-url'' ds =
        Some (Store ''--base-url'' As_str None (PStr ''http://localhost:3000''))
      \<and> (parse_args ds argv = Parsed args \<longrightarrow>
           args ''base_url'' = PStr (chosen_base_url argv)
           \<and> parse_args ds (argv @ [Opt ''--base-url'' (Some u)])
               = Parsed (args(''base_url'' := PStr u)))
      \<and> (run_script s e argv = Some (st, w) \<longrightarrow> calls w \<noteq> [] \<longrightarrow>
           hd (calls w) = Call ''AgentText'' [] [(''base_url'', PStr (chosen_base_url argv)), (''timeout'', PInt 30)]))
   \<and> (run_script Watch_messages e argv = Some (st', w') \<longrightarrow> calls w' \<noteq> [] \<longrightarrow>
        hd (calls w') = Call ''AgentText'' [] [(''base_url'', PStr ''http://localhost:3000'')])
   \<and> (run_script Simple_test e argv = Some (st'', w'') \<longrightarrow> calls w'' \<noteq> [] \<longrightarrow>
        hd (calls w'') = Call ''AgentText'' [] [])"
proof (intro conjI impI)
  assume p: "parser_of s = Some ds"
  then show "find_flag ''--base-url'' ds =
        Some (Store ''--base-url'' As_str None (PStr ''http://localhost:3000''))"
    by (rule parser_of_base_url)
  {
    assume a: "parse_args ds argv = Parsed args"
    from parser_of_parsed [OF p a] show "args ''base_url'' = PStr (chosen_base_url argv)" .
    from parse_args_accepts [OF a parser_of_base_url [OF p], of u]
    show "parse_args ds (argv @ [Opt ''--base-url'' (Some u)])
               = Parsed (args(''base_url'' := PStr u))"
      by simp
  }
  {
    assume "run_script s e argv = Some (st, w)" and "calls w \<noteq> []"
    with p show "hd (calls w) = Call ''AgentText'' [] [(''base_url'', PStr (chosen_base_url argv)), (''timeout'', PInt 30)]"
      by (rule script_first_call)
  }
next
  assume "run_script Watch_messages e argv = Some (st', w')" and "calls w' \<noteq> []"
  then show "hd (calls w') = Call ''AgentText'' [] [(''base_url'', PStr ''http://localhost:3000'')]"
    by (rule watch_messages_first)
next
  assume "run_script Simple_test e argv = Some (st'', w'')" and "calls w'' \<noteq> []"
  then show "hd (calls w'') = Call ''AgentText'' [] []"
    by (rule simple_test_first)
qed

theorem base_url_flag_witness:
  "parser_of Get_unread = Some get_unread_parser
   \<and> parse_args get_unread_parser [Opt ''--base-url'' (Some ''http://10.0.0.5:8080'')]
       = Parsed ((defaults get_unread_parser)(''base_url'' := PStr ''http://10.0.0.5:8080''))
   \<and> parse_args get_unread_parser ([Opt ''--base-url'' (Some ''http://10.0.0.5:8080'')] @ [Opt ''--base-url'' (Some ''http://h:1'')])
       = Parsed ((defaults get_unread_parser)(''base_url'' := PStr ''http://h:1''))
   \<and> run_script Get_unread (env_of True (\<lambda>c. Returns PNone) (\<lambda>p. True) (\<lambda>p. Returns PNone)
          (\<lambda>i. Raises KeyboardInterrupt)) [Opt ''--base-url'' (Some ''http://10.0.0.5:8080'')] = Some (Exited 0, \<lparr>calls = [Call ''AgentText'' []
                      [(''base_url'', PStr ''http://10.0.0.5:8080''), (''timeout'', PInt 30)],
                    Call ''client.messages.get_unread'' [] []],
           stdout = [Json (PDict [(''success'', PBool True), (''unread'', PNone)])]\<rparr>)
   \<and> run_script Watch_messages (env_of True (\<lambda>c. Returns PNone) (\<lambda>p. True) (\<lambda>p. Returns PNone)
          (\<lambda>i. Raises KeyboardInterrupt)) [Opt ''--base-url'' (Some ''http://10.0.0.5:8080'')] = Some (Exited 0, \<lparr>calls = [Call ''AgentText'' [] [(''base_url'', PStr ''http://localhost:3000'')],
                    Call ''client.watcher.start'' [] [(''callback'', on_message_ref)]],
           stdout = [Json (PDict [(''success'', PBool True),
                                  (''message'', PStr ''Starting message watcher...'')]),
                     Json (PDict [(''success'', PBool True),
                                  (''message'', PStr ''Watcher stopped'')])]\<rparr>)
   \<and> run_script Simple_test (env_of True (\<lambda>c. Returns PNone) (\<lambda>p. True) (\<lambda>p. Returns PNone)
          (\<lambda>i. Raises KeyboardInterrupt)) [Opt ''--base-url'' (Some ''http://10.0.0.5:8080'')] = Some (Exited 0, \<lparr>calls = [Call ''AgentText'' [] [],
                    Call ''client.messages.send'' []
                      [(''to'', PStr ''+9255776728''), (''content'', PStr ''Hello!'')]],
           stdout = [Json (PDict
                      [(''success'', PBool True),
                       (''message'', PStr ''Test message sent successfully!''),
                       (''result'', PStr ''None'')])]\<rparr>)"
  using base_url_flag
    [of Get_unread get_unread_parser "[Opt ''--base-url'' (Some ''http://10.0.0.5:8080'')]"
        "(defaults get_unread_parser)(''base_url'' := PStr ''http://10.0.0.5:8080'')"
        "''http://h:1''" "(env_of True (\<lambda>c. Returns PNone) (\<lambda>p. True) (\<lambda>p. Returns PNone)
          (\<lambda>i. Raises KeyboardInterrupt))" "Exited 0" "\<lparr>calls = [Call ''AgentText'' []
                      [(''base_url'', PStr ''http://10.0.0.5:8080''), (''timeout'', PInt 30)],
                    Call ''client.messages.get_unread'' [] []],
           stdout = [Json (PDict [(''success'', PBool True), (''unread'', PNone)])]\<rparr>" "Exited 0" "\<lparr>calls = [Call ''AgentText'' [] [(''base_url'', PStr ''http://localhost:3000'')],
                    Call ''client.watcher.start'' [] [(''callback'', on_message_ref)]],
           stdout = [Json (PDict [(''success'', PBool True),
                                  (''message'', PStr ''Starting message watcher...'')]),
                     Json (PDict [(''success'', PBool True),
                                  (''message'', PStr ''Watcher stopped'')])]\<rparr>" "Exited 0" "\<lparr>calls = [Call ''AgentText'' [] [],
                    Call ''client.messages.send'' []
                      [(''to'', PStr ''+9255776728''), (''content'', PStr ''Hello!'')]],
           stdout = [Json (PDict
                      [(''success'', PBool True),
                       (''message'', PStr ''Test message sent successfully!''),
                       (''result'', PStr ''None'')])]\<rparr>"]
    watch_messages_interrupted [of "(env_of True (\<lambda>c. Returns PNone) (\<lambda>p. True) (\<lambda>p. Returns PNone)
          (\<lambda>i. Raises KeyboardInterrupt))" PNone PNone 0 "[Opt ''--base-url'' (Some ''http://10.0.0.5:8080'')]"]
  by (simp add: env_of_def parser_of_def parse_args_def get_unread_parser_def in_choices_def
        dest_of_def convert_def chosen_base_url_def given_values_def
        run_script_def get_unread_def import_guard_def get_unread_main_def with_args_def
        try_except_def get_unread_try_def construct_def invoke_def print_json_def emit_def w0_def
        simple_test_def simple_test_main_def simple_test_try_def dict_or_str_def is_dict_def
        py_str_def)

lemma simple_test_raised:
  "simple_test_try e w0 = (r, w') \<Longrightarrow> calls w' \<noteq> [] \<Longrightarrow>
   client e (last (calls w')) = Raises x \<Longrightarrow> r = Some x \<and> stdout w' = []"
  by (auto simp: simple_test_try_def invoke_def w0_def print_json_def emit_def
           split: prod.splits outcome.splits if_splits option.splits)

lemma watch_messages_raised:
  "watch_messages_try e w0 = Some (r, w') \<Longrightarrow> calls w' \<noteq> [] \<Longrightarrow>
   client e (last (calls w')) = Raises x \<Longrightarrow>
     r = Some x \<and> (\<forall>l \<in> set (stdout w'). \<not> is_failure l)"
  by (auto simp: watch_messages_try_def invoke_def w0_def emit_def Let_def is_failure_def field_def
           split: prod.splits outcome.splits if_splits option.splits)

lemma simple_test_connection:
  assumes "run_script Simple_test e argv = Some (st, w)" and "calls w \<noteq> []"
    and "client e (last (calls w)) = Raises (AgentTextConnectionException m)"
  shows "st = Exited 1 \<and> stdout w = [Json (failure m)]"
proof -
  from assms(1) have "import_guard e not_installed (simple_test_main e argv) = (st, w)"
    by (simp add: run_script_def simple_test_def)
  from import_guard_calls [OF this assms(2)]
  have r: "try_except (simple_test_try e) catch_all w0 = (st, w)" by (simp add: simple_test_main_def)
  obtain r' w' where b: "simple_test_try e w0 = (r', w')" by (cases "simple_test_try e w0")
  from r have "calls w = calls (snd (try_except (simple_test_try e) catch_all w0))"
    by (metis snd_conv)
  then have c: "calls w = calls w'" using b by (simp add: try_except_calls)
  from simple_test_raised [OF b] c assms(2,3)
  have "r' = Some (AgentTextConnectionException m)" "stdout w' = []" by simp_all
  with r b show ?thesis
    by (auto simp: try_except_def catch_all_def exc_str_def emit_def)
qed

lemma watch_messages_connection:
  assumes "run_script Watch_messages e argv = Some (st, w)" and "calls w \<noteq> []"
    and "client e (last (calls w)) = Raises (AgentTextConnectionException m)"
  shows "st = Exited 1
     \<and> (\<exists>pre. stdout w = pre @ [Json (failure m)] \<and> (\<forall>l \<in> set pre. \<not> is_failure l))"
proof -
  from assms(1,2) have "import_ok e"
    by (auto simp: run_script_def watch_messages_def emit_def w0_def split: if_splits)
  with assms(1) obtain rw where t: "watch_messages_try e w0 = Some rw"
    and r: "(st, w) = try_except (\<lambda>w. rw) watch_messages_handlers w0"
    by (auto simp: run_script_def watch_messages_def watch_messages_main_def split: option.splits)
  obtain r' w' where rw: "rw = (r', w')" by (cases rw)
  from r have "calls w = calls (snd (try_except (\<lambda>w. rw) watch_messages_handlers w0))"
    by (metis snd_conv)
  then have c: "calls w = calls w'" using rw by (simp add: try_except_calls)
  from watch_messages_raised [of e r' w'] t rw c assms(2,3)
  have "r' = Some (AgentTextConnectionException m)" "\<forall>l \<in> set (stdout w'). \<not> is_failure l"
    by simp_all
  with r rw show ?thesis
    by (auto simp: try_except_def watch_messages_handlers_def exc_str_def emit_def)
qed

section \<open>Connection failures\<close>

text \<open>
  C3, as the claim states it: in every command, the error text printed for a connection
  failure contains the configured base URL. \<^verbatim>\<open>simple_test.py\<close> and \<^verbatim>\<open>watch_messages.py\<close> have
  a single \<^verbatim>\<open>except Exception\<close> clause and print \<^verbatim>\<open>str(e)\<close> alone: for a connection failure
  with the message "Connection refused" the \<^verbatim>\<open>error\<close> field of the printed envelope is that
  message, without any URL.
\<close>

theorem connection_error_counterexample:
  "run_script Simple_test (env_of True (\<lambda>c. Raises (AgentTextConnectionException ''Connection refused''))
          (\<lambda>p. True) (\<lambda>p. Returns PNone) (\<lambda>i. Returns PNone)) []
     = Some (Exited 1, \<lparr>calls = [Call ''AgentText'' [] []], stdout = [Json (PDict [(''success'', PBool False), (''error'', PStr ''Connection refused'')])]\<rparr>)
   \<and> run_script Watch_messages (env_of True (\<lambda>c. Raises (AgentTextConnectionException ''Connection refused''))
          (\<lambda>p. True) (\<lambda>p. Returns PNone) (\<lambda>i. Returns PNone)) []
     = Some (Exited 1,
         \<lparr>calls = [Call ''AgentText'' [] [(''base_url'', PStr ''http://localhost:3000'')]],
          stdout = [Json (PDict [(''success'', PBool False), (''error'', PStr ''Connection refused'')])]\<rparr>)
   \<and> field ''error'' (Json (PDict [(''success'', PBool False), (''error'', PStr ''Connection refused'')])) = Some (PStr ''Connection refused'')
   \<and> \<not> sublist ''http://localhost:3000'' ''Connection refused''"
proof (intro conjI)
  show "run_script Simple_test (env_of True (\<lambda>c. Raises (AgentTextConnectionException ''Connection refused''))
          (\<lambda>p. True) (\<lambda>p. Returns PNone) (\<lambda>i. Returns PNone)) []
     = Some (Exited 1, \<lparr>calls = [Call ''AgentText'' [] []], stdout = [Json (PDict [(''success'', PBool False), (''error'', PStr ''Connection refused'')])]\<rparr>)"
    by (simp add: env_of_def run_script_def simple_test_def import_guard_def simple_test_main_def
          try_except_def simple_test_try_def invoke_def catch_all_def exc_str_def emit_def w0_def
          failure_def)
  show "run_script Watch_messages (env_of True (\<lambda>c. Raises (AgentTextConnectionException ''Connection refused''))
          (\<lambda>p. True) (\<lambda>p. Returns PNone) (\<lambda>i. Returns PNone)) []
     = Some (Exited 1,
         \<lparr>calls = [Call ''AgentText'' [] [(''base_url'', PStr ''http://localhost:3000'')]],
          stdout = [Json (PDict [(''success'', PBool False), (''error'', PStr ''Connection refused'')])]\<rparr>)"
    by (simp add: env_of_def run_script_def watch_messages_def watch_messages_main_def
          watch_messages_try_def try_except_def invoke_def watch_messages_handlers_def
          exc_str_def emit_def w0_def failure_def)
  show "field ''error'' (Json (PDict [(''success'', PBool False), (''error'', PStr ''Connection refused'')])) = Some (PStr ''Connection refused'')"
    by (simp add: field_def)
  show "\<not> sublist ''http://localhost:3000'' ''Connection refused''"
    by code_simp
qed

text \<open>
  C3, amended: when the last call a run made into the package raised
  \<^verbatim>\<open>AgentTextConnectionException\<close> with message \<open>m\<close>, the run exits with code 1. In each of
  the seven scripts that declare a parser it prints exactly one envelope, with
  \<^verbatim>\<open>success=false\<close> and the \<^verbatim>\<open>error\<close> field "Connection error: \<open>m\<close>. Make sure the API server
  is running on \<open>base_url\<close>": the error text read from the printed envelope contains the
  base URL chosen on the command line. In \<^verbatim>\<open>simple_test.py\<close> and \<^verbatim>\<open>watch_messages.py\<close> the one
  failure envelope printed is the last line, and its \<^verbatim>\<open>error\<close> field is \<open>m\<close> alone.
\<close>

theorem connection_error_names_base_url:
  assumes "run_script s e argv = Some (st, w)"
    and "calls w \<noteq> []"
    and "client e (last (calls w)) = Raises (AgentTextConnectionException m)"
  shows "(parser_of s \<noteq> None \<longrightarrow>
            st = Exited 1
            \<and> stdout w = [Json (PDict [(''success'', PBool False),
                                        (''error'', PStr (''Connection error: '' @ m
              @ ''. Make sure the API server is running on '' @ chosen_base_url argv))])]
            \<and> (\<forall>l \<in> set (stdout w).
                  is_failure l
                  \<and> (\<exists>err. field ''error'' l = Some (PStr err)
                         \<and> sublist (chosen_base_url argv) err)))
       \<and> (parser_of s = None \<longrightarrow>
            st = Exited 1
            \<and> stdout w \<noteq> []
            \<and> last (stdout w) = Json (PDict [(''success'', PBool False), (''error'', PStr m)])
            \<and> field ''error'' (last (stdout w)) = Some (PStr m)
            \<and> (\<forall>l \<in> set (butlast (stdout w)). \<not> is_failure l))"
proof (intro conjI impI)
  assume "parser_of s \<noteq> None"
  then obtain ds where ds: "parser_of s = Some ds" by blast
  note sc = script_connection_error [OF ds assms]
  from sc show "st = Exited 1" by simp
  from sc show out: "stdout w = [Json (PDict [(''success'', PBool False),
                                        (''error'', PStr (''Connection error: '' @ m
              @ ''. Make sure the API server is running on '' @ chosen_base_url argv))])]"
    by (simp add: failure_def)
  have "sublist (chosen_base_url argv)
         ((''Connection error: '' @ m @ ''. Make sure the API server is running on '')
            @ chosen_base_url argv)"
    by (rule sublist_append_leftI)
  then have "\<exists>err. field ''error''
                 (Json (PDict [(''success'', PBool False),
                               (''error'', PStr (''Connection error: '' @ m
              @ ''. Make sure the API server is running on '' @ chosen_base_url argv))]))
               = Some (PStr err) \<and> sublist (chosen_base_url argv) err"
    by (simp add: field_def)
  with out show "\<forall>l \<in> set (stdout w).
                  is_failure l
                  \<and> (\<exists>err. field ''error'' l = Some (PStr err)
                         \<and> sublist (chosen_base_url argv) err)"
    by (simp add: is_failure_def field_def)
next
  assume n: "parser_of s = None"
  then have "s = Simple_test \<or> s = Watch_messages"
    by (cases s) (simp_all add: parser_of_def)
  then have "st = Exited 1
     \<and> (\<exists>pre. stdout w = pre @ [Json (failure m)] \<and> (\<forall>l \<in> set pre. \<not> is_failure l))"
  proof
    assume "s = Simple_test"
    with simple_test_connection [of e argv st w m] assms show ?thesis by simp
  next
    assume "s = Watch_messages"
    with watch_messages_connection [of e argv st w m] assms show ?thesis by simp
  qed
  then obtain pre where st: "st = Exited 1"
    and o: "stdout w = pre @ [Json (failure m)]" and q: "\<forall>l \<in> set pre. \<not> is_failure l"
    by blast
  from st show "st = Exited 1" .
  from o show "stdout w \<noteq> []" by simp
  from o show "last (stdout w) = Json (PDict [(''success'', PBool False), (''error'', PStr m)])"
    by (simp add: failure_def)
  from o show "field ''error'' (last (stdout w)) = Some (PStr m)"
    by (simp add: failure_def field_def)
  from o q show "\<forall>l \<in> set (butlast (stdout w)). \<not> is_failure l"
    by (simp add: butlast_append)
qed

theorem connection_error_names_base_url_witness:
  "(run_script Get_unread (env_of True
          (\<lambda>c. if c = Call ''client.messages.get_unread'' [] []
               then Raises (AgentTextConnectionException ''Connection refused'')
               else Returns PNone)
          (\<lambda>p. True) (\<lambda>p. Returns PNone) (\<lambda>i. Returns PNone)) [Opt ''--base-url'' (Some ''http://10.0.0.5:8080'')] = Some (Exited 1, \<lparr>calls = [Call ''AgentText'' []
                      [(''base_url'', PStr ''http://10.0.0.5:8080''), (''timeout'', PInt 30)],
                    Call ''client.messages.get_unread'' [] []],
           stdout = [Json (PDict [(''success'', PBool False),
             (''error'', PStr ''Connection error: Connection refused. Make sure the API server is running on http://10.0.0.5:8080'')])]\<rparr>)
    \<and> client (env_of True
          (\<lambda>c. if c = Call ''client.messages.get_unread'' [] []
               then Raises (AgentTextConnectionException ''Connection refused'')
               else Returns PNone)
          (\<lambda>p. True) (\<lambda>p. Returns PNone) (\<lambda>i. Returns PNone)) (Call ''client.messages.get_unread'' [] [])
        = Raises (AgentTextConnectionException ''Connection refused'')
    \<and> parser_of Get_unread \<noteq> None
    \<and> sublist ''http://10.0.0.5:8080''
        ''Connection error: Connection refused. Make sure the API server is running on http://10.0.0.5:8080'')
   \<and> (run_script Simple_test (env_of True (\<lambda>c. Raises (AgentTextConnectionException ''Connection refused''))
          (\<lambda>p. True) (\<lambda>p. Returns PNone) (\<lambda>i. Returns PNone)) [] = Some (Exited 1, \<lparr>calls = [Call ''AgentText'' [] []],
           stdout = [Json (PDict [(''success'', PBool False), (''error'', PStr ''Connection refused'')])]\<rparr>)
    \<and> parser_of Simple_test = None
    \<and> field ''error'' (last (stdout \<lparr>calls = [Call ''AgentText'' [] []],
           stdout = [Json (PDict [(''success'', PBool False), (''error'', PStr ''Connection refused'')])]\<rparr>)) = Some (PStr ''Connection refused''))"
proof (rule conjI)
  show "run_script Get_unread (env_of True
          (\<lambda>c. if c = Call ''client.messages.get_unread'' [] []
               then Raises (AgentTextConnectionException ''Connection refused'')
               else Returns PNone)
          (\<lambda>p. True) (\<lambda>p. Returns PNone) (\<lambda>i. Returns PNone)) [Opt ''--base-url'' (Some ''http://10.0.0.5:8080'')] = Some (Exited 1, \<lparr>calls = [Call ''AgentText'' []
                      [(''base_url'', PStr ''http://10.0.0.5:8080''), (''timeout'', PInt 30)],
                    Call ''client.messages.get_unread'' [] []],
           stdout = [Json (PDict [(''success'', PBool False),
             (''error'', PStr ''Connection error: Connection refused. Make sure the API server is running on http://10.0.0.5:8080'')])]\<rparr>)
    \<and> client (env_of True
          (\<lambda>c. if c = Call ''client.messages.get_unread'' [] []
               then Raises (AgentTextConnectionException ''Connection refused'')
               else Returns PNone)
          (\<lambda>p. True) (\<lambda>p. Returns PNone) (\<lambda>i. Returns PNone)) (Call ''client.messages.get_unread'' [] [])
        = Raises (AgentTextConnectionException ''Connection refused'')
    \<and> parser_of Get_unread \<noteq> None
    \<and> sublist ''http://10.0.0.5:8080''
        ''Connection error: Connection refused. Make sure the API server is running on http://10.0.0.5:8080''"
    using connection_error_names_base_url
      [of Get_unread "(env_of True
          (\<lambda>c. if c = Call ''client.messages.get_unread'' [] []
               then Raises (AgentTextConnectionException ''Connection refused'')
               else Returns PNone)
          (\<lambda>p. True) (\<lambda>p. Returns PNone) (\<lambda>i. Returns PNone))" "[Opt ''--base-url'' (Some ''http://10.0.0.5:8080'')]" "Exited 1" "\<lparr>calls = [Call ''AgentText'' []
                      [(''base_url'', PStr ''http://10.0.0.5:8080''), (''timeout'', PInt 30)],
                    Call ''client.messages.get_unread'' [] []],
           stdout = [Json (PDict [(''success'', PBool False),
             (''error'', PStr ''Connection error: Connection refused. Make sure the API server is running on http://10.0.0.5:8080'')])]\<rparr>" "''Connection refused''"]
    by (simp add: env_of_def parser_of_def parse_args_def get_unread_parser_def in_choices_def
          dest_of_def convert_def chosen_base_url_def given_values_def
          run_script_def get_unread_def import_guard_def get_unread_main_def with_args_def
          try_except_def get_unread_try_def construct_def invoke_def client_handlers_def
          emit_def w0_def py_str_def failure_def is_failure_def field_def)
  show "run_script Simple_test (env_of True (\<lambda>c. Raises (AgentTextConnectionException ''Connection refused''))
          (\<lambda>p. True) (\<lambda>p. Returns PNone) (\<lambda>i. Returns PNone)) [] = Some (Exited 1, \<lparr>calls = [Call ''AgentText'' [] []],
           stdout = [Json (PDict [(''success'', PBool False), (''error'', PStr ''Connection refused'')])]\<rparr>)
    \<and> parser_of Simple_test = None
    \<and> field ''error'' (last (stdout \<lparr>calls = [Call ''AgentText'' [] []],
           stdout = [Json (PDict [(''success'', PBool False), (''error'', PStr ''Connection refused'')])]\<rparr>)) = Some (PStr ''Connection refused'')"
    using connection_error_names_base_url
      [of Simple_test "(env_of True (\<lambda>c. Raises (AgentTextConnectionException ''Connection refused''))
          (\<lambda>p. True) (\<lambda>p. Returns PNone) (\<lambda>i. Returns PNone))" "[]" "Exited 1" "\<lparr>calls = [Call ''AgentText'' [] []],
           stdout = [Json (PDict [(''success'', PBool False), (''error'', PStr ''Connection refused'')])]\<rparr>" "''Connection refused''"]
    by (simp add: env_of_def parser_of_def run_script_def simple_test_def import_guard_def
          simple_test_main_def try_except_def simple_test_try_def invoke_def catch_all_def
          exc_str_def emit_def w0_def failure_def field_def)
qed

end
